theory Spec2Isabelle
  imports Complex_Main "HOL-Library.AList" "HOL-Library.Multiset"
begin

section \<open>Data model (shared/schema.ts)\<close>

text \<open>
  A \<open>time\<close> is a reading of the clock, the \<open>getTime()\<close> of a \<open>new Date()\<close>: milliseconds
  since the epoch, an instant of the present, which every \<open>timestamp\<close> column takes. A
  \<open>date\<close> is a \<open>Date\<close> object that the code has computed with \<open>setDate\<close>: it may lie far
  from the present, and it may be an \<open>Invalid Date\<close>.

  Nullable columns and optional properties are \<open>option\<close>s (\<open>None\<close> stands for \<open>null\<close> and
  \<open>undefined\<close>). For the nullable columns with a database default (\<open>care_health\<close>,
  \<open>is_public\<close>, \<open>is_completed\<close>, \<open>likes\<close>) the two are kept apart, since an insert that
  leaves the property out gets the default and one that gives \<open>null\<close> gets \<open>NULL\<close>. The
  integer columns hold integers and the \<open>real\<close> column a real number. The text columns
  \<open>subscription_type\<close> and \<open>action_type\<close> stay strings, as the code compares them with
  string literals.
\<close>

type_synonym time = int

datatype date = Date time | InvalidDate

datatype 'a optional = Undefined | Null | Val 'a

record user =
  user_id :: int
  username :: string
  password :: string
  email :: string
  firstName :: "string option"
  lastName :: "string option"
  subscriptionType :: string
  identificationsRemaining :: int
  stripeCustomerId :: "string option"
  stripeSubscriptionId :: "string option"
  trialEndDate :: "date option"
  isBetaTester :: "bool option"

text \<open>
  \<open>InsertPlant\<close> is \<open>Plant\<close> without \<open>id\<close> (\<open>createInsertSchema(plants).omit({ id: true })\<close>);
  \<open>{ ...insertPlant, id }\<close> is the record extension. Columns with a database default
  (\<open>dateAdded\<close>, \<open>careHealth\<close>, \<open>isPublic\<close>) may be absent from an insert.
\<close>

record insertPlant =
  plant_userId :: int
  name :: string
  scientificName :: "string option"
  imageUrl :: "string option"
  dateAdded :: "time option"
  waterFrequency :: int
  lastWatered :: "time option"
  fertilizeFrequency :: "int option"
  lastFertilized :: "time option"
  lightNeeds :: "string option"
  plant_notes :: "string option"
  careHealth :: "real optional"
  isPublic :: "bool optional"

record plant = insertPlant +
  plant_id :: int

record insertCareAction =
  plantId :: int
  action_userId :: int
  actionType :: string
  dueDate :: date
  completedAt :: "time option"
  isCompleted :: "bool optional"

record careAction = insertCareAction +
  action_id :: int

record insertCommunityShare =
  share_userId :: int
  share_plantId :: int
  title :: string
  content :: "string option"
  share_imageUrl :: "string option"
  datePosted :: "time option"
  likes :: "int optional"

record communityShare = insertCommunityShare +
  share_id :: int

text \<open>
  A \<open>Partial<T>\<close> argument is the list of the properties the object literal gives, in
  order; \<open>{ ...x, ...data }\<close> and the SQL \<open>SET\<close> clause assign them one by one. The
  properties are those that the callers pass: for a user \<open>subscriptionType\<close>,
  \<open>identificationsRemaining\<close>, \<open>trialEndDate\<close> (a computed \<open>Date\<close>) and \<open>isBetaTester\<close>; for
  a plant the eight that the schema of \<open>PUT /api/plants/:id\<close> lets through; for a care
  action \<open>isCompleted\<close> and \<open>completedAt\<close> (a \<open>new Date()\<close>).
\<close>

datatype user_field =
    SubscriptionType string
  | IdentificationsRemaining int
  | TrialEndDate date
  | IsBetaTester bool

fun set_user_field :: "user_field \<Rightarrow> user \<Rightarrow> user" where
  "set_user_field (SubscriptionType v) u = u\<lparr>subscriptionType := v\<rparr>"
| "set_user_field (IdentificationsRemaining v) u = u\<lparr>identificationsRemaining := v\<rparr>"
| "set_user_field (TrialEndDate v) u = u\<lparr>trialEndDate := Some v\<rparr>"
| "set_user_field (IsBetaTester v) u = u\<lparr>isBetaTester := Some v\<rparr>"

definition merge_user :: "user \<Rightarrow> user_field list \<Rightarrow> user" where
  "merge_user u userData = fold set_user_field userData u"

datatype plant_field =
    Name string
  | ScientificName string
  | ImageUrl string
  | WaterFrequency int
  | FertilizeFrequency int
  | LightNeeds string
  | Notes string
  | IsPublic bool

fun set_plant_field :: "plant_field \<Rightarrow> plant \<Rightarrow> plant" where
  "set_plant_field (Name v) p = p\<lparr>name := v\<rparr>"
| "set_plant_field (ScientificName v) p = p\<lparr>scientificName := Some v\<rparr>"
| "set_plant_field (ImageUrl v) p = p\<lparr>imageUrl := Some v\<rparr>"
| "set_plant_field (WaterFrequency v) p = p\<lparr>waterFrequency := v\<rparr>"
| "set_plant_field (FertilizeFrequency v) p = p\<lparr>fertilizeFrequency := Some v\<rparr>"
| "set_plant_field (LightNeeds v) p = p\<lparr>lightNeeds := Some v\<rparr>"
| "set_plant_field (Notes v) p = p\<lparr>plant_notes := Some v\<rparr>"
| "set_plant_field (IsPublic v) p = p\<lparr>isPublic := Val v\<rparr>"

definition merge_plant :: "plant \<Rightarrow> plant_field list \<Rightarrow> plant" where
  "merge_plant p plantData = fold set_plant_field plantData p"

datatype careAction_field =
    IsCompleted bool
  | CompletedAt time

fun set_careAction_field :: "careAction_field \<Rightarrow> careAction \<Rightarrow> careAction" where
  "set_careAction_field (IsCompleted v) a = a\<lparr>isCompleted := Val v\<rparr>"
| "set_careAction_field (CompletedAt v) a = a\<lparr>completedAt := Some v\<rparr>"

definition merge_careAction :: "careAction \<Rightarrow> careAction_field list \<Rightarrow> careAction" where
  "merge_careAction a careActionData = fold set_careAction_field careActionData a"

section \<open>MemStorage\<close>

text \<open>
  A JavaScript \<open>Map\<close> keeps its entries in insertion order: \<open>set\<close> on a present key
  replaces the value in place, on a new key appends; \<open>delete\<close> tells whether the key
  was present; \<open>values()\<close> lists the values in that order.
\<close>

definition map_get :: "('k \<times> 'v) list \<Rightarrow> 'k \<Rightarrow> 'v option" where
  "map_get m k = map_of m k"

definition map_set :: "('k \<times> 'v) list \<Rightarrow> 'k \<Rightarrow> 'v \<Rightarrow> ('k \<times> 'v) list" where
  "map_set m k v = AList.update k v m"

definition map_delete :: "('k \<times> 'v) list \<Rightarrow> 'k \<Rightarrow> bool \<times> ('k \<times> 'v) list" where
  "map_delete m k = (k \<in> set (map fst m), AList.delete k m)"

definition map_values :: "('k \<times> 'v) list \<Rightarrow> 'v list" where
  "map_values m = map snd m"

record MemStorage =
  users :: "(int \<times> user) list"
  plants :: "(int \<times> plant) list"
  careActions :: "(int \<times> careAction) list"
  communityShares :: "(int \<times> communityShare) list"
  userId :: int
  plantId_counter :: int
  careActionId :: int
  communityShareId :: int

text \<open>The constructor: empty maps, counters at 1, then the sample user \<open>demo\<close>.\<close>

definition MemStorage_new :: MemStorage where
  "MemStorage_new =
     \<lparr>users = [(1, \<lparr>user_id = 1, username = ''demo'', password = ''password123'',
                     email = ''demo@example.com'', firstName = Some ''Emma'',
                     lastName = Some ''Wilson'', subscriptionType = ''free'',
                     identificationsRemaining = 5, stripeCustomerId = None,
                     stripeSubscriptionId = None, trialEndDate = None,
                     isBetaTester = None\<rparr>)],
      plants = [], careActions = [], communityShares = [],
      userId = 2, plantId_counter = 1, careActionId = 1, communityShareId = 1\<rparr>"

definition mem_getUser :: "int \<Rightarrow> MemStorage \<Rightarrow> user option" where
  "mem_getUser i st = map_get (users st) i"

definition mem_updateUser :: "int \<Rightarrow> user_field list \<Rightarrow> MemStorage \<Rightarrow> user option \<times> MemStorage" where
  "mem_updateUser i userData st =
     (case map_get (users st) i of
        None \<Rightarrow> (None, st)
      | Some u \<Rightarrow>
          let updatedUser = merge_user u userData
          in (Some updatedUser, st\<lparr>users := map_set (users st) i updatedUser\<rparr>))"


definition mem_getPlant :: "int \<Rightarrow> MemStorage \<Rightarrow> plant option" where
  "mem_getPlant i st = map_get (plants st) i"

definition mem_createPlant :: "insertPlant \<Rightarrow> MemStorage \<Rightarrow> plant \<times> MemStorage" where
  "mem_createPlant ip st =
     (let i = plantId_counter st;
          p = insertPlant.extend ip (plant.fields i)
      in (p, st\<lparr>plants := map_set (plants st) i p, plantId_counter := i + 1\<rparr>))"

definition mem_updatePlant :: "int \<Rightarrow> plant_field list \<Rightarrow> MemStorage \<Rightarrow> plant option \<times> MemStorage" where
  "mem_updatePlant i plantData st =
     (case map_get (plants st) i of
        None \<Rightarrow> (None, st)
      | Some p \<Rightarrow>
          let updatedPlant = merge_plant p plantData
          in (Some updatedPlant, st\<lparr>plants := map_set (plants st) i updatedPlant\<rparr>))"

definition mem_deletePlant :: "int \<Rightarrow> MemStorage \<Rightarrow> bool \<times> MemStorage" where
  "mem_deletePlant i st =
     (let (was, m) = map_delete (plants st) i in (was, st\<lparr>plants := m\<rparr>))"

definition mem_updatePlantWatered :: "time \<Rightarrow> int \<Rightarrow> MemStorage \<Rightarrow> plant option \<times> MemStorage" where
  "mem_updatePlantWatered now i st =
     (case map_get (plants st) i of
        None \<Rightarrow> (None, st)
      | Some p \<Rightarrow>
          let updatedPlant = p\<lparr>lastWatered := Some now, careHealth := Val 100\<rparr>
          in (Some updatedPlant, st\<lparr>plants := map_set (plants st) i updatedPlant\<rparr>))"

definition mem_updatePlantFertilized :: "time \<Rightarrow> int \<Rightarrow> MemStorage \<Rightarrow> plant option \<times> MemStorage" where
  "mem_updatePlantFertilized now i st =
     (case map_get (plants st) i of
        None \<Rightarrow> (None, st)
      | Some p \<Rightarrow>
          let updatedPlant = p\<lparr>lastFertilized := Some now\<rparr>
          in (Some updatedPlant, st\<lparr>plants := map_set (plants st) i updatedPlant\<rparr>))"



definition mem_getCareActionsForPlant :: "int \<Rightarrow> MemStorage \<Rightarrow> careAction list" where
  "mem_getCareActionsForPlant pid st =
     filter (\<lambda>action. plantId action = pid) (map_values (careActions st))"


definition mem_createCareAction :: "insertCareAction \<Rightarrow> MemStorage \<Rightarrow> careAction \<times> MemStorage" where
  "mem_createCareAction ica st =
     (let i = careActionId st;
          a = insertCareAction.extend ica (careAction.fields i)
      in (a, st\<lparr>careActions := map_set (careActions st) i a, careActionId := i + 1\<rparr>))"

definition mem_updateCareAction ::
  "int \<Rightarrow> careAction_field list \<Rightarrow> MemStorage \<Rightarrow> careAction option \<times> MemStorage" where
  "mem_updateCareAction i careActionData st =
     (case map_get (careActions st) i of
        None \<Rightarrow> (None, st)
      | Some a \<Rightarrow>
          let updatedCareAction = merge_careAction a careActionData
          in (Some updatedCareAction,
              st\<lparr>careActions := map_set (careActions st) i updatedCareAction\<rparr>))"

definition mem_markCareActionComplete ::
  "time \<Rightarrow> int \<Rightarrow> MemStorage \<Rightarrow> careAction option \<times> MemStorage" where
  "mem_markCareActionComplete now i st =
     (case map_get (careActions st) i of
        None \<Rightarrow> (None, st)
      | Some a \<Rightarrow>
          let updatedCareAction = a\<lparr>isCompleted := Val True, completedAt := Some now\<rparr>;
              st1 = st\<lparr>careActions := map_set (careActions st) i updatedCareAction\<rparr>;
              st2 = (case map_get (plants st1) (plantId a) of
                       None \<Rightarrow> st1
                     | Some p \<Rightarrow>
                         if actionType a = ''water''
                         then snd (mem_updatePlantWatered now (plant_id p) st1)
                         else if actionType a = ''fertilize''
                         then snd (mem_updatePlantFertilized now (plant_id p) st1)
                         else st1)
          in (Some updatedCareAction, st2))"

definition mem_deleteCareAction :: "int \<Rightarrow> MemStorage \<Rightarrow> bool \<times> MemStorage" where
  "mem_deleteCareAction i st =
     (let (was, m) = map_delete (careActions st) i in (was, st\<lparr>careActions := m\<rparr>))"





definition mem_deleteCommunityShare :: "int \<Rightarrow> MemStorage \<Rightarrow> bool \<times> MemStorage" where
  "mem_deleteCommunityShare i st =
     (let (was, m) = map_delete (communityShares st) i in (was, st\<lparr>communityShares := m\<rparr>))"

section \<open>DatabaseStorage\<close>

text \<open>
  The relational store behind \<open>db\<close>: each table is the list of its rows, each \<open>serial\<close>
  column has its sequence. The query builder's calls are read as SQL: a \<open>select ... where\<close>
  keeps the matching rows, an \<open>update ... set ... where ... returning\<close> rewrites every
  matching row and returns the rewritten rows, a \<open>delete ... where\<close> drops the matching
  rows and reports nothing. \<open>const [x] = rows; return x || undefined\<close> takes the first
  row, if any.
\<close>

record Database =
  users_table :: "user list"
  plants_table :: "plant list"
  care_actions_table :: "careAction list"
  community_shares_table :: "communityShare list"
  users_id_seq :: int
  plants_id_seq :: int
  care_actions_id_seq :: int
  community_shares_id_seq :: int

definition Database_empty :: Database where
  "Database_empty =
     \<lparr>users_table = [], plants_table = [], care_actions_table = [],
      community_shares_table = [],
      users_id_seq = 1, plants_id_seq = 1, care_actions_id_seq = 1,
      community_shares_id_seq = 1\<rparr>"

definition select_where :: "('r \<Rightarrow> bool) \<Rightarrow> 'r list \<Rightarrow> 'r list" where
  "select_where cond rows = filter cond rows"

definition update_where_returning ::
  "('r \<Rightarrow> 'r) \<Rightarrow> ('r \<Rightarrow> bool) \<Rightarrow> 'r list \<Rightarrow> 'r list \<times> 'r list" where
  "update_where_returning assign cond rows =
     (map assign (filter cond rows), map (\<lambda>r. if cond r then assign r else r) rows)"

definition delete_where :: "('r \<Rightarrow> bool) \<Rightarrow> 'r list \<Rightarrow> 'r list" where
  "delete_where cond rows = filter (\<lambda>r. \<not> cond r) rows"

definition first_row :: "'r list \<Rightarrow> 'r option" where
  "first_row rows = (case rows of [] \<Rightarrow> None | r # _ \<Rightarrow> Some r)"

text \<open>
  What the code leaves to the database engine and its driver. A statement whose values a
  column does not take is rejected, and the method throws with the tables as they were:
  an \<open>integer\<close> column takes the 32-bit integers, a \<open>text\<close> column the strings without a
  NUL character, a \<open>timestamp\<close> column no \<open>Invalid Date\<close> (the driver's \<open>toISOString\<close>
  throws); which valid dates far from the present pass is the engine's matter, as is the
  single-precision number that a \<open>real\<close> column keeps for the one it is given, and the
  order in which a \<open>select\<close> without \<open>ORDER BY\<close> returns its rows. An \<open>update\<close> with an
  empty \<open>SET\<close> clause is refused by the query builder. Ids compared in a \<open>where\<close> clause
  are taken to be 32-bit integers.

  A method that may throw returns an \<open>option\<close>: \<open>None\<close> when it throws.
\<close>

record engine =
  accepts_timestamp :: "time \<Rightarrow> bool"
  float4 :: "real \<Rightarrow> real option"
  users_order :: "user list \<Rightarrow> user list"
  plants_order :: "plant list \<Rightarrow> plant list"
  care_actions_order :: "careAction list \<Rightarrow> careAction list"
  community_shares_order :: "communityShare list \<Rightarrow> communityShare list"

definition int4 :: "int \<Rightarrow> bool" where
  "int4 v = (- 2147483648 \<le> v \<and> v \<le> 2147483647)"

definition text_ok :: "string \<Rightarrow> bool" where
  "text_ok s = (CHR 0x00 \<notin> set s)"

definition timestamp_ok :: "engine \<Rightarrow> date \<Rightarrow> bool" where
  "timestamp_ok E d = (case d of InvalidDate \<Rightarrow> False | Date t \<Rightarrow> accepts_timestamp E t)"

definition if_given :: "('a \<Rightarrow> bool) \<Rightarrow> 'a option \<Rightarrow> bool" where
  "if_given ok v = (case v of None \<Rightarrow> True | Some x \<Rightarrow> ok x)"

fun user_field_ok :: "engine \<Rightarrow> user_field \<Rightarrow> bool" where
  "user_field_ok E (SubscriptionType v) = text_ok v"
| "user_field_ok E (IdentificationsRemaining v) = int4 v"
| "user_field_ok E (TrialEndDate v) = timestamp_ok E v"
| "user_field_ok E (IsBetaTester v) = True"

fun plant_field_ok :: "plant_field \<Rightarrow> bool" where
  "plant_field_ok (Name v) = text_ok v"
| "plant_field_ok (ScientificName v) = text_ok v"
| "plant_field_ok (ImageUrl v) = text_ok v"
| "plant_field_ok (WaterFrequency v) = int4 v"
| "plant_field_ok (FertilizeFrequency v) = int4 v"
| "plant_field_ok (LightNeeds v) = text_ok v"
| "plant_field_ok (Notes v) = text_ok v"
| "plant_field_ok (IsPublic v) = True"

definition plant_values_ok :: "engine \<Rightarrow> insertPlant \<Rightarrow> bool" where
  "plant_values_ok E ip =
     (int4 (plant_userId ip) \<and> text_ok (name ip) \<and> if_given text_ok (scientificName ip) \<and>
      if_given text_ok (imageUrl ip) \<and> int4 (waterFrequency ip) \<and>
      if_given int4 (fertilizeFrequency ip) \<and> if_given text_ok (lightNeeds ip) \<and>
      if_given text_ok (plant_notes ip) \<and>
      (case careHealth ip of Val h \<Rightarrow> float4 E h \<noteq> None | _ \<Rightarrow> True))"

definition careAction_values_ok :: "engine \<Rightarrow> insertCareAction \<Rightarrow> bool" where
  "careAction_values_ok E ica =
     (int4 (plantId ica) \<and> int4 (action_userId ica) \<and> text_ok (actionType ica) \<and>
      timestamp_ok E (dueDate ica))"


definition db_getUser :: "int \<Rightarrow> Database \<Rightarrow> user option" where
  "db_getUser i db = first_row (select_where (\<lambda>r. user_id r = i) (users_table db))"

definition db_updateUser ::
  "engine \<Rightarrow> int \<Rightarrow> user_field list \<Rightarrow> Database \<Rightarrow> (user option \<times> Database) option" where
  "db_updateUser E i userData db =
     (if userData = [] \<or> \<not> list_all (user_field_ok E) userData then None
      else
        let (returned, rows) =
              update_where_returning (\<lambda>r. merge_user r userData) (\<lambda>r. user_id r = i)
                (users_table db)
        in Some (first_row returned, db\<lparr>users_table := rows\<rparr>))"


definition db_getPlant :: "int \<Rightarrow> Database \<Rightarrow> plant option" where
  "db_getPlant i db = first_row (select_where (\<lambda>r. plant_id r = i) (plants_table db))"

text \<open>
  An insert takes \<open>id\<close> from the sequence and fills the columns the values leave out with
  their defaults: \<open>date_added\<close> and \<open>date_posted\<close> \<open>defaultNow()\<close>, \<open>care_health\<close> 100,
  \<open>is_public\<close> false, \<open>is_completed\<close> false, \<open>likes\<close> 0. It fails when the sequence has
  left the range of the \<open>serial\<close> column.
\<close>

definition db_createPlant ::
  "engine \<Rightarrow> time \<Rightarrow> insertPlant \<Rightarrow> Database \<Rightarrow> (plant \<times> Database) option" where
  "db_createPlant E now ip db =
     (if \<not> plant_values_ok E ip \<or> \<not> int4 (plants_id_seq db) then None
      else
        let i = plants_id_seq db;
            row = insertPlant.extend
                    (ip\<lparr>dateAdded := (case dateAdded ip of None \<Rightarrow> Some now | Some d \<Rightarrow> Some d),
                        careHealth := (case careHealth ip of
                                         Undefined \<Rightarrow> Val 100
                                       | Null \<Rightarrow> Null
                                       | Val h \<Rightarrow> (case float4 E h of
                                                     None \<Rightarrow> Null
                                                   | Some kept \<Rightarrow> Val kept)),
                        isPublic := (case isPublic ip of Undefined \<Rightarrow> Val False | b \<Rightarrow> b)\<rparr>)
                    (plant.fields i)
        in Some (row, db\<lparr>plants_table := plants_table db @ [row], plants_id_seq := i + 1\<rparr>))"

definition db_updatePlant ::
  "int \<Rightarrow> plant_field list \<Rightarrow> Database \<Rightarrow> (plant option \<times> Database) option" where
  "db_updatePlant i plantData db =
     (if plantData = [] \<or> \<not> list_all plant_field_ok plantData then None
      else
        let (returned, rows) =
              update_where_returning (\<lambda>r. merge_plant r plantData) (\<lambda>r. plant_id r = i)
                (plants_table db)
        in Some (first_row returned, db\<lparr>plants_table := rows\<rparr>))"

definition db_deletePlant :: "int \<Rightarrow> Database \<Rightarrow> bool \<times> Database" where
  "db_deletePlant i db =
     (True, db\<lparr>plants_table := delete_where (\<lambda>r. plant_id r = i) (plants_table db)\<rparr>)"

definition db_updatePlantWatered :: "time \<Rightarrow> int \<Rightarrow> Database \<Rightarrow> plant option \<times> Database" where
  "db_updatePlantWatered now i db =
     (let (returned, rows) =
            update_where_returning (\<lambda>r. r\<lparr>lastWatered := Some now, careHealth := Val 100\<rparr>)
              (\<lambda>r. plant_id r = i) (plants_table db)
      in (first_row returned, db\<lparr>plants_table := rows\<rparr>))"

definition db_updatePlantFertilized :: "time \<Rightarrow> int \<Rightarrow> Database \<Rightarrow> plant option \<times> Database" where
  "db_updatePlantFertilized now i db =
     (let (returned, rows) =
            update_where_returning (\<lambda>r. r\<lparr>lastFertilized := Some now\<rparr>)
              (\<lambda>r. plant_id r = i) (plants_table db)
      in (first_row returned, db\<lparr>plants_table := rows\<rparr>))"



definition db_getCareActionsForPlant :: "engine \<Rightarrow> int \<Rightarrow> Database \<Rightarrow> careAction list" where
  "db_getCareActionsForPlant E pid db =
     care_actions_order E (select_where (\<lambda>r. plantId r = pid) (care_actions_table db))"


definition db_createCareAction ::
  "engine \<Rightarrow> insertCareAction \<Rightarrow> Database \<Rightarrow> (careAction \<times> Database) option" where
  "db_createCareAction E ica db =
     (if \<not> careAction_values_ok E ica \<or> \<not> int4 (care_actions_id_seq db) then None
      else
        let i = care_actions_id_seq db;
            row = insertCareAction.extend
                    (ica\<lparr>isCompleted :=
                           (case isCompleted ica of Undefined \<Rightarrow> Val False | b \<Rightarrow> b)\<rparr>)
                    (careAction.fields i)
        in Some (row, db\<lparr>care_actions_table := care_actions_table db @ [row],
                         care_actions_id_seq := i + 1\<rparr>))"

definition db_updateCareAction ::
  "int \<Rightarrow> careAction_field list \<Rightarrow> Database \<Rightarrow> (careAction option \<times> Database) option" where
  "db_updateCareAction i careActionData db =
     (if careActionData = [] then None
      else
        let (returned, rows) =
              update_where_returning (\<lambda>r. merge_careAction r careActionData)
                (\<lambda>r. action_id r = i) (care_actions_table db)
        in Some (first_row returned, db\<lparr>care_actions_table := rows\<rparr>))"

definition db_markCareActionComplete ::
  "time \<Rightarrow> int \<Rightarrow> Database \<Rightarrow> careAction option \<times> Database" where
  "db_markCareActionComplete now i db =
     (let (returned, rows) =
            update_where_returning (\<lambda>r. r\<lparr>isCompleted := Val True, completedAt := Some now\<rparr>)
              (\<lambda>r. action_id r = i) (care_actions_table db);
          db1 = db\<lparr>care_actions_table := rows\<rparr>;
          db2 = (case first_row returned of
                   None \<Rightarrow> db1
                 | Some updatedCareAction \<Rightarrow>
                     if actionType updatedCareAction = ''water''
                     then snd (db_updatePlantWatered now (plantId updatedCareAction) db1)
                     else if actionType updatedCareAction = ''fertilize''
                     then snd (db_updatePlantFertilized now (plantId updatedCareAction) db1)
                     else db1)
      in (first_row returned, db2))"

definition db_deleteCareAction :: "int \<Rightarrow> Database \<Rightarrow> bool \<times> Database" where
  "db_deleteCareAction i db =
     (True, db\<lparr>care_actions_table :=
                  delete_where (\<lambda>r. action_id r = i) (care_actions_table db)\<rparr>)"






section \<open>The storage interface\<close>

text \<open>
  \<open>storage\<close> is a \<open>DatabaseStorage\<close> when \<open>DATABASE_URL\<close> is set and a \<open>MemStorage\<close>
  otherwise; the request handlers reach it through \<open>IStorage\<close> only. The interface is a
  record of the methods over the store's state; a method that reads the clock takes the
  instant it reads. The methods that write values handed in by the caller may throw;
  those of \<open>MemStorage\<close> never do.
\<close>

record 's IStorage =
  getUser :: "int \<Rightarrow> 's \<Rightarrow> user option"
  updateUser :: "int \<Rightarrow> user_field list \<Rightarrow> 's \<Rightarrow> (user option \<times> 's) option"
  getPlant :: "int \<Rightarrow> 's \<Rightarrow> plant option"
  createPlant :: "time \<Rightarrow> insertPlant \<Rightarrow> 's \<Rightarrow> (plant \<times> 's) option"
  updatePlant :: "int \<Rightarrow> plant_field list \<Rightarrow> 's \<Rightarrow> (plant option \<times> 's) option"
  deletePlant :: "int \<Rightarrow> 's \<Rightarrow> bool \<times> 's"
  updatePlantWatered :: "time \<Rightarrow> int \<Rightarrow> 's \<Rightarrow> plant option \<times> 's"
  updatePlantFertilized :: "time \<Rightarrow> int \<Rightarrow> 's \<Rightarrow> plant option \<times> 's"
  getCareActionsForPlant :: "int \<Rightarrow> 's \<Rightarrow> careAction list"
  createCareAction :: "insertCareAction \<Rightarrow> 's \<Rightarrow> (careAction \<times> 's) option"
  updateCareAction :: "int \<Rightarrow> careAction_field list \<Rightarrow> 's \<Rightarrow> (careAction option \<times> 's) option"
  markCareActionComplete :: "time \<Rightarrow> int \<Rightarrow> 's \<Rightarrow> careAction option \<times> 's"
  deleteCareAction :: "int \<Rightarrow> 's \<Rightarrow> bool \<times> 's"

definition memStorage :: "MemStorage IStorage" where
  "memStorage =
     \<lparr>getUser = mem_getUser,
      updateUser = (\<lambda>i userData st. Some (mem_updateUser i userData st)),
      getPlant = mem_getPlant,
      createPlant = (\<lambda>now ip st. Some (mem_createPlant ip st)),
      updatePlant = (\<lambda>i plantData st. Some (mem_updatePlant i plantData st)),
      deletePlant = mem_deletePlant, updatePlantWatered = mem_updatePlantWatered,
      updatePlantFertilized = mem_updatePlantFertilized,
      getCareActionsForPlant = mem_getCareActionsForPlant,
      createCareAction = (\<lambda>ica st. Some (mem_createCareAction ica st)),
      updateCareAction = (\<lambda>i careActionData st. Some (mem_updateCareAction i careActionData st)),
      markCareActionComplete = mem_markCareActionComplete,
      deleteCareAction = mem_deleteCareAction\<rparr>"

definition databaseStorage :: "engine \<Rightarrow> Database IStorage" where
  "databaseStorage E =
     \<lparr>getUser = db_getUser, updateUser = db_updateUser E, getPlant = db_getPlant,
      createPlant = db_createPlant E, updatePlant = db_updatePlant,
      deletePlant = db_deletePlant, updatePlantWatered = db_updatePlantWatered,
      updatePlantFertilized = db_updatePlantFertilized,
      getCareActionsForPlant = db_getCareActionsForPlant E,
      createCareAction = db_createCareAction E, updateCareAction = db_updateCareAction,
      markCareActionComplete = db_markCareActionComplete,
      deleteCareAction = db_deleteCareAction\<rparr>"

section \<open>Moving a date by days\<close>

text \<open>
  \<open>const d = new Date(); d.setDate(d.getDate() + n)\<close> for an integer \<open>n\<close>, as ECMAScript
  defines \<open>setDate\<close>: the instant is turned into local time (\<open>LocalTime\<close>), moved by \<open>n\<close>
  days of 86400000 ms on the local calendar (\<open>MakeDay\<close>, \<open>MakeDate\<close>), turned back
  (\<open>UTC\<close>), and clipped to the range of a \<open>Date\<close> (\<open>TimeClip\<close>), beyond which the result
  is an \<open>Invalid Date\<close>. The server's time zone gives the offset of local time from UTC,
  at an instant and at a local time.
\<close>

record timezone =
  offset_at :: "time \<Rightarrow> int"
  offset_of_local :: "int \<Rightarrow> int"

definition msPerDay :: int where
  "msPerDay = 86400000"

definition TimeClip :: "int \<Rightarrow> date" where
  "TimeClip t = (if \<bar>t\<bar> \<le> 8640000000000000 then Date t else InvalidDate)"

definition addDays :: "timezone \<Rightarrow> time \<Rightarrow> int \<Rightarrow> date" where
  "addDays tz now n =
     (let local = now + offset_at tz now + n * msPerDay
      in TimeClip (local - offset_of_local tz local))"

section \<open>Request handlers (registerRoutes)\<close>

text \<open>
  A handler takes the storage, the server's time zone where it moves a date, the instant
  \<open>now\<close> at which the request is served (every \<open>new Date()\<close> of the request reads it), the
  session's \<open>userId\<close> (\<open>None\<close>: no session, answered 401 by \<open>isAuthenticated\<close>), the
  request's parameters, and the store; it returns the response and the store it leaves.
  \<open>req.user\<close> is what the session middleware loaded: \<open>storage.getUser(req.session.userId)\<close>,
  undefined when there is no such user; reading \<open>req.user.id\<close> then throws inside the
  handler's \<open>try\<close>. Whatever throws there, a storage method included, the \<open>catch\<close> answers
  500 with the writes made so far kept. A body that the zod schema rejects is \<open>None\<close>.

  The middleware also runs \<open>delete req.user.password\<close>; with \<open>MemStorage\<close> the object it
  strips is the stored one. No handler reads the password, and a handler is modelled from
  where its own code starts: the store it takes is the store the middleware has left.
\<close>

datatype body =
    Message string
  | UpgradeMessage string
  | InvalidData
  | PlantJson "plant option"
  | CareActionJson careAction
  | IdentifyJson string
  | TrialStartedJson date
  | UserTrialJson user date

datatype response = Response (status: nat) (payload: body)

text \<open>
  The object literal that the handlers pass to \<open>createCareAction\<close> for the next action of
  a plant: due \<open>freq\<close> days from now, not completed.
\<close>

definition next_action :: "timezone \<Rightarrow> time \<Rightarrow> int \<Rightarrow> int \<Rightarrow> string \<Rightarrow> int \<Rightarrow> insertCareAction" where
  "next_action tz now pid uid kind freq =
     \<lparr>plantId = pid, action_userId = uid, actionType = kind, dueDate = addDays tz now freq,
      completedAt = None, isCompleted = Val False\<rparr>"

definition create_plant ::
  "'s IStorage \<Rightarrow> timezone \<Rightarrow> time \<Rightarrow> int option \<Rightarrow> insertPlant option \<Rightarrow> 's
     \<Rightarrow> response \<times> 's" where
  "create_plant S tz now session reqBody st =
     (case session of
        None \<Rightarrow> (Response 401 (Message ''Unauthorized''), st)
      | Some sid \<Rightarrow>
          (case getUser S sid st of
             None \<Rightarrow> (Response 500 (Message ''Error creating plant''), st)
           | Some reqUser \<Rightarrow>
               (case reqBody of
                  None \<Rightarrow> (Response 400 InvalidData, st)
                | Some b \<Rightarrow>
                    let validatedData = b\<lparr>plant_userId := user_id reqUser\<rparr>
                    in (case createPlant S now validatedData st of
                          None \<Rightarrow> (Response 500 (Message ''Error creating plant''), st)
                        | Some (newPlant, st1) \<Rightarrow>
                            (case (if waterFrequency validatedData \<noteq> 0
                                   then map_option snd
                                          (createCareAction S
                                             (next_action tz now (plant_id newPlant)
                                                (user_id reqUser) ''water''
                                                (waterFrequency validatedData)) st1)
                                   else Some st1) of
                               None \<Rightarrow> (Response 500 (Message ''Error creating plant''), st1)
                             | Some st2 \<Rightarrow>
                                 (case (case fertilizeFrequency validatedData of
                                          None \<Rightarrow> Some st2
                                        | Some f \<Rightarrow>
                                            if f \<noteq> 0
                                            then map_option snd
                                                   (createCareAction S
                                                      (next_action tz now (plant_id newPlant)
                                                         (user_id reqUser) ''fertilize'' f) st2)
                                            else Some st2) of
                                    None \<Rightarrow>
                                      (Response 500 (Message ''Error creating plant''), st2)
                                  | Some st3 \<Rightarrow>
                                      (Response 201 (PlantJson (Some newPlant)), st3)))))))"

definition update_plant ::
  "'s IStorage \<Rightarrow> int option \<Rightarrow> int \<Rightarrow> plant_field list option \<Rightarrow> 's \<Rightarrow> response \<times> 's" where
  "update_plant S session plantId' reqBody st =
     (case session of
        None \<Rightarrow> (Response 401 (Message ''Unauthorized''), st)
      | Some sid \<Rightarrow>
          (case getPlant S plantId' st of
             None \<Rightarrow> (Response 404 (Message ''Plant not found''), st)
           | Some p \<Rightarrow>
               (case getUser S sid st of
                  None \<Rightarrow> (Response 500 (Message ''Error updating plant''), st)
                | Some reqUser \<Rightarrow>
                    if plant_userId p \<noteq> user_id reqUser
                    then (Response 403 (Message ''Not authorized to update this plant''), st)
                    else (case reqBody of
                            None \<Rightarrow> (Response 400 InvalidData, st)
                          | Some validatedData \<Rightarrow>
                              (case updatePlant S plantId' validatedData st of
                                 None \<Rightarrow> (Response 500 (Message ''Error updating plant''), st)
                               | Some (updatedPlant, st1) \<Rightarrow>
                                   (Response 200 (PlantJson updatedPlant), st1))))))"

definition delete_plant :: "'s IStorage \<Rightarrow> int option \<Rightarrow> int \<Rightarrow> 's \<Rightarrow> response \<times> 's" where
  "delete_plant S session plantId' st =
     (case session of
        None \<Rightarrow> (Response 401 (Message ''Unauthorized''), st)
      | Some sid \<Rightarrow>
          (case getPlant S plantId' st of
             None \<Rightarrow> (Response 404 (Message ''Plant not found''), st)
           | Some p \<Rightarrow>
               (case getUser S sid st of
                  None \<Rightarrow> (Response 500 (Message ''Error deleting plant''), st)
                | Some reqUser \<Rightarrow>
                    if plant_userId p \<noteq> user_id reqUser
                    then (Response 403 (Message ''Not authorized to delete this plant''), st)
                    else
                      let actions = getCareActionsForPlant S plantId' st;
                          st1 = fold (\<lambda>action s. snd (deleteCareAction S (action_id action) s))
                                  actions st;
                          (success, st2) = deletePlant S plantId' st1
                      in if success
                         then (Response 200 (Message ''Plant deleted successfully''), st2)
                         else (Response 500 (Message ''Error deleting plant''), st2))))"

definition water_plant ::
  "'s IStorage \<Rightarrow> timezone \<Rightarrow> time \<Rightarrow> int option \<Rightarrow> int \<Rightarrow> 's \<Rightarrow> response \<times> 's" where
  "water_plant S tz now session plantId' st =
     (case session of
        None \<Rightarrow> (Response 401 (Message ''Unauthorized''), st)
      | Some sid \<Rightarrow>
          (case getPlant S plantId' st of
             None \<Rightarrow> (Response 404 (Message ''Plant not found''), st)
           | Some p \<Rightarrow>
               (case getUser S sid st of
                  None \<Rightarrow> (Response 500 (Message ''Error watering plant''), st)
                | Some reqUser \<Rightarrow>
                    if plant_userId p \<noteq> user_id reqUser
                    then (Response 403 (Message ''Not authorized to water this plant''), st)
                    else
                      let (updatedPlant, st1) = updatePlantWatered S now plantId' st;
                          actions = getCareActionsForPlant S plantId' st1;
                          waterActions =
                            filter (\<lambda>a. actionType a = ''water'' \<and> isCompleted a \<noteq> Val True)
                              actions;
                          st2 = fold (\<lambda>action s.
                                        snd (markCareActionComplete S now (action_id action) s))
                                  waterActions st1
                      in if waterFrequency p \<noteq> 0
                         then (case createCareAction S
                                      (next_action tz now (plant_id p) (user_id reqUser)
                                         ''water'' (waterFrequency p)) st2 of
                                 None \<Rightarrow> (Response 500 (Message ''Error watering plant''), st2)
                               | Some (newAction, st3) \<Rightarrow>
                                   (Response 200 (PlantJson updatedPlant), st3))
                         else (Response 200 (PlantJson updatedPlant), st2))))"

definition fertilize_plant ::
  "'s IStorage \<Rightarrow> timezone \<Rightarrow> time \<Rightarrow> int option \<Rightarrow> int \<Rightarrow> 's \<Rightarrow> response \<times> 's" where
  "fertilize_plant S tz now session plantId' st =
     (case session of
        None \<Rightarrow> (Response 401 (Message ''Unauthorized''), st)
      | Some sid \<Rightarrow>
          (case getPlant S plantId' st of
             None \<Rightarrow> (Response 404 (Message ''Plant not found''), st)
           | Some p \<Rightarrow>
               (case getUser S sid st of
                  None \<Rightarrow> (Response 500 (Message ''Error fertilizing plant''), st)
                | Some reqUser \<Rightarrow>
                    if plant_userId p \<noteq> user_id reqUser
                    then (Response 403 (Message ''Not authorized to fertilize this plant''), st)
                    else
                      let (updatedPlant, st1) = updatePlantFertilized S now plantId' st;
                          actions = getCareActionsForPlant S plantId' st1;
                          fertilizeActions =
                            filter (\<lambda>a. actionType a = ''fertilize'' \<and> isCompleted a \<noteq> Val True)
                              actions;
                          st2 = fold (\<lambda>action s.
                                        snd (markCareActionComplete S now (action_id action) s))
                                  fertilizeActions st1
                      in (case fertilizeFrequency p of
                            None \<Rightarrow> (Response 200 (PlantJson updatedPlant), st2)
                          | Some f \<Rightarrow>
                              if f \<noteq> 0
                              then (case createCareAction S
                                           (next_action tz now (plant_id p) (user_id reqUser)
                                              ''fertilize'' f) st2 of
                                      None \<Rightarrow>
                                        (Response 500 (Message ''Error fertilizing plant''), st2)
                                    | Some (newAction, st3) \<Rightarrow>
                                        (Response 200 (PlantJson updatedPlant), st3))
                              else (Response 200 (PlantJson updatedPlant), st2)))))"

definition create_care_action ::
  "'s IStorage \<Rightarrow> int option \<Rightarrow> insertCareAction option \<Rightarrow> 's \<Rightarrow> response \<times> 's" where
  "create_care_action S session reqBody st =
     (case session of
        None \<Rightarrow> (Response 401 (Message ''Unauthorized''), st)
      | Some sid \<Rightarrow>
          (case getUser S sid st of
             None \<Rightarrow> (Response 500 (Message ''Error creating care action''), st)
           | Some reqUser \<Rightarrow>
               (case reqBody of
                  None \<Rightarrow> (Response 400 InvalidData, st)
                | Some b \<Rightarrow>
                    let validatedData = b\<lparr>action_userId := user_id reqUser\<rparr>
                    in (case getPlant S (plantId validatedData) st of
                          None \<Rightarrow>
                            (Response 403
                               (Message ''Not authorized to create care action for this plant''), st)
                        | Some p \<Rightarrow>
                            if plant_userId p \<noteq> user_id reqUser
                            then (Response 403
                                    (Message ''Not authorized to create care action for this plant''),
                                  st)
                            else
                              (case createCareAction S validatedData st of
                                 None \<Rightarrow>
                                   (Response 500 (Message ''Error creating care action''), st)
                               | Some (newCareAction, st1) \<Rightarrow>
                                   (Response 201 (CareActionJson newCareAction), st1))))))"

definition complete_care_action ::
  "'s IStorage \<Rightarrow> timezone \<Rightarrow> time \<Rightarrow> int option \<Rightarrow> int \<Rightarrow> 's \<Rightarrow> response \<times> 's" where
  "complete_care_action S tz now session actionId st =
     (case session of
        None \<Rightarrow> (Response 401 (Message ''Unauthorized''), st)
      | Some sid \<Rightarrow>
          let reqUser = getUser S sid st
          in (case updateCareAction S actionId [IsCompleted True, CompletedAt now] st of
                None \<Rightarrow> (Response 500 (Message ''Error completing care action''), st)
              | Some (action, st1) \<Rightarrow>
                  (case action of
                     None \<Rightarrow> (Response 404 (Message ''Care action not found''), st1)
                   | Some a \<Rightarrow>
                       if actionType a = ''water''
                       then
                         let st2 = snd (updatePlantWatered S now (plantId a) st1)
                         in (case getPlant S (plantId a) st2 of
                               None \<Rightarrow> (Response 200 (CareActionJson a), st2)
                             | Some p \<Rightarrow>
                                 if waterFrequency p \<noteq> 0
                                 then (case reqUser of
                                         None \<Rightarrow>
                                           (Response 500
                                              (Message ''Error completing care action''), st2)
                                       | Some u \<Rightarrow>
                                           (case createCareAction S
                                                   (next_action tz now (plant_id p) (user_id u)
                                                      ''water'' (waterFrequency p)) st2 of
                                              None \<Rightarrow>
                                                (Response 500
                                                   (Message ''Error completing care action''),
                                                 st2)
                                            | Some (newAction, st3) \<Rightarrow>
                                                (Response 200 (CareActionJson a), st3)))
                                 else (Response 200 (CareActionJson a), st2))
                       else if actionType a = ''fertilize''
                       then
                         let st2 = snd (updatePlantFertilized S now (plantId a) st1)
                         in (case getPlant S (plantId a) st2 of
                               None \<Rightarrow> (Response 200 (CareActionJson a), st2)
                             | Some p \<Rightarrow>
                                 (case fertilizeFrequency p of
                                    None \<Rightarrow> (Response 200 (CareActionJson a), st2)
                                  | Some f \<Rightarrow>
                                      if f \<noteq> 0
                                      then (case reqUser of
                                              None \<Rightarrow>
                                                (Response 500
                                                   (Message ''Error completing care action''),
                                                 st2)
                                            | Some u \<Rightarrow>
                                                (case createCareAction S
                                                        (next_action tz now (plant_id p)
                                                           (user_id u) ''fertilize'' f) st2 of
                                                   None \<Rightarrow>
                                                     (Response 500
                                                        (Message
                                                           ''Error completing care action''),
                                                      st2)
                                                 | Some (newAction, st3) \<Rightarrow>
                                                     (Response 200 (CareActionJson a), st3)))
                                      else (Response 200 (CareActionJson a), st2)))
                       else (Response 200 (CareActionJson a), st1))))"

text \<open>
  \<open>POST /api/identify\<close>. \<open>hasFile\<close> is \<open>req.file\<close> being there; \<open>apiKey\<close> is
  \<open>process.env.PLANT_ID_API_KEY || process.env.VITE_PLANT_ID_API_KEY\<close>, \<open>None\<close> when neither
  variable is set, and as good as unset when it is the empty string; \<open>upstream\<close> is what the
  \<open>axios.post\<close> to Plant.id gives if it is made: \<open>Some data\<close>, or \<open>None\<close> when it throws. The
  third component of the result tells whether the call to Plant.id was made.
\<close>

definition identify ::
  "'s IStorage \<Rightarrow> int option \<Rightarrow> bool \<Rightarrow> string option \<Rightarrow> string option \<Rightarrow> 's
     \<Rightarrow> response \<times> 's \<times> bool" where
  "identify S session hasFile apiKey upstream st =
     (case session of
        None \<Rightarrow> (Response 401 (Message ''Unauthorized''), st, False)
      | Some sid \<Rightarrow>
          if \<not> hasFile then (Response 400 (Message ''No image provided''), st, False)
          else
            (case getUser S sid st of
               None \<Rightarrow> (Response 500 (Message ''Error identifying plant''), st, False)
             | Some reqUser \<Rightarrow>
                 (case getUser S (user_id reqUser) st of
                    None \<Rightarrow> (Response 404 (Message ''User not found''), st, False)
                  | Some u \<Rightarrow>
                      if subscriptionType u = ''free'' \<and> identificationsRemaining u \<le> 0
                      then (Response 403
                              (UpgradeMessage
                                 ''No plant identifications remaining. Upgrade to premium for unlimited identifications.''),
                            st, False)
                      else
                        (case apiKey of
                           None \<Rightarrow>
                             (Response 500 (Message ''Plant.id API key not configured''), st, False)
                         | Some key \<Rightarrow>
                             if key = []
                             then (Response 500 (Message ''Plant.id API key not configured''),
                                   st, False)
                             else
                               (case upstream of
                                  None \<Rightarrow>
                                    (Response 500 (Message ''Error identifying plant''), st, True)
                                | Some plantIdData \<Rightarrow>
                                    if subscriptionType u = ''free''
                                    then (case updateUser S (user_id u)
                                                 [IdentificationsRemaining
                                                    (identificationsRemaining u - 1)] st of
                                            None \<Rightarrow>
                                              (Response 500 (Message ''Error identifying plant''),
                                               st, True)
                                          | Some (updated, st1) \<Rightarrow>
                                              (Response 200 (IdentifyJson plantIdData), st1, True))
                                    else (Response 200 (IdentifyJson plantIdData), st, True))))))"

text \<open>A run of identify requests, one after the other, each with its own inputs.\<close>

record identify_request =
  req_session :: "int option"
  req_hasFile :: bool
  req_apiKey :: "string option"
  req_upstream :: "string option"

fun identify_all :: "'s IStorage \<Rightarrow> identify_request list \<Rightarrow> 's \<Rightarrow> 's" where
  "identify_all S [] st = st"
| "identify_all S (r # rs) st =
     identify_all S rs
       (fst (snd (identify S (req_session r) (req_hasFile r) (req_apiKey r) (req_upstream r) st)))"

text \<open>
  \<open>POST /api/start-free-trial\<close>. The third component lists the trial-started emails
  handed to the mailer (address, trial end). \<open>subscriptionType\<close> is a \<open>NOT NULL\<close> column,
  so the handler's \<open>user.subscriptionType !== null\<close> holds. The analytics log line is
  left out.
\<close>

definition start_free_trial ::
  "'s IStorage \<Rightarrow> timezone \<Rightarrow> time \<Rightarrow> int option \<Rightarrow> 's
     \<Rightarrow> response \<times> 's \<times> (string \<times> date) list" where
  "start_free_trial S tz now session st =
     (case session of
        None \<Rightarrow> (Response 401 (Message ''Unauthorized''), st, [])
      | Some sid \<Rightarrow>
          (case getUser S sid st of
             None \<Rightarrow> (Response 500 (Message ''Server error starting free trial''), st, [])
           | Some u \<Rightarrow>
               if subscriptionType u \<noteq> ''free''
               then (Response 400 (Message ''You already have an active subscription or trial''),
                     st, [])
               else
                 let trialEnd = addDays tz now 3
                 in (case updateUser S (user_id u)
                            [SubscriptionType ''trial'', TrialEndDate trialEnd] st of
                       None \<Rightarrow>
                         (Response 500 (Message ''Server error starting free trial''), st, [])
                     | Some (updatedUser, st1) \<Rightarrow>
                         (case updatedUser of
                            None \<Rightarrow>
                              (Response 500 (Message ''Server error starting free trial''),
                               st1, [])
                          | Some updated \<Rightarrow>
                              (Response 200 (TrialStartedJson trialEnd), st1,
                               if email u \<noteq> [] then [(email u, trialEnd)] else [])))))"

text \<open>
  \<open>isAdmin\<close>: the user's name, or a non-empty email, contains \<open>admin\<close> in lower case
  (letters A to Z are lowered; the strings are ASCII).
\<close>

definition toLowerCase_char :: "char \<Rightarrow> char" where
  "toLowerCase_char c =
     (case map_of (zip ''ABCDEFGHIJKLMNOPQRSTUVWXYZ'' ''abcdefghijklmnopqrstuvwxyz'') c of
        None \<Rightarrow> c
      | Some l \<Rightarrow> l)"

definition toLowerCase :: "string \<Rightarrow> string" where
  "toLowerCase s = map toLowerCase_char s"

fun startsWith :: "string \<Rightarrow> string \<Rightarrow> bool" where
  "startsWith s [] = True"
| "startsWith [] (c # cs) = False"
| "startsWith (x # xs) (c # cs) = (x = c \<and> startsWith xs cs)"

fun includes_str :: "string \<Rightarrow> string \<Rightarrow> bool" where
  "includes_str [] sub = (sub = [])"
| "includes_str (x # xs) sub = (startsWith (x # xs) sub \<or> includes_str xs sub)"

definition isAdmin :: "user option \<Rightarrow> bool" where
  "isAdmin reqUser =
     (case reqUser of
        None \<Rightarrow> False
      | Some u \<Rightarrow>
          includes_str (toLowerCase (username u)) ''admin'' \<or>
          (email u \<noteq> [] \<and> includes_str (toLowerCase (email u)) ''admin''))"

text \<open>
  \<open>POST /api/admin/start-trial\<close> with the body's \<open>userId\<close> (a number, \<open>None\<close> when it is
  missing) and \<open>days\<close>. \<open>const { userId, days = 3 } = req.body\<close> gives 3 for a body without
  \<open>days\<close> and \<open>null\<close> for \<open>days: null\<close>, and \<open>getDate() + null\<close> is \<open>getDate()\<close>. The body's
  \<open>days\<close> is absent, \<open>null\<close> or an integer; other JSON values are not modelled.
\<close>

datatype days_field = DaysAbsent | DaysNull | DaysNumber int

definition days_added :: "days_field \<Rightarrow> int" where
  "days_added days = (case days of DaysAbsent \<Rightarrow> 3 | DaysNull \<Rightarrow> 0 | DaysNumber n \<Rightarrow> n)"

definition admin_start_trial ::
  "'s IStorage \<Rightarrow> timezone \<Rightarrow> time \<Rightarrow> int option \<Rightarrow> int option \<Rightarrow> days_field \<Rightarrow> 's
     \<Rightarrow> response \<times> 's \<times> (string \<times> date) list" where
  "admin_start_trial S tz now session userId' days st =
     (case session of
        None \<Rightarrow> (Response 401 (Message ''Unauthorized''), st, [])
      | Some sid \<Rightarrow>
          if \<not> isAdmin (getUser S sid st)
          then (Response 403 (Message ''Admin access required''), st, [])
          else
            (case userId' of
               None \<Rightarrow> (Response 400 (Message ''User ID is required''), st, [])
             | Some target \<Rightarrow>
                 if target = 0 then (Response 400 (Message ''User ID is required''), st, [])
                 else
                   let trialEnd = addDays tz now (days_added days)
                   in (case updateUser S target
                              [SubscriptionType ''trial'', TrialEndDate trialEnd,
                               IdentificationsRemaining 10] st of
                         None \<Rightarrow> (Response 500 (Message ''Error starting trial''), st, [])
                       | Some (updatedUser, st1) \<Rightarrow>
                           (case updatedUser of
                              None \<Rightarrow> (Response 404 (Message ''User not found''), st1, [])
                            | Some updated \<Rightarrow>
                                (Response 200 (UserTrialJson updated trialEnd), st1,
                                 (case getUser S target st1 of
                                    None \<Rightarrow> []
                                  | Some u \<Rightarrow>
                                      if email u \<noteq> [] then [(email u, trialEnd)] else []))))))"

section \<open>The trial sweep (setInterval)\<close>

text \<open>
  One tick at the instant \<open>now\<close>. The trial users are selected from \<open>db\<close> itself, whatever
  \<open>storage\<close> is, and the downgrade is written through \<open>storage\<close>. The first component lists
  the reminder emails handed to the mailer (address, days remaining), in the order of the
  loop. With a trial end that is an \<open>Invalid Date\<close>, \<open>daysRemaining\<close> is \<open>NaN\<close> and neither
  test of the loop holds. A throwing \<open>updateUser\<close> ends the loop: the \<open>try\<close> is around it.
\<close>

definition daysRemaining :: "time \<Rightarrow> time \<Rightarrow> int" where
  "daysRemaining trialEnd now = \<lceil>real_of_int (trialEnd - now) / (1000 * 60 * 60 * 24)\<rceil>"

fun sweep_users :: "'s IStorage \<Rightarrow> time \<Rightarrow> user list \<Rightarrow> 's \<Rightarrow> (string \<times> int) list \<times> 's" where
  "sweep_users S now [] st = ([], st)"
| "sweep_users S now (u # trialUsers) st =
     (case trialEndDate u of
        None \<Rightarrow> sweep_users S now trialUsers st
      | Some InvalidDate \<Rightarrow> sweep_users S now trialUsers st
      | Some (Date trialEnd) \<Rightarrow>
          if email u = [] then sweep_users S now trialUsers st
          else
            let d = daysRemaining trialEnd now;
                reminders = (if d = 1 \<or> d = 2 then [(email u, d)] else [])
            in (case (if d \<le> 0
                      then map_option snd
                             (updateUser S (user_id u)
                                [SubscriptionType ''free'', IdentificationsRemaining 3] st)
                      else Some st) of
                  None \<Rightarrow> (reminders, st)
                | Some st1 \<Rightarrow>
                    let (later, st2) = sweep_users S now trialUsers st1
                    in (reminders @ later, st2)))"

definition trial_sweep ::
  "'s IStorage \<Rightarrow> engine \<Rightarrow> time \<Rightarrow> Database \<Rightarrow> 's \<Rightarrow> (string \<times> int) list \<times> 's" where
  "trial_sweep S E now db st =
     sweep_users S now
       (users_order E (select_where (\<lambda>r. subscriptionType r = ''trial'') (users_table db))) st"

section \<open>Example stores\<close>

text \<open>
  A server whose local time is UTC, and one whose clocks go forward by an hour at the
  instant 500000000 (from one hour ahead of UTC to two).
\<close>

definition utc :: timezone where
  "utc = \<lparr>offset_at = (\<lambda>t. 0), offset_of_local = (\<lambda>t. 0)\<rparr>"

definition summer_zone :: timezone where
  "summer_zone =
     \<lparr>offset_at = (\<lambda>t. if t < 500000000 then 3600000 else 7200000),
      offset_of_local = (\<lambda>t. if t < 503600000 then 3600000 else 7200000)\<rparr>"

text \<open>
  An engine for the examples: it takes the timestamps of the years 1970 to 9999, keeps
  the numbers of the examples as they are, and returns rows in the order of insertion.
  A second one returns the rows of a \<open>select\<close> in the opposite order.
\<close>

definition example_engine :: engine where
  "example_engine =
     \<lparr>accepts_timestamp = (\<lambda>t. 0 \<le> t \<and> t < 253402300800000),
      float4 = (\<lambda>h. Some h),
      users_order = (\<lambda>rows. rows), plants_order = (\<lambda>rows. rows),
      care_actions_order = (\<lambda>rows. rows), community_shares_order = (\<lambda>rows. rows)\<rparr>"


text \<open>
  Four users (two on the free plan, one premium, one administrator), one plant of the first
  user with a watering every 7 days, and its pending
  water action; the same rows in a \<open>MemStorage\<close> and in the database.
\<close>

definition demo :: user where
  "demo = \<lparr>user_id = 1, username = ''demo'', password = ''password123'',
            email = ''demo@example.com'', firstName = Some ''Emma'',
            lastName = Some ''Wilson'', subscriptionType = ''free'',
            identificationsRemaining = 5, stripeCustomerId = None,
            stripeSubscriptionId = None, trialEndDate = None, isBetaTester = None\<rparr>"

definition bob :: user where
  "bob = \<lparr>user_id = 2, username = ''bob'', password = ''hunter22'',
           email = ''bob@example.com'', firstName = None, lastName = None,
           subscriptionType = ''free'', identificationsRemaining = 0,
           stripeCustomerId = None, stripeSubscriptionId = None,
           trialEndDate = None, isBetaTester = Some False\<rparr>"

definition carol :: user where
  "carol = \<lparr>user_id = 3, username = ''carol'', password = ''orchid99'',
             email = ''carol@example.com'', firstName = None, lastName = None,
             subscriptionType = ''premium'', identificationsRemaining = 999999,
             stripeCustomerId = Some ''cus_1'', stripeSubscriptionId = Some ''sub_1'',
             trialEndDate = None, isBetaTester = Some False\<rparr>"

definition root_user :: user where
  "root_user = \<lparr>user_id = 4, username = ''SiteAdmin'', password = ''s3cret!'',
                 email = ''ops@example.com'', firstName = None, lastName = None,
                 subscriptionType = ''free'', identificationsRemaining = 3,
                 stripeCustomerId = None, stripeSubscriptionId = None,
                 trialEndDate = None, isBetaTester = None\<rparr>"

definition fern :: plant where
  "fern = \<lparr>plant_userId = 1, name = ''Fern'', scientificName = None, imageUrl = None,
            dateAdded = Some 0, waterFrequency = 7, lastWatered = None,
            fertilizeFrequency = Some 30, lastFertilized = None, lightNeeds = None,
            plant_notes = None, careHealth = Val 80, isPublic = Val False,
            plant_id = 1\<rparr>"

definition water_fern :: careAction where
  "water_fern = \<lparr>plantId = 1, action_userId = 1, actionType = ''water'',
                  dueDate = Date 604800000, completedAt = None, isCompleted = Val False,
                  action_id = 1\<rparr>"

definition example_mem :: MemStorage where
  "example_mem = \<lparr>users = [(1, demo), (2, bob), (3, carol), (4, root_user)],
                   plants = [(1, fern)], careActions = [(1, water_fern)],
                   communityShares = [],
                   userId = 5, plantId_counter = 2, careActionId = 2,
                   communityShareId = 1\<rparr>"

definition example_db :: Database where
  "example_db = \<lparr>users_table = [demo, bob, carol, root_user], plants_table = [fern],
                  care_actions_table = [water_fern], community_shares_table = [],
                  users_id_seq = 5, plants_id_seq = 2, care_actions_id_seq = 2,
                  community_shares_id_seq = 1\<rparr>"



text \<open>
  The example stores with the plant's watering frequency at 0, and at 100000000 days.
\<close>

definition dry_mem :: MemStorage where
  "dry_mem = example_mem\<lparr>plants := [(1, fern\<lparr>waterFrequency := 0\<rparr>)]\<rparr>"

definition dry_db :: Database where
  "dry_db = example_db\<lparr>plants_table := [fern\<lparr>waterFrequency := 0\<rparr>]\<rparr>"

definition far_mem :: MemStorage where
  "far_mem = example_mem\<lparr>plants := [(1, fern\<lparr>waterFrequency := 100000000\<rparr>)]\<rparr>"

definition far_db :: Database where
  "far_db = example_db\<lparr>plants_table := [fern\<lparr>waterFrequency := 100000000\<rparr>]\<rparr>"

text \<open>
  Users on trial at the instant 1000000000: one whose trial ends a day and a half later,
  one whose trial ended a millisecond ago, and one like the latter with an empty email.
\<close>

definition erin :: user where
  "erin = \<lparr>user_id = 5, username = ''erin'', password = ''violet77'',
            email = ''erin@example.com'', firstName = None, lastName = None,
            subscriptionType = ''trial'', identificationsRemaining = 10,
            stripeCustomerId = None, stripeSubscriptionId = None,
            trialEndDate = Some (Date 1129600000), isBetaTester = None\<rparr>"

definition frank :: user where
  "frank = \<lparr>user_id = 6, username = ''frank'', password = ''cactus11'',
             email = ''frank@example.com'', firstName = None, lastName = None,
             subscriptionType = ''trial'', identificationsRemaining = 10,
             stripeCustomerId = None, stripeSubscriptionId = None,
             trialEndDate = Some (Date 999999999), isBetaTester = None\<rparr>"

definition dave :: user where
  "dave = \<lparr>user_id = 7, username = ''dave'', password = ''bonsai42'',
            email = [], firstName = None, lastName = None,
            subscriptionType = ''trial'', identificationsRemaining = 10,
            stripeCustomerId = None, stripeSubscriptionId = None,
            trialEndDate = Some (Date 999999999), isBetaTester = None\<rparr>"

definition sweep_db :: Database where
  "sweep_db = example_db\<lparr>users_table := [demo, erin, frank, dave], users_id_seq := 8\<rparr>"

definition sweep_mem :: MemStorage where
  "sweep_mem = example_mem\<lparr>users := [(1, demo), (5, erin), (6, frank), (7, dave)],
                          userId := 8\<rparr>"

text \<open>
  Three request bodies for a new plant: one watered every 7 and fertilized every 30 days,
  one with a watering frequency of 0 and no fertilizing frequency, one watered every
  100000000 days.
\<close>

definition ivy :: insertPlant where
  "ivy = \<lparr>plant_userId = 0, name = ''Ivy'', scientificName = Some ''Hedera helix'',
           imageUrl = None, dateAdded = None, waterFrequency = 7, lastWatered = None,
           fertilizeFrequency = Some 30, lastFertilized = None, lightNeeds = None,
           plant_notes = None, careHealth = Undefined, isPublic = Undefined\<rparr>"

definition cactus :: insertPlant where
  "cactus = \<lparr>plant_userId = 0, name = ''Cactus'', scientificName = None,
              imageUrl = None, dateAdded = None, waterFrequency = 0, lastWatered = None,
              fertilizeFrequency = None, lastFertilized = None, lightNeeds = None,
              plant_notes = None, careHealth = Undefined, isPublic = Undefined\<rparr>"

definition baobab :: insertPlant where
  "baobab = \<lparr>plant_userId = 0, name = ''Baobab'', scientificName = None,
              imageUrl = None, dateAdded = None, waterFrequency = 100000000,
              lastWatered = None, fertilizeFrequency = None, lastFertilized = None,
              lightNeeds = None, plant_notes = None, careHealth = Undefined,
              isPublic = Undefined\<rparr>"

text \<open>The example stores with a pending fertilize action of the plant as well.\<close>

definition feed_fern :: careAction where
  "feed_fern = \<lparr>plantId = 1, action_userId = 1, actionType = ''fertilize'',
                 dueDate = Date 2592000000, completedAt = None, isCompleted = Val False,
                 action_id = 2\<rparr>"

definition garden_mem :: MemStorage where
  "garden_mem = example_mem\<lparr>careActions := [(1, water_fern), (2, feed_fern)],
                           careActionId := 3\<rparr>"

definition garden_db :: Database where
  "garden_db = example_db\<lparr>care_actions_table := [water_fern, feed_fern],
                         care_actions_id_seq := 3\<rparr>"

section \<open>The identification quota\<close>

text \<open>No stored user has a negative \<open>identificationsRemaining\<close>.\<close>

definition mem_quota_nonneg :: "MemStorage \<Rightarrow> bool" where
  "mem_quota_nonneg st = list_all (\<lambda>u. 0 \<le> identificationsRemaining u) (map_values (users st))"

definition db_quota_nonneg :: "Database \<Rightarrow> bool" where
  "db_quota_nonneg db = list_all (\<lambda>u. 0 \<le> identificationsRemaining u) (users_table db)"

section \<open>The trial sweep, user by user\<close>

text \<open>
  What one tick at the instant \<open>now\<close> is claimed to do with one user: the reminder it
  sends, and the record it leaves. A user is dealt with when on trial, with a non-empty
  email and a trial end date.
\<close>

definition sweep_reminder :: "time \<Rightarrow> user \<Rightarrow> (string \<times> int) list" where
  "sweep_reminder now u =
     (case trialEndDate u of
        Some (Date trialEnd) \<Rightarrow>
          if subscriptionType u = ''trial'' \<and> email u \<noteq> [] \<and>
             (daysRemaining trialEnd now = 1 \<or> daysRemaining trialEnd now = 2)
          then [(email u, daysRemaining trialEnd now)]
          else []
      | _ \<Rightarrow> [])"

definition sweep_user :: "time \<Rightarrow> user \<Rightarrow> user" where
  "sweep_user now u =
     (case trialEndDate u of
        Some (Date trialEnd) \<Rightarrow>
          if subscriptionType u = ''trial'' \<and> email u \<noteq> [] \<and> daysRemaining trialEnd now \<le> 0
          then u\<lparr>subscriptionType := ''free'', identificationsRemaining := 3\<rparr>
          else u
      | _ \<Rightarrow> u)"

text \<open>An engine's \<open>select\<close> returns the rows it is to return, each once, in some order.\<close>

definition returns_every_row :: "engine \<Rightarrow> bool" where
  "returns_every_row E =
     ((\<forall>rows. mset (users_order E rows) = mset rows) \<and>
      (\<forall>rows. mset (plants_order E rows) = mset rows) \<and>
      (\<forall>rows. mset (care_actions_order E rows) = mset rows) \<and>
      (\<forall>rows. mset (community_shares_order E rows) = mset rows))"

section \<open>Pending actions of a plant, and the shape of a MemStorage\<close>

text \<open>
  The pending actions of one kind of a plant, as the water and fertilize handlers select
  them: \<open>careActions.filter(a => a.actionType === kind && !a.isCompleted)\<close> over
  \<open>getCareActionsForPlant\<close>.
\<close>

definition pending_actions :: "'s IStorage \<Rightarrow> string \<Rightarrow> int \<Rightarrow> 's \<Rightarrow> careAction list" where
  "pending_actions S kind pid st =
     filter (\<lambda>a. actionType a = kind \<and> isCompleted a \<noteq> Val True)
       (getCareActionsForPlant S pid st)"

text \<open>
  What the constructor and the methods of \<open>MemStorage\<close> keep true: every map holds each
  key once, every entity sits under its own id, and the ids in use are below the
  counter that hands out the next one.
\<close>

definition mem_invariant :: "MemStorage \<Rightarrow> bool" where
  "mem_invariant st =
     (distinct (map fst (users st)) \<and>
      list_all (\<lambda>(k, u). user_id u = k \<and> k < userId st) (users st) \<and>
      distinct (map fst (plants st)) \<and>
      list_all (\<lambda>(k, p). plant_id p = k \<and> k < plantId_counter st) (plants st) \<and>
      distinct (map fst (careActions st)) \<and>
      list_all (\<lambda>(k, a). action_id a = k \<and> k < careActionId st) (careActions st) \<and>
      distinct (map fst (communityShares st)) \<and>
      list_all (\<lambda>(k, s). share_id s = k \<and> k < communityShareId st) (communityShares st))"

text \<open>
  The action the handlers schedule: pending, of the given kind, for the given plant and
  user, due at the given date, stored under the given id.
\<close>

definition scheduled_action :: "string \<Rightarrow> int \<Rightarrow> int \<Rightarrow> date \<Rightarrow> int \<Rightarrow> careAction" where
  "scheduled_action kind pid uid due i =
     \<lparr>plantId = pid, action_userId = uid, actionType = kind, dueDate = due,
      completedAt = None, isCompleted = Val False, action_id = i\<rparr>"

section \<open>Looking a care action up\<close>

text \<open>
  \<open>IStorage\<close> has no method that reads one care action by its id; these two lookups
  say which action, if any, \<open>updateCareAction\<close> and \<open>markCareActionComplete\<close> find.
\<close>

definition mem_findCareAction :: "int \<Rightarrow> MemStorage \<Rightarrow> careAction option" where
  "mem_findCareAction i st = map_get (careActions st) i"

definition db_findCareAction :: "int \<Rightarrow> Database \<Rightarrow> careAction option" where
  "db_findCareAction i db =
     first_row (select_where (\<lambda>r. action_id r = i) (care_actions_table db))"

section \<open>The two storages side by side\<close>















text \<open>
  How the two stores correspond while they agree: a map of \<open>MemStorage\<close> and its table
  hold corresponding rows at the same positions, every row under its own id, each id
  once and below the counter, which is where the table's sequence stands; and
  \<open>MemStorage\<close> holds no \<open>null\<close> for \<open>isCompleted\<close> or \<open>likes\<close>.
\<close>

definition tables_agree ::
  "('r \<Rightarrow> 'r \<Rightarrow> bool) \<Rightarrow> ('r \<Rightarrow> int) \<Rightarrow> int \<Rightarrow> (int \<times> 'r) list \<Rightarrow> 'r list \<Rightarrow> bool" where
  "tables_agree R idf next m rows =
     (distinct (map fst m) \<and>
      list_all2 (\<lambda>(k, x) row. idf x = k \<and> idf row = k \<and> k < next \<and> R x row) m rows)"









section \<open>Facts about the two stores\<close>

lemma map_get_map_set:
  "map_get (map_set m k v) k' = (if k' = k then Some v else map_get m k')"
  by (simp add: map_get_def map_set_def update_conv')

lemma first_row_returned:
  "first_row (fst (update_where_returning assign cond rows))
     = map_option assign (first_row (select_where cond rows))"
  by (induction rows) (auto simp: first_row_def select_where_def update_where_returning_def)

lemma first_row_update_same:
  "(\<And>r. cond (assign r) = cond r) \<Longrightarrow>
   first_row (select_where cond (snd (update_where_returning assign cond rows)))
     = map_option assign (first_row (select_where cond rows))"
  by (induction rows) (auto simp: first_row_def select_where_def update_where_returning_def)

lemma first_row_update_other:
  "(\<And>r. key (assign r) = key r) \<Longrightarrow> j \<noteq> i \<Longrightarrow>
   first_row (select_where (\<lambda>r. key r = j)
       (snd (update_where_returning assign (\<lambda>r. key r = i) rows)))
     = first_row (select_where (\<lambda>r. key r = j) rows)"
  by (induction rows) (auto simp: first_row_def select_where_def update_where_returning_def)

lemma mem_updatePlantWatered_found:
  "map_get (plants st) i = Some p \<Longrightarrow>
   mem_updatePlantWatered now i st =
     (Some (p\<lparr>lastWatered := Some now, careHealth := Val 100\<rparr>),
      st\<lparr>plants := map_set (plants st) i (p\<lparr>lastWatered := Some now, careHealth := Val 100\<rparr>)\<rparr>)"
  by (simp add: mem_updatePlantWatered_def Let_def)

lemma mem_updatePlantFertilized_found:
  "map_get (plants st) i = Some p \<Longrightarrow>
   mem_updatePlantFertilized now i st =
     (Some (p\<lparr>lastFertilized := Some now\<rparr>),
      st\<lparr>plants := map_set (plants st) i (p\<lparr>lastFertilized := Some now\<rparr>)\<rparr>)"
  by (simp add: mem_updatePlantFertilized_def Let_def)

lemma db_updatePlantWatered_result:
  "fst (db_updatePlantWatered now i db) =
     map_option (\<lambda>r. r\<lparr>lastWatered := Some now, careHealth := Val 100\<rparr>) (db_getPlant i db)"
  by (simp add: db_updatePlantWatered_def db_getPlant_def split_def Let_def first_row_returned)

lemma db_updatePlantWatered_getPlant:
  "db_getPlant j (snd (db_updatePlantWatered now i db)) =
     (if j = i
      then map_option (\<lambda>r. r\<lparr>lastWatered := Some now, careHealth := Val 100\<rparr>)
             (db_getPlant i db)
      else db_getPlant j db)"
  by (simp add: db_getPlant_def db_updatePlantWatered_def split_def Let_def
      first_row_update_same first_row_update_other)

lemma db_updatePlantFertilized_result:
  "fst (db_updatePlantFertilized now i db) =
     map_option (\<lambda>r. r\<lparr>lastFertilized := Some now\<rparr>) (db_getPlant i db)"
  by (simp add: db_updatePlantFertilized_def db_getPlant_def split_def Let_def first_row_returned)

lemma db_updatePlantFertilized_getPlant:
  "db_getPlant j (snd (db_updatePlantFertilized now i db)) =
     (if j = i
      then map_option (\<lambda>r. r\<lparr>lastFertilized := Some now\<rparr>) (db_getPlant i db)
      else db_getPlant j db)"
  by (simp add: db_getPlant_def db_updatePlantFertilized_def split_def Let_def
      first_row_update_same first_row_update_other)

section \<open>Watering and fertilizing a plant\<close>

text \<open>
  C10. In both storage implementations, for a plant \<open>p\<close> stored under the id,
  \<open>updatePlantWatered\<close> returns and stores \<open>p\<close> with \<open>lastWatered\<close> set to the current
  instant and \<open>careHealth\<close> set to 100, every other field as it was; and
  \<open>updatePlantFertilized\<close> returns and stores \<open>p\<close> with \<open>lastFertilized\<close> set to the
  current instant and nothing else changed, so \<open>careHealth\<close> keeps its value.
\<close>

theorem watering_sets_careHealth_fertilizing_keeps_it:
  assumes "mem_getPlant i st = Some p" and "db_getPlant i db = Some q"
  shows
    "fst (mem_updatePlantWatered now i st)
        = Some (p\<lparr>lastWatered := Some now, careHealth := Val 100\<rparr>) \<and>
     mem_getPlant i (snd (mem_updatePlantWatered now i st))
        = Some (p\<lparr>lastWatered := Some now, careHealth := Val 100\<rparr>) \<and>
     fst (mem_updatePlantFertilized now i st) = Some (p\<lparr>lastFertilized := Some now\<rparr>) \<and>
     mem_getPlant i (snd (mem_updatePlantFertilized now i st))
        = Some (p\<lparr>lastFertilized := Some now\<rparr>) \<and>
     fst (db_updatePlantWatered now i db)
        = Some (q\<lparr>lastWatered := Some now, careHealth := Val 100\<rparr>) \<and>
     db_getPlant i (snd (db_updatePlantWatered now i db))
        = Some (q\<lparr>lastWatered := Some now, careHealth := Val 100\<rparr>) \<and>
     fst (db_updatePlantFertilized now i db) = Some (q\<lparr>lastFertilized := Some now\<rparr>) \<and>
     db_getPlant i (snd (db_updatePlantFertilized now i db))
        = Some (q\<lparr>lastFertilized := Some now\<rparr>) \<and>
     careHealth (p\<lparr>lastFertilized := Some now\<rparr>) = careHealth p \<and>
     careHealth (q\<lparr>lastFertilized := Some now\<rparr>) = careHealth q"
proof -
  from assms(1) have m: "map_get (plants st) i = Some p"
    by (simp add: mem_getPlant_def)
  have mem: "fst (mem_updatePlantWatered now i st)
        = Some (p\<lparr>lastWatered := Some now, careHealth := Val 100\<rparr>)"
    "mem_getPlant i (snd (mem_updatePlantWatered now i st))
        = Some (p\<lparr>lastWatered := Some now, careHealth := Val 100\<rparr>)"
    "fst (mem_updatePlantFertilized now i st) = Some (p\<lparr>lastFertilized := Some now\<rparr>)"
    "mem_getPlant i (snd (mem_updatePlantFertilized now i st))
        = Some (p\<lparr>lastFertilized := Some now\<rparr>)"
    by (simp_all add: mem_updatePlantWatered_found [OF m] mem_updatePlantFertilized_found [OF m]
        mem_getPlant_def map_get_map_set)
  have db: "fst (db_updatePlantWatered now i db)
        = Some (q\<lparr>lastWatered := Some now, careHealth := Val 100\<rparr>)"
    "db_getPlant i (snd (db_updatePlantWatered now i db))
        = Some (q\<lparr>lastWatered := Some now, careHealth := Val 100\<rparr>)"
    "fst (db_updatePlantFertilized now i db) = Some (q\<lparr>lastFertilized := Some now\<rparr>)"
    "db_getPlant i (snd (db_updatePlantFertilized now i db))
        = Some (q\<lparr>lastFertilized := Some now\<rparr>)"
    by (simp_all add: db_updatePlantWatered_result db_updatePlantWatered_getPlant
        db_updatePlantFertilized_result db_updatePlantFertilized_getPlant assms(2))
  from mem db show ?thesis by simp
qed

theorem watering_sets_careHealth_fertilizing_keeps_it_witness:
  "mem_getPlant 1 example_mem = Some fern \<and> db_getPlant 1 example_db = Some fern \<and>
   careHealth fern = Val 80 \<and>
   fst (mem_updatePlantWatered 1000 1 example_mem)
      = Some (fern\<lparr>lastWatered := Some 1000, careHealth := Val 100\<rparr>) \<and>
   mem_getPlant 1 (snd (mem_updatePlantFertilized 1000 1 example_mem))
      = Some (fern\<lparr>lastFertilized := Some 1000\<rparr>) \<and>
   fst (db_updatePlantWatered 1000 1 example_db)
      = Some (fern\<lparr>lastWatered := Some 1000, careHealth := Val 100\<rparr>) \<and>
   db_getPlant 1 (snd (db_updatePlantFertilized 1000 1 example_db))
      = Some (fern\<lparr>lastFertilized := Some 1000\<rparr>)"
proof -
  have m: "mem_getPlant 1 example_mem = Some fern"
    by (simp add: mem_getPlant_def example_mem_def map_get_def)
  have d: "db_getPlant 1 example_db = Some fern"
    by (simp add: db_getPlant_def example_db_def select_where_def first_row_def fern_def)
  have h: "careHealth fern = Val 80"
    by (simp add: fern_def)
  from watering_sets_careHealth_fertilizing_keeps_it [OF m d, of 1000] m d h
  show ?thesis by simp
qed

section \<open>Completing a care action\<close>


lemma merge_careAction_complete:
  "merge_careAction a [IsCompleted True, CompletedAt now]
     = a\<lparr>isCompleted := Val True, completedAt := Some now\<rparr>"
  by (simp add: merge_careAction_def)







section \<open>Plant identification and its quota\<close>

lemma list_all_values_update:
  "list_all P (map snd al) \<Longrightarrow> P v \<Longrightarrow> list_all P (map snd (AList.update k v al))"
  by (induction al) auto

lemma merge_user_quota:
  "merge_user r [IdentificationsRemaining n] = r\<lparr>identificationsRemaining := n\<rparr>"
  by (simp add: merge_user_def)

lemma first_row_select_key:
  "first_row (select_where (\<lambda>r. key r = i) rows) = Some u \<Longrightarrow> key u = i"
  by (induction rows) (auto simp: first_row_def select_where_def split: if_splits)

lemma db_getUser_id: "db_getUser sid db = Some u \<Longrightarrow> user_id u = sid"
  unfolding db_getUser_def by (rule first_row_select_key)

lemma mem_updateUser_quota:
  "mem_quota_nonneg st \<Longrightarrow> 0 \<le> n \<Longrightarrow>
   mem_quota_nonneg (snd (mem_updateUser i [IdentificationsRemaining n] st))"
  by (auto simp: mem_quota_nonneg_def mem_updateUser_def map_values_def map_set_def Let_def
      merge_user_quota list_all_values_update split: option.splits)

lemma db_updateUser_quota:
  "db_quota_nonneg db \<Longrightarrow> 0 \<le> n \<Longrightarrow>
   db_updateUser E i [IdentificationsRemaining n] db = Some (r, db') \<Longrightarrow> db_quota_nonneg db'"
  by (auto simp: db_quota_nonneg_def db_updateUser_def update_where_returning_def Let_def
      merge_user_quota list_all_iff split: option.splits if_splits)

lemma mem_identify_quota:
  "mem_quota_nonneg st \<Longrightarrow>
   mem_quota_nonneg (fst (snd (identify memStorage session hasFile apiKey upstream st)))"
  by (auto simp: identify_def memStorage_def Let_def split_def mem_updateUser_quota
      split: option.splits)

lemma db_identify_quota:
  "db_quota_nonneg db \<Longrightarrow>
   db_quota_nonneg (fst (snd (identify (databaseStorage E) session hasFile apiKey upstream db)))"
  by (auto simp: identify_def databaseStorage_def Let_def
      split: option.splits dest: db_updateUser_quota [rotated 2])

lemma mem_identify_all_quota:
  "mem_quota_nonneg st \<Longrightarrow> mem_quota_nonneg (identify_all memStorage rs st)"
  by (induction rs arbitrary: st) (simp_all add: mem_identify_quota)

lemma db_identify_all_quota:
  "db_quota_nonneg db \<Longrightarrow> db_quota_nonneg (identify_all (databaseStorage E) rs db)"
  by (induction rs arbitrary: db) (simp_all add: db_identify_quota)

lemma mem_identify_denied:
  "mem_getUser sid st = Some u \<Longrightarrow> user_id u = sid \<Longrightarrow> subscriptionType u = ''free'' \<Longrightarrow>
   identificationsRemaining u = 0 \<Longrightarrow>
   identify memStorage (Some sid) hasFile apiKey upstream st =
     (if hasFile
      then Response 403
             (UpgradeMessage
                ''No plant identifications remaining. Upgrade to premium for unlimited identifications.'')
      else Response 400 (Message ''No image provided''), st, False)"
  by (simp add: identify_def memStorage_def)

lemma db_identify_denied:
  "db_getUser sid db = Some u \<Longrightarrow> subscriptionType u = ''free'' \<Longrightarrow>
   identificationsRemaining u = 0 \<Longrightarrow>
   identify (databaseStorage E) (Some sid) hasFile apiKey upstream db =
     (if hasFile
      then Response 403
             (UpgradeMessage
                ''No plant identifications remaining. Upgrade to premium for unlimited identifications.'')
      else Response 400 (Message ''No image provided''), db, False)"
  using db_getUser_id [of sid db u]
  by (simp add: identify_def databaseStorage_def)

text \<open>
  C4. On either storage, an identify request of a logged-in user whose stored record has
  \<open>subscriptionType = free\<close> and \<open>identificationsRemaining = 0\<close> is answered, when it
  carries an image, with 403 and the upgrade flag (without an image: 400); in both cases
  Plant.id is not called and the store, so the counter, is as before. And if no stored
  counter is negative, none is after any sequence of identify requests.
\<close>

theorem identify_denied_at_zero_quota_never_negative:
  "(mem_getUser sid st = Some u \<and> user_id u = sid \<and> subscriptionType u = ''free'' \<and>
      identificationsRemaining u = 0 \<longrightarrow>
      identify memStorage (Some sid) hasFile apiKey upstream st =
        (if hasFile
         then Response 403
                (UpgradeMessage
                   ''No plant identifications remaining. Upgrade to premium for unlimited identifications.'')
         else Response 400 (Message ''No image provided''), st, False)) \<and>
   (db_getUser sid db = Some v \<and> subscriptionType v = ''free'' \<and>
      identificationsRemaining v = 0 \<longrightarrow>
      identify (databaseStorage E) (Some sid) hasFile apiKey upstream db =
        (if hasFile
         then Response 403
                (UpgradeMessage
                   ''No plant identifications remaining. Upgrade to premium for unlimited identifications.'')
         else Response 400 (Message ''No image provided''), db, False)) \<and>
   (mem_quota_nonneg st \<longrightarrow> mem_quota_nonneg (identify_all memStorage rs st)) \<and>
   (db_quota_nonneg db \<longrightarrow> db_quota_nonneg (identify_all (databaseStorage E) rs db))"
  using mem_identify_denied [of sid st u hasFile apiKey upstream]
    db_identify_denied [of sid db v E hasFile apiKey upstream]
    mem_identify_all_quota [of st rs] db_identify_all_quota [of db E rs]
  by blast

theorem identify_denied_at_zero_quota_never_negative_witness:
  "mem_getUser 2 example_mem = Some bob \<and> user_id bob = 2 \<and>
   subscriptionType bob = ''free'' \<and> identificationsRemaining bob = 0 \<and>
   identify memStorage (Some 2) True (Some ''key'') (Some ''Nephrolepis'') example_mem =
     (Response 403
        (UpgradeMessage
           ''No plant identifications remaining. Upgrade to premium for unlimited identifications.''),
      example_mem, False) \<and>
   db_getUser 2 example_db = Some bob \<and>
   identify (databaseStorage example_engine) (Some 2) True (Some ''key'') (Some ''Nephrolepis'') example_db =
     (Response 403
        (UpgradeMessage
           ''No plant identifications remaining. Upgrade to premium for unlimited identifications.''),
      example_db, False) \<and>
   mem_quota_nonneg example_mem \<and>
   mem_quota_nonneg
     (identify_all memStorage
        [\<lparr>req_session = Some 1, req_hasFile = True, req_apiKey = Some ''key'',
          req_upstream = Some ''Nephrolepis''\<rparr>] example_mem) \<and>
   db_quota_nonneg example_db \<and>
   db_quota_nonneg
     (identify_all (databaseStorage example_engine)
        [\<lparr>req_session = Some 1, req_hasFile = True, req_apiKey = Some ''key'',
          req_upstream = Some ''Nephrolepis''\<rparr>] example_db)"
proof -
  have m: "mem_getUser 2 example_mem = Some bob"
    by (simp add: mem_getUser_def example_mem_def map_get_def)
  have d: "db_getUser 2 example_db = Some bob"
    by (simp add: db_getUser_def example_db_def select_where_def first_row_def bob_def demo_def)
  have b: "user_id bob = 2" "subscriptionType bob = ''free''" "identificationsRemaining bob = 0"
    by (simp_all add: bob_def)
  have q: "mem_quota_nonneg example_mem" "db_quota_nonneg example_db"
    by (simp_all add: mem_quota_nonneg_def db_quota_nonneg_def example_mem_def example_db_def
        map_values_def bob_def demo_def carol_def root_user_def)
  from identify_denied_at_zero_quota_never_negative
         [of 2 example_mem bob True "Some ''key''" "Some ''Nephrolepis''" example_db bob
            example_engine
            "[\<lparr>req_session = Some 1, req_hasFile = True, req_apiKey = Some ''key'',
               req_upstream = Some ''Nephrolepis''\<rparr>]"]
       m d b q
  show ?thesis by simp
qed







section \<open>Starting a trial\<close>

lemma addDays_constant_offset:
  "(\<And>t. offset_at tz t = c) \<Longrightarrow> (\<And>t. offset_of_local tz t = c) \<Longrightarrow>
   addDays tz now n = TimeClip (now + n * 86400000)"
  by (simp add: addDays_def msPerDay_def Let_def)

lemma addDays_utc: "addDays utc now n = TimeClip (now + n * 86400000)"
  by (rule addDays_constant_offset [where c = 0]) (simp_all add: utc_def)

lemma mem_start_free_trial_rejects:
  "mem_getUser sid st = Some u \<Longrightarrow> subscriptionType u \<noteq> ''free'' \<Longrightarrow>
   start_free_trial memStorage tz now (Some sid) st =
     (Response 400 (Message ''You already have an active subscription or trial''), st, [])"
  by (simp add: start_free_trial_def memStorage_def)

lemma db_start_free_trial_rejects:
  "db_getUser sid db = Some u \<Longrightarrow> subscriptionType u \<noteq> ''free'' \<Longrightarrow>
   start_free_trial (databaseStorage E) tz now (Some sid) db =
     (Response 400 (Message ''You already have an active subscription or trial''), db, [])"
  by (simp add: start_free_trial_def databaseStorage_def)

lemma merge_user_trial:
  "merge_user t [SubscriptionType ''trial'', TrialEndDate e, IdentificationsRemaining 10]
     = t\<lparr>subscriptionType := ''trial'', trialEndDate := Some e, identificationsRemaining := 10\<rparr>"
  by (simp add: merge_user_def)

lemma mem_admin_start_trial:
  assumes "isAdmin (mem_getUser sid st)" "mem_getUser target st = Some t" "target \<noteq> 0"
  shows "fst (admin_start_trial memStorage tz now (Some sid) (Some target) days st) =
           Response 200 (UserTrialJson
             (t\<lparr>subscriptionType := ''trial'',
                trialEndDate := Some (addDays tz now (days_added days)),
                identificationsRemaining := 10\<rparr>)
             (addDays tz now (days_added days)))"
    and "mem_getUser target
           (fst (snd (admin_start_trial memStorage tz now (Some sid) (Some target) days st))) =
           Some (t\<lparr>subscriptionType := ''trial'',
                trialEndDate := Some (addDays tz now (days_added days)),
                identificationsRemaining := 10\<rparr>)"
  using assms
  by (simp_all add: admin_start_trial_def memStorage_def mem_updateUser_def mem_getUser_def
      Let_def merge_user_trial map_get_map_set)

lemma db_updateUser_accepted:
  "userData \<noteq> [] \<Longrightarrow> list_all (user_field_ok E) userData \<Longrightarrow>
   db_updateUser E i userData db =
     Some (map_option (\<lambda>r. merge_user r userData) (db_getUser i db),
           db\<lparr>users_table := map (\<lambda>r. if user_id r = i then merge_user r userData else r)
                                (users_table db)\<rparr>)"
  by (simp add: db_getUser_def db_updateUser_def split_def Let_def first_row_returned)
    (simp add: update_where_returning_def)

lemma merge_user_id: "user_id (merge_user t userData) = user_id t"
proof (induction userData arbitrary: t)
  case Nil
  then show ?case by (simp add: merge_user_def)
next
  case (Cons f fs)
  have "user_id (set_user_field f t) = user_id t" by (cases f) simp_all
  with Cons show ?case by (simp add: merge_user_def)
qed

lemma db_getUser_after_update:
  "db_getUser j
     (db\<lparr>users_table := map (\<lambda>r. if user_id r = i then merge_user r userData else r)
                          (users_table db)\<rparr>) =
     (if j = i then map_option (\<lambda>r. merge_user r userData) (db_getUser i db) else db_getUser j db)"
  using first_row_update_same [of "\<lambda>r. user_id r = i" "\<lambda>r. merge_user r userData" "users_table db"]
    first_row_update_other [of user_id "\<lambda>r. merge_user r userData" j i "users_table db"]
  by (simp add: db_getUser_def update_where_returning_def merge_user_id)

lemma db_admin_start_trial:
  assumes "isAdmin (db_getUser sid db)" "db_getUser target db = Some t" "target \<noteq> 0"
    "timestamp_ok E (addDays tz now (days_added days))"
  shows "fst (admin_start_trial (databaseStorage E) tz now (Some sid) (Some target) days db) =
           Response 200 (UserTrialJson
             (t\<lparr>subscriptionType := ''trial'',
                trialEndDate := Some (addDays tz now (days_added days)),
                identificationsRemaining := 10\<rparr>)
             (addDays tz now (days_added days)))"
    and "db_getUser target
           (fst (snd (admin_start_trial (databaseStorage E) tz now (Some sid) (Some target) days
                        db))) =
           Some (t\<lparr>subscriptionType := ''trial'',
                trialEndDate := Some (addDays tz now (days_added days)),
                identificationsRemaining := 10\<rparr>)"
proof -
  have ok: "list_all (user_field_ok E)
              [SubscriptionType ''trial'', TrialEndDate (addDays tz now (days_added days)),
               IdentificationsRemaining 10]"
    using assms(4) by (simp add: text_ok_def int4_def)
  show "fst (admin_start_trial (databaseStorage E) tz now (Some sid) (Some target) days db) =
           Response 200 (UserTrialJson
             (t\<lparr>subscriptionType := ''trial'',
                trialEndDate := Some (addDays tz now (days_added days)),
                identificationsRemaining := 10\<rparr>)
             (addDays tz now (days_added days)))"
    using assms(1-3)
    by (simp add: admin_start_trial_def databaseStorage_def Let_def
        db_updateUser_accepted [OF _ ok] merge_user_trial)
  show "db_getUser target
           (fst (snd (admin_start_trial (databaseStorage E) tz now (Some sid) (Some target) days
                        db))) =
           Some (t\<lparr>subscriptionType := ''trial'',
                trialEndDate := Some (addDays tz now (days_added days)),
                identificationsRemaining := 10\<rparr>)"
    using assms(1-3)
    by (simp add: admin_start_trial_def databaseStorage_def Let_def
        db_updateUser_accepted [OF _ ok] merge_user_trial db_getUser_after_update)
qed

lemma db_admin_start_trial_rejected:
  assumes "isAdmin (db_getUser sid db)" "target \<noteq> 0"
    "\<not> timestamp_ok E (addDays tz now (days_added days))"
  shows "admin_start_trial (databaseStorage E) tz now (Some sid) (Some target) days db =
           (Response 500 (Message ''Error starting trial''), db, [])"
  using assms
  by (simp add: admin_start_trial_def databaseStorage_def Let_def db_updateUser_def)

lemma isAdmin_root_user: "isAdmin (Some root_user)"
  by (simp add: isAdmin_def root_user_def toLowerCase_def toLowerCase_char_def)

text \<open>
  C9, as stated, fails for the administrator's route: \<open>POST /api/admin/start-trial\<close> makes
  no check of the target's subscription type. Here the administrator (user 4) starts a
  trial for user 3, who is on \<open>premium\<close>, on a server in UTC at the instant 1000 with a
  body that has no \<open>days\<close>: the answer is 200 and the stored record is rewritten to a trial
  of three days with 10 identifications.
\<close>

theorem admin_start_trial_premium_user_counterexample:
  "subscriptionType carol = ''premium'' \<and>
   mem_getUser 3 example_mem = Some carol \<and>
   fst (admin_start_trial memStorage utc 1000 (Some 4) (Some 3) DaysAbsent example_mem) =
     Response 200
       (UserTrialJson
          (carol\<lparr>subscriptionType := ''trial'', trialEndDate := Some (Date 259201000),
                 identificationsRemaining := 10\<rparr>) (Date 259201000)) \<and>
   mem_getUser 3
     (fst (snd (admin_start_trial memStorage utc 1000 (Some 4) (Some 3) DaysAbsent example_mem)))
     = Some (carol\<lparr>subscriptionType := ''trial'', trialEndDate := Some (Date 259201000),
                    identificationsRemaining := 10\<rparr>)"
proof -
  have a: "isAdmin (mem_getUser 4 example_mem)"
    by (simp add: mem_getUser_def example_mem_def map_get_def isAdmin_root_user)
  have c: "mem_getUser 3 example_mem = Some carol"
    by (simp add: mem_getUser_def example_mem_def map_get_def)
  have p: "subscriptionType carol = ''premium''"
    by (simp add: carol_def)
  from mem_admin_start_trial [OF a c, of utc 1000 DaysAbsent] c p
  show ?thesis by (simp add: addDays_utc TimeClip_def days_added_def)
qed

text \<open>
  C9, amended. The user's own route \<open>POST /api/start-free-trial\<close> answers 400 and leaves
  the store as it was whenever the logged-in user's \<open>subscriptionType\<close> is not \<open>free\<close>, and
  it sends no email. The administrator's route \<open>POST /api/admin/start-trial\<close> does not
  look at the subscription type: called by an administrator for an existing user with a
  non-zero id, with \<open>MemStorage\<close> it answers 200 and stores that user with
  \<open>subscriptionType = trial\<close>, \<open>identificationsRemaining = 10\<close> and \<open>trialEndDate\<close> the
  \<open>Date\<close> that \<open>setDate(getDate() + days)\<close> makes of the present: the present moved by
  \<open>days\<close> calendar days in the server's time zone, 3 for a body without \<open>days\<close> and 0 for
  \<open>days: null\<close>, which on a server in UTC is the present plus \<open>days\<close> times 86400000 ms, and
  an \<open>Invalid Date\<close> beyond the range of a \<open>Date\<close>. With \<open>DatabaseStorage\<close> it does the same
  when the database takes that date as a timestamp, and otherwise answers 500 and leaves
  the store as it was.
\<close>

theorem start_free_trial_rejects_non_free_admin_route_does_not:
  "(mem_getUser sid st = Some u \<and> subscriptionType u \<noteq> ''free'' \<longrightarrow>
      start_free_trial memStorage tz now (Some sid) st =
        (Response 400 (Message ''You already have an active subscription or trial''), st, [])) \<and>
   (db_getUser sid db = Some v \<and> subscriptionType v \<noteq> ''free'' \<longrightarrow>
      start_free_trial (databaseStorage E) tz now (Some sid) db =
        (Response 400 (Message ''You already have an active subscription or trial''), db, [])) \<and>
   (isAdmin (mem_getUser sid st) \<and> mem_getUser target st = Some t \<and> target \<noteq> 0 \<longrightarrow>
      fst (admin_start_trial memStorage tz now (Some sid) (Some target) days st) =
        Response 200
          (UserTrialJson
             (t\<lparr>subscriptionType := ''trial'',
                trialEndDate := Some (addDays tz now (days_added days)),
                identificationsRemaining := 10\<rparr>)
             (addDays tz now (days_added days))) \<and>
      mem_getUser target
          (fst (snd (admin_start_trial memStorage tz now (Some sid) (Some target) days st))) =
        Some (t\<lparr>subscriptionType := ''trial'',
                trialEndDate := Some (addDays tz now (days_added days)),
                identificationsRemaining := 10\<rparr>)) \<and>
   (isAdmin (db_getUser sid db) \<and> db_getUser target db = Some w \<and> target \<noteq> 0 \<and>
      timestamp_ok E (addDays tz now (days_added days)) \<longrightarrow>
      fst (admin_start_trial (databaseStorage E) tz now (Some sid) (Some target) days db) =
        Response 200
          (UserTrialJson
             (w\<lparr>subscriptionType := ''trial'',
                trialEndDate := Some (addDays tz now (days_added days)),
                identificationsRemaining := 10\<rparr>)
             (addDays tz now (days_added days))) \<and>
      db_getUser target
          (fst (snd (admin_start_trial (databaseStorage E) tz now (Some sid) (Some target) days
                       db))) =
        Some (w\<lparr>subscriptionType := ''trial'',
                trialEndDate := Some (addDays tz now (days_added days)),
                identificationsRemaining := 10\<rparr>)) \<and>
   (isAdmin (db_getUser sid db) \<and> target \<noteq> 0 \<and>
      \<not> timestamp_ok E (addDays tz now (days_added days)) \<longrightarrow>
      admin_start_trial (databaseStorage E) tz now (Some sid) (Some target) days db =
        (Response 500 (Message ''Error starting trial''), db, [])) \<and>
   days_added DaysAbsent = 3 \<and> days_added DaysNull = 0 \<and> days_added (DaysNumber n) = n \<and>
   addDays utc now n = TimeClip (now + n * 86400000) \<and>
   TimeClip (now + n * 86400000) =
     (if \<bar>now + n * 86400000\<bar> \<le> 8640000000000000 then Date (now + n * 86400000)
      else InvalidDate)"
proof -
  have "days_added DaysAbsent = 3 \<and> days_added DaysNull = 0 \<and> days_added (DaysNumber n) = n \<and>
   addDays utc now n = TimeClip (now + n * 86400000) \<and>
   TimeClip (now + n * 86400000) =
     (if \<bar>now + n * 86400000\<bar> \<le> 8640000000000000 then Date (now + n * 86400000)
      else InvalidDate)"
    by (simp add: days_added_def addDays_utc TimeClip_def)
  with mem_start_free_trial_rejects [of sid st u tz now]
    db_start_free_trial_rejects [of sid db v E tz now]
    mem_admin_start_trial [of sid st target t tz now days]
    db_admin_start_trial [of sid db target w E tz now days]
    db_admin_start_trial_rejected [of sid db target E tz now days]
  show ?thesis by blast
qed

theorem start_free_trial_rejects_non_free_admin_route_does_not_witness:
  "mem_getUser 3 example_mem = Some carol \<and> subscriptionType carol \<noteq> ''free'' \<and>
   start_free_trial memStorage utc 1000 (Some 3) example_mem =
     (Response 400 (Message ''You already have an active subscription or trial''),
      example_mem, []) \<and>
   db_getUser 3 example_db = Some carol \<and>
   start_free_trial (databaseStorage example_engine) utc 1000 (Some 3) example_db =
     (Response 400 (Message ''You already have an active subscription or trial''),
      example_db, []) \<and>
   isAdmin (mem_getUser 4 example_mem) \<and> (3::int) \<noteq> 0 \<and>
   mem_getUser 3
       (fst (snd (admin_start_trial memStorage utc 1000 (Some 4) (Some 3) (DaysNumber 7)
                    example_mem))) =
     Some (carol\<lparr>subscriptionType := ''trial'', trialEndDate := Some (Date 604801000),
                  identificationsRemaining := 10\<rparr>) \<and>
   isAdmin (db_getUser 4 example_db) \<and>
   timestamp_ok example_engine (addDays utc 1000 (days_added DaysNull)) \<and>
   db_getUser 3
       (fst (snd (admin_start_trial (databaseStorage example_engine) utc 1000 (Some 4) (Some 3)
                    DaysNull example_db))) =
     Some (carol\<lparr>subscriptionType := ''trial'', trialEndDate := Some (Date 1000),
                  identificationsRemaining := 10\<rparr>) \<and>
   \<not> timestamp_ok example_engine
       (addDays utc 1700000000000 (days_added (DaysNumber 100000000))) \<and>
   admin_start_trial (databaseStorage example_engine) utc 1700000000000 (Some 4) (Some 3)
       (DaysNumber 100000000) example_db =
     (Response 500 (Message ''Error starting trial''), example_db, [])"
proof -
  have m: "mem_getUser 3 example_mem = Some carol" "mem_getUser 4 example_mem = Some root_user"
    by (simp_all add: mem_getUser_def example_mem_def map_get_def)
  have d: "db_getUser 3 example_db = Some carol" "db_getUser 4 example_db = Some root_user"
    by (simp_all add: db_getUser_def example_db_def select_where_def first_row_def
        bob_def demo_def carol_def root_user_def)
  have p: "subscriptionType carol \<noteq> ''free''"
    by (simp add: carol_def)
  have t: "addDays utc 1000 (days_added (DaysNumber 7)) = Date 604801000"
    "addDays utc 1000 (days_added DaysNull) = Date 1000"
    "addDays utc 1700000000000 (days_added (DaysNumber 100000000)) = InvalidDate"
    by (simp_all add: addDays_utc TimeClip_def days_added_def)
  have ok: "timestamp_ok example_engine (Date 1000)" "\<not> timestamp_ok example_engine InvalidDate"
    by (simp_all add: timestamp_ok_def example_engine_def)
  from m d p t ok isAdmin_root_user
       start_free_trial_rejects_non_free_admin_route_does_not
         [where sid = 3 and st = example_mem and u = carol and tz = utc and now = 1000
            and db = example_db and v = carol and E = example_engine and target = 3
            and t = carol and days = "DaysNumber 7" and w = carol]
       start_free_trial_rejects_non_free_admin_route_does_not
         [where sid = 4 and st = example_mem and u = root_user and tz = utc and now = 1000
            and db = example_db and v = root_user and E = example_engine and target = 3
            and t = carol and days = "DaysNumber 7" and w = carol]
       start_free_trial_rejects_non_free_admin_route_does_not
         [where sid = 4 and st = example_mem and u = root_user and tz = utc and now = 1000
            and db = example_db and v = root_user and E = example_engine and target = 3
            and t = carol and days = DaysNull and w = carol]
       start_free_trial_rejects_non_free_admin_route_does_not
         [where sid = 4 and st = example_mem and u = root_user and tz = utc
            and now = 1700000000000
            and db = example_db and v = root_user and E = example_engine and target = 3
            and t = carol and days = "DaysNumber 100000000" and w = carol]
  show ?thesis by simp
qed

section \<open>Ownership checks\<close>

text \<open>
  The handlers that change a plant, and the one that creates a care action, compare the
  plant's \<open>userId\<close> with the requesting user's id before any write: a foreign plant is
  answered 403 and the store is as before, whatever the storage.
\<close>

lemma plant_routes_forbidden:
  assumes "getPlant S pid st = Some p" "getUser S sid st = Some u"
    "plant_userId p \<noteq> user_id u"
  shows "update_plant S (Some sid) pid reqBody st
           = (Response 403 (Message ''Not authorized to update this plant''), st)"
    and "delete_plant S (Some sid) pid st
           = (Response 403 (Message ''Not authorized to delete this plant''), st)"
    and "water_plant S tz now (Some sid) pid st
           = (Response 403 (Message ''Not authorized to water this plant''), st)"
    and "fertilize_plant S tz now (Some sid) pid st
           = (Response 403 (Message ''Not authorized to fertilize this plant''), st)"
    and "plantId b = pid \<Longrightarrow> create_care_action S (Some sid) (Some b) st
           = (Response 403
                (Message ''Not authorized to create care action for this plant''), st)"
  using assms
  by (simp_all add: update_plant_def delete_plant_def water_plant_def fertilize_plant_def
      create_care_action_def Let_def)

text \<open>
  C2. \<open>POST /api/care-actions/:id/complete\<close> has no such comparison. User 2 completes
  care action 1, which belongs to user 1 and to a plant of user 1: the answer is 200, not
  403; the action is marked completed, the plant of user 1 is marked watered, and a new
  pending water action is stored for that plant under the id of user 2 (the server's
  time zone is UTC). The same happens on the database storage.
\<close>

theorem complete_care_action_of_another_user:
  "mem_getUser 2 example_mem = Some bob \<and> user_id bob = 2 \<and>
   mem_findCareAction 1 example_mem = Some water_fern \<and> action_userId water_fern = 1 \<and>
   mem_getPlant 1 example_mem = Some fern \<and> plant_userId fern = 1 \<and>
   complete_care_action memStorage utc 1000 (Some 2) 1 example_mem =
     (Response 200
        (CareActionJson (water_fern\<lparr>isCompleted := Val True, completedAt := Some 1000\<rparr>)),
      example_mem
        \<lparr>plants := [(1, fern\<lparr>lastWatered := Some 1000, careHealth := Val 100\<rparr>)],
         careActions :=
           [(1, water_fern\<lparr>isCompleted := Val True, completedAt := Some 1000\<rparr>),
            (2, \<lparr>plantId = 1, action_userId = 2, actionType = ''water'',
                 dueDate = Date 604801000, completedAt = None, isCompleted = Val False,
                 action_id = 2\<rparr>)],
         careActionId := 3\<rparr>) \<and>
   db_getUser 2 example_db = Some bob \<and>
   db_findCareAction 1 example_db = Some water_fern \<and>
   db_getPlant 1 example_db = Some fern \<and>
   complete_care_action (databaseStorage example_engine) utc 1000 (Some 2) 1 example_db =
     (Response 200
        (CareActionJson (water_fern\<lparr>isCompleted := Val True, completedAt := Some 1000\<rparr>)),
      example_db
        \<lparr>plants_table := [fern\<lparr>lastWatered := Some 1000, careHealth := Val 100\<rparr>],
         care_actions_table :=
           [water_fern\<lparr>isCompleted := Val True, completedAt := Some 1000\<rparr>,
            \<lparr>plantId = 1, action_userId = 2, actionType = ''water'',
              dueDate = Date 604801000, completedAt = None, isCompleted = Val False,
              action_id = 2\<rparr>],
         care_actions_id_seq := 3\<rparr>)"
proof -
  have mem:
    "mem_getUser 2 example_mem = Some bob \<and> user_id bob = 2 \<and>
     mem_findCareAction 1 example_mem = Some water_fern \<and> action_userId water_fern = 1 \<and>
     mem_getPlant 1 example_mem = Some fern \<and> plant_userId fern = 1 \<and>
     complete_care_action memStorage utc 1000 (Some 2) 1 example_mem =
       (Response 200
          (CareActionJson (water_fern\<lparr>isCompleted := Val True, completedAt := Some 1000\<rparr>)),
        example_mem
          \<lparr>plants := [(1, fern\<lparr>lastWatered := Some 1000, careHealth := Val 100\<rparr>)],
           careActions :=
             [(1, water_fern\<lparr>isCompleted := Val True, completedAt := Some 1000\<rparr>),
              (2, \<lparr>plantId = 1, action_userId = 2, actionType = ''water'',
                   dueDate = Date 604801000, completedAt = None, isCompleted = Val False,
                   action_id = 2\<rparr>)],
           careActionId := 3\<rparr>)"
    by (simp add: complete_care_action_def memStorage_def mem_getUser_def
        mem_findCareAction_def mem_getPlant_def mem_updateCareAction_def
        mem_updatePlantWatered_def mem_createCareAction_def example_mem_def map_get_def
        map_set_def Let_def merge_careAction_def water_fern_def fern_def bob_def addDays_utc TimeClip_def next_action_def
        insertCareAction.extend_def careAction.fields_def insertCareAction.defs
        careAction.defs)
  have db:
    "db_getUser 2 example_db = Some bob \<and>
     db_findCareAction 1 example_db = Some water_fern \<and>
     db_getPlant 1 example_db = Some fern \<and>
     complete_care_action (databaseStorage example_engine) utc 1000 (Some 2) 1 example_db =
       (Response 200
          (CareActionJson (water_fern\<lparr>isCompleted := Val True, completedAt := Some 1000\<rparr>)),
        example_db
          \<lparr>plants_table := [fern\<lparr>lastWatered := Some 1000, careHealth := Val 100\<rparr>],
           care_actions_table :=
             [water_fern\<lparr>isCompleted := Val True, completedAt := Some 1000\<rparr>,
              \<lparr>plantId = 1, action_userId = 2, actionType = ''water'',
                dueDate = Date 604801000, completedAt = None, isCompleted = Val False,
                action_id = 2\<rparr>],
           care_actions_id_seq := 3\<rparr>)"
    by (simp add: complete_care_action_def databaseStorage_def db_getUser_def
        db_findCareAction_def db_getPlant_def db_updateCareAction_def
        db_updatePlantWatered_def db_createCareAction_def example_db_def select_where_def
        first_row_def update_where_returning_def Let_def merge_careAction_def water_fern_def
        fern_def bob_def demo_def carol_def root_user_def addDays_utc TimeClip_def
        next_action_def careAction_values_ok_def int4_def text_ok_def timestamp_ok_def
        example_engine_def
        insertCareAction.extend_def careAction.fields_def insertCareAction.defs
        careAction.defs)
  from mem db show ?thesis by simp
qed

section \<open>The trial sweep\<close>

lemma int_div_eq_iff:
  fixes a D k :: int
  assumes "0 < D"
  shows "a div D = k \<longleftrightarrow> k * D \<le> a \<and> a < (k + 1) * D"
proof
  assume "a div D = k"
  moreover have "a = D * (a div D) + a mod D" by simp
  moreover have "0 \<le> a mod D" "a mod D < D" using assms by simp_all
  ultimately show "k * D \<le> a \<and> a < (k + 1) * D"
    by (metis add.commute add_le_cancel_right add_less_cancel_left distrib_left mult.commute mult.right_neutral le_add_same_cancel2)
next
  assume h: "k * D \<le> a \<and> a < (k + 1) * D"
  define r where "r = a - k * D"
  have r: "0 \<le> r" "r < D" using h by (simp_all add: r_def algebra_simps)
  have "a = k * D + r" by (simp add: r_def)
  then have "a div D = k + r div D" using assms by simp
  with r show "a div D = k" by simp
qed

lemma daysRemaining_int: "daysRemaining trialEnd now = - ((now - trialEnd) div 86400000)"
proof -
  have "real_of_int (trialEnd - now) / (1000 * 60 * 60 * 24)
          = real_of_int (trialEnd - now) / real_of_int 86400000" by simp
  then have "daysRemaining trialEnd now = \<lceil>real_of_int (trialEnd - now) / real_of_int 86400000\<rceil>"
    by (simp add: daysRemaining_def)
  also have "\<dots> = - (- (trialEnd - now) div 86400000)"
    by (rule ceiling_divide_eq_div)
  finally show ?thesis by simp
qed

lemma daysRemaining_expired: "daysRemaining trialEnd now \<le> 0 \<longleftrightarrow> trialEnd \<le> now"
  unfolding daysRemaining_int by (simp add: pos_imp_zdiv_nonneg_iff)

lemma daysRemaining_eq:
  "daysRemaining trialEnd now = k \<longleftrightarrow>
     (k - 1) * 86400000 < trialEnd - now \<and> trialEnd - now \<le> k * 86400000"
proof -
  have "daysRemaining trialEnd now = k \<longleftrightarrow> (now - trialEnd) div 86400000 = - k"
    unfolding daysRemaining_int by auto
  also have "\<dots> \<longleftrightarrow> (- k) * 86400000 \<le> now - trialEnd \<and> now - trialEnd < (- k + 1) * 86400000"
    by (rule int_div_eq_iff) simp
  also have "\<dots> \<longleftrightarrow> (k - 1) * 86400000 < trialEnd - now \<and> trialEnd - now \<le> k * 86400000"
    by (auto simp: algebra_simps)
  finally show ?thesis .
qed

lemma daysRemaining_window:
  "daysRemaining trialEnd now = 1 \<or> daysRemaining trialEnd now = 2
     \<longleftrightarrow> now < trialEnd \<and> trialEnd \<le> now + 2 * 86400000"
  by (auto simp: daysRemaining_eq)

lemma merge_user_downgrade:
  "merge_user r [SubscriptionType ''free'', IdentificationsRemaining 3]
    = r\<lparr>subscriptionType := ''free'', identificationsRemaining := 3\<rparr>"
  by (simp add: merge_user_def)

lemma db_updateUser_downgrade:
  "map_option snd (db_updateUser E i [SubscriptionType ''free'', IdentificationsRemaining 3] db) =
     Some (db\<lparr>users_table :=
          map (\<lambda>r. if user_id r = i
                   then r\<lparr>subscriptionType := ''free'', identificationsRemaining := 3\<rparr> else r)
            (users_table db)\<rparr>)"
  by (simp add: db_updateUser_def update_where_returning_def Let_def merge_user_downgrade
      text_ok_def int4_def)

lemma databaseStorage_updateUser: "updateUser (databaseStorage E) = db_updateUser E"
  by (simp add: databaseStorage_def)

text \<open>The loop over any list of users, on the database storage.\<close>

lemma sweep_users_db:
  "sweep_users (databaseStorage E) now us db =
     (concat (map (\<lambda>u. sweep_reminder now (u\<lparr>subscriptionType := ''trial''\<rparr>)) us),
      db\<lparr>users_table :=
           map (\<lambda>r. if \<exists>u \<in> set us. user_id u = user_id r \<and>
                         sweep_user now (u\<lparr>subscriptionType := ''trial''\<rparr>)
                           \<noteq> u\<lparr>subscriptionType := ''trial''\<rparr>
                    then r\<lparr>subscriptionType := ''free'', identificationsRemaining := 3\<rparr>
                    else r) (users_table db)\<rparr>)"
proof (induction us arbitrary: db)
  case Nil
  then show ?case by simp
next
  case (Cons u us)
  show ?case
  proof (cases "trialEndDate u")
    case None
    then show ?thesis
      by (simp add: Cons.IH sweep_reminder_def sweep_user_def)
  next
    case (Some end_date)
    show ?thesis
    proof (cases end_date)
      case InvalidDate
      with Some show ?thesis
        by (simp add: Cons.IH sweep_reminder_def sweep_user_def)
    next
      case (Date e)
      note Some = Some [unfolded Date]
      show ?thesis
      proof (cases "email u \<noteq> [] \<and> daysRemaining e now \<le> 0")
        case True
        have "sweep_reminder now (u\<lparr>subscriptionType := ''trial''\<rparr>) = []"
          using Some True by (simp add: sweep_reminder_def)
        moreover have "sweep_user now (u\<lparr>subscriptionType := ''trial''\<rparr>)
                         \<noteq> u\<lparr>subscriptionType := ''trial''\<rparr>"
        proof
          assume "sweep_user now (u\<lparr>subscriptionType := ''trial''\<rparr>)
                    = u\<lparr>subscriptionType := ''trial''\<rparr>"
          then have "subscriptionType (sweep_user now (u\<lparr>subscriptionType := ''trial''\<rparr>))
                       = ''trial''"
            by simp
          then show False using Some True by (simp add: sweep_user_def)
        qed
        ultimately show ?thesis
          using Some True
          apply (simp add: Cons.IH Let_def databaseStorage_updateUser db_updateUser_downgrade)
          apply (rule arg_cong [where f = "\<lambda>t. db\<lparr>users_table := t\<rparr>"])
          apply (rule map_cong [OF refl])
          apply auto
          done
      next
        case False
        have "sweep_user now (u\<lparr>subscriptionType := ''trial''\<rparr>)
                = u\<lparr>subscriptionType := ''trial''\<rparr>"
          using Some False by (auto simp: sweep_user_def)
        moreover have "sweep_reminder now (u\<lparr>subscriptionType := ''trial''\<rparr>)
            = (if email u \<noteq> [] \<and> (daysRemaining e now = 1 \<or> daysRemaining e now = 2)
               then [(email u, daysRemaining e now)] else [])"
          using Some by (simp add: sweep_reminder_def)
        ultimately show ?thesis
          using Some False
          by (auto simp: Cons.IH Let_def)
      qed
    qed
  qed
qed

lemma set_trial_noop: "subscriptionType u = ''trial'' \<Longrightarrow> u\<lparr>subscriptionType := ''trial''\<rparr> = u"
  by simp

lemma sweep_reminder_not_trial: "subscriptionType u \<noteq> ''trial'' \<Longrightarrow> sweep_reminder now u = []"
  by (simp add: sweep_reminder_def split: option.splits date.splits)

lemma sweep_user_not_trial: "subscriptionType u \<noteq> ''trial'' \<Longrightarrow> sweep_user now u = u"
  by (simp add: sweep_user_def split: option.splits date.splits)

lemma sweep_user_cases:
  "sweep_user now u = (if sweep_user now u \<noteq> u
      then u\<lparr>subscriptionType := ''free'', identificationsRemaining := 3\<rparr> else u)"
  by (simp add: sweep_user_def split: option.splits date.splits)

lemma reminders_of_trial_users:
  "list_all (\<lambda>u. subscriptionType u = ''trial'') us \<Longrightarrow>
   concat (map (\<lambda>u. sweep_reminder now (u\<lparr>subscriptionType := ''trial''\<rparr>)) us)
     = concat (map (sweep_reminder now) us)"
  by (induction us) (simp_all add: set_trial_noop)

lemma reminders_up_to_order:
  assumes "mset us = mset (select_where (\<lambda>r. subscriptionType r = ''trial'') rows)"
  shows "mset (concat (map (sweep_reminder now) us))
           = mset (concat (map (sweep_reminder now) rows))"
proof -
  have all: "mset (concat (map f rows)) = (\<Sum>r\<in>#mset rows. mset (f r))"
    for f :: "user \<Rightarrow> (string \<times> int) list" and rows
    by (induction rows) simp_all
  have "mset (concat (map (sweep_reminder now)
                (select_where (\<lambda>r. subscriptionType r = ''trial'') rows)))
          = mset (concat (map (sweep_reminder now) rows))"
    by (induction rows) (simp_all add: select_where_def sweep_reminder_not_trial)
  with assms show ?thesis by (simp add: all)
qed

lemma trial_sweep_db:
  assumes "distinct (map user_id (users_table db))"
    and "mset (users_order E (select_where (\<lambda>r. subscriptionType r = ''trial'') (users_table db)))
           = mset (select_where (\<lambda>r. subscriptionType r = ''trial'') (users_table db))"
  shows "trial_sweep (databaseStorage E) E now db db =
           (concat (map (sweep_reminder now)
              (users_order E
                 (select_where (\<lambda>r. subscriptionType r = ''trial'') (users_table db)))),
            db\<lparr>users_table := map (sweep_user now) (users_table db)\<rparr>)"
proof -
  let ?sel = "select_where (\<lambda>r. subscriptionType r = ''trial'') (users_table db)"
  let ?us = "users_order E ?sel"
  from assms(2) have us: "set ?us = set ?sel" by (rule mset_eq_setD)
  then have trial: "list_all (\<lambda>u. subscriptionType u = ''trial'') ?us"
    by (auto simp: list_all_iff select_where_def)
  have inj: "inj_on user_id (set (users_table db))"
    using assms(1) by (simp add: distinct_map)
  have row: "(if \<exists>u \<in> set ?us. user_id u = user_id r \<and>
                   sweep_user now (u\<lparr>subscriptionType := ''trial''\<rparr>)
                     \<noteq> u\<lparr>subscriptionType := ''trial''\<rparr>
              then r\<lparr>subscriptionType := ''free'', identificationsRemaining := 3\<rparr> else r)
             = sweep_user now r" if r: "r \<in> set (users_table db)" for r
  proof -
    have "(\<exists>u \<in> set ?us. user_id u = user_id r \<and>
             sweep_user now (u\<lparr>subscriptionType := ''trial''\<rparr>) \<noteq> u\<lparr>subscriptionType := ''trial''\<rparr>)
          \<longleftrightarrow> sweep_user now r \<noteq> r"
    proof
      assume "\<exists>u \<in> set ?us. user_id u = user_id r \<and>
             sweep_user now (u\<lparr>subscriptionType := ''trial''\<rparr>) \<noteq> u\<lparr>subscriptionType := ''trial''\<rparr>"
      then obtain u where u: "u \<in> set (users_table db)" "subscriptionType u = ''trial''"
        "user_id u = user_id r"
        "sweep_user now (u\<lparr>subscriptionType := ''trial''\<rparr>) \<noteq> u\<lparr>subscriptionType := ''trial''\<rparr>"
        unfolding us by (auto simp: select_where_def)
      from inj u(1,3) r have "u = r" by (auto dest: inj_onD)
      with u(2,4) show "sweep_user now r \<noteq> r" by (simp add: set_trial_noop)
    next
      assume n: "sweep_user now r \<noteq> r"
      then have t: "subscriptionType r = ''trial''"
        using sweep_user_not_trial by blast
      with r n show "\<exists>u \<in> set ?us. user_id u = user_id r \<and>
             sweep_user now (u\<lparr>subscriptionType := ''trial''\<rparr>) \<noteq> u\<lparr>subscriptionType := ''trial''\<rparr>"
        unfolding us by (intro bexI [of _ r]) (simp_all add: select_where_def set_trial_noop)
    qed
    then show ?thesis using sweep_user_cases [of now r] by presburger
  qed
  show ?thesis
    unfolding trial_sweep_def sweep_users_db reminders_of_trial_users [OF trial]
    using row by (simp cong: map_cong)
qed

lemma sweep_nothing_selected:
  "select_where (\<lambda>r. subscriptionType r = ''trial'') (users_table db) = [] \<Longrightarrow>
   users_order E [] = [] \<Longrightarrow> trial_sweep S E now db st = ([], st)"
  by (simp add: trial_sweep_def)

lemma example_engine_returns_every_row: "returns_every_row example_engine"
  by (simp add: returns_every_row_def example_engine_def)

lemma sweep_db_tick:
  "trial_sweep (databaseStorage example_engine) example_engine 1000000000 sweep_db sweep_db =
     ([(''erin@example.com'', 2)],
      sweep_db\<lparr>users_table :=
        [demo, erin, frank\<lparr>subscriptionType := ''free'', identificationsRemaining := 3\<rparr>, dave]\<rparr>)"
proof -
  have d: "distinct (map user_id (users_table sweep_db))"
    by (simp add: sweep_db_def demo_def erin_def frank_def dave_def)
  have o: "users_order example_engine rows = rows" for rows
    by (simp add: example_engine_def)
  have r: "concat (map (sweep_reminder 1000000000)
             (select_where (\<lambda>r. subscriptionType r = ''trial'') (users_table sweep_db)))
             = [(''erin@example.com'', 2)]"
    by (simp add: sweep_db_def select_where_def sweep_reminder_def daysRemaining_int demo_def
        erin_def frank_def dave_def)
  have u: "map (sweep_user 1000000000) (users_table sweep_db)
             = [demo, erin, frank\<lparr>subscriptionType := ''free'', identificationsRemaining := 3\<rparr>,
                dave]"
    by (simp add: sweep_db_def sweep_user_def daysRemaining_int demo_def erin_def frank_def
        dave_def)
  show ?thesis
    using trial_sweep_db [OF d, of example_engine 1000000000] by (simp add: o r u)
qed

text \<open>
  C8, as stated, fails for a trial user whose email is the empty string: the column is
  \<open>NOT NULL\<close>, so the email is not null, but the loop's \<open>!user.email\<close> skips the user.
  At the instant 1000000000 the trial of user 7 has ended (0 days remain) and the sweep
  leaves the record on trial. It also fails when \<open>storage\<close> is the \<open>MemStorage\<close>: the
  tick reads the trial users from the database, where there are none, and the user 6
  of the store, whose trial has ended, stays on trial.
\<close>

theorem trial_sweep_skips_empty_email_counterexample:
  "subscriptionType dave = ''trial'' \<and> trialEndDate dave = Some (Date 999999999) \<and>
   daysRemaining 999999999 1000000000 = 0 \<and>
   db_getUser 7 sweep_db = Some dave \<and>
   db_getUser 7
     (snd (trial_sweep (databaseStorage example_engine) example_engine 1000000000 sweep_db
             sweep_db)) = Some dave \<and>
   mem_getUser 6 sweep_mem = Some frank \<and> subscriptionType frank = ''trial'' \<and>
   email frank = ''frank@example.com'' \<and> trialEndDate frank = Some (Date 999999999) \<and>
   trial_sweep memStorage example_engine 1000000000 Database_empty sweep_mem = ([], sweep_mem)"
proof -
  have a: "subscriptionType dave = ''trial'' \<and> trialEndDate dave = Some (Date 999999999)"
    by (simp add: dave_def)
  have b: "daysRemaining 999999999 1000000000 = 0"
    by (simp add: daysRemaining_int)
  have c: "db_getUser 7 sweep_db = Some dave"
    by (simp add: db_getUser_def select_where_def first_row_def sweep_db_def demo_def erin_def
        frank_def dave_def)
  have d: "db_getUser 7
             (sweep_db\<lparr>users_table :=
                [demo, erin, frank\<lparr>subscriptionType := ''free'', identificationsRemaining := 3\<rparr>,
                 dave]\<rparr>) = Some dave"
    by (simp add: db_getUser_def select_where_def first_row_def demo_def erin_def frank_def
        dave_def)
  have e: "mem_getUser 6 sweep_mem = Some frank \<and> subscriptionType frank = ''trial'' \<and>
     email frank = ''frank@example.com'' \<and> trialEndDate frank = Some (Date 999999999)"
    by (simp add: mem_getUser_def sweep_mem_def map_get_def frank_def)
  have f: "trial_sweep memStorage example_engine 1000000000 Database_empty sweep_mem
             = ([], sweep_mem)"
    by (rule sweep_nothing_selected)
      (simp_all add: Database_empty_def select_where_def example_engine_def)
  from a b c d e f show ?thesis
    by (simp add: sweep_db_tick)
qed

text \<open>
  C8, amended. With \<open>storage\<close> the database storage, user ids unique (the primary key)
  and a \<open>select\<close> that returns every selected row once, one tick at the instant \<open>now\<close>
  sends exactly the reminders \<open>sweep_reminder now u\<close> of the users \<open>u\<close> of the table, in
  the order in which the \<open>select\<close> returned the trial users, and leaves the table with
  every user \<open>u\<close> replaced by \<open>sweep_user now u\<close>, and nothing else changed. That is: for a
  user on trial with a non-empty email and a trial end date, with
  \<open>d = ceil((trialEndDate - now) / 1 day)\<close>, one reminder goes out exactly when \<open>d\<close> is 1
  or 2 (the trial ends within the next two days), and exactly when \<open>d \<le> 0\<close> (the trial
  end is not after \<open>now\<close>) the user is stored with \<open>subscriptionType = free\<close> and
  \<open>identificationsRemaining = 3\<close>; every other user, in particular every user not on
  trial, is neither reminded nor modified. Whatever \<open>storage\<close> is, a tick that finds no
  trial user in the database does nothing.
\<close>

theorem trial_sweep_reminds_and_downgrades:
  assumes "distinct (map user_id (users_table db))" and "returns_every_row E"
  shows "trial_sweep (databaseStorage E) E now db db =
           (concat (map (sweep_reminder now)
              (users_order E
                 (select_where (\<lambda>r. subscriptionType r = ''trial'') (users_table db)))),
            db\<lparr>users_table := map (sweep_user now) (users_table db)\<rparr>) \<and>
         mset (fst (trial_sweep (databaseStorage E) E now db db))
           = mset (concat (map (sweep_reminder now) (users_table db))) \<and>
         (select_where (\<lambda>r. subscriptionType r = ''trial'') (users_table db') = [] \<longrightarrow>
            trial_sweep S E now db' st = ([], st)) \<and>
         (subscriptionType u \<noteq> ''trial'' \<longrightarrow>
            sweep_user now u = u \<and> sweep_reminder now u = []) \<and>
         (daysRemaining e now \<le> 0 \<longleftrightarrow> e \<le> now) \<and>
         (daysRemaining e now = 1 \<or> daysRemaining e now = 2
            \<longleftrightarrow> now < e \<and> e \<le> now + 2 * 86400000)"
proof -
  from assms(2) have o: "mset (users_order E rows) = mset rows" for rows
    by (simp add: returns_every_row_def)
  have tick: "trial_sweep (databaseStorage E) E now db db =
           (concat (map (sweep_reminder now)
              (users_order E
                 (select_where (\<lambda>r. subscriptionType r = ''trial'') (users_table db)))),
            db\<lparr>users_table := map (sweep_user now) (users_table db)\<rparr>)"
    by (rule trial_sweep_db [OF assms(1) o])
  have reminders: "mset (fst (trial_sweep (databaseStorage E) E now db db))
           = mset (concat (map (sweep_reminder now) (users_table db)))"
    unfolding tick fst_conv by (rule reminders_up_to_order [OF o])
  have "users_order E [] = []" using o [of "[]"] by simp
  then have none: "select_where (\<lambda>r. subscriptionType r = ''trial'') (users_table db') = [] \<longrightarrow>
            trial_sweep S E now db' st = ([], st)"
    by (simp add: sweep_nothing_selected)
  from tick reminders none sweep_user_not_trial [of u now]
    sweep_reminder_not_trial [of u now] daysRemaining_expired [of e now]
    daysRemaining_window [of e now]
  show ?thesis by blast
qed

theorem trial_sweep_reminds_and_downgrades_witness:
  "distinct (map user_id (users_table sweep_db)) \<and> returns_every_row example_engine \<and>
   trial_sweep (databaseStorage example_engine) example_engine 1000000000 sweep_db sweep_db =
     ([(''erin@example.com'', 2)],
      sweep_db\<lparr>users_table :=
        [demo, erin, frank\<lparr>subscriptionType := ''free'', identificationsRemaining := 3\<rparr>,
         dave]\<rparr>) \<and>
   subscriptionType demo \<noteq> ''trial'' \<and> sweep_user 1000000000 demo = demo \<and>
   daysRemaining 1129600000 1000000000 = 2 \<and> daysRemaining 999999999 1000000000 \<le> 0"
proof -
  have d: "distinct (map user_id (users_table sweep_db))"
    by (simp add: sweep_db_def demo_def erin_def frank_def dave_def)
  have o: "users_order example_engine rows = rows" for rows
    by (simp add: example_engine_def)
  have r: "concat (map (sweep_reminder 1000000000)
             (select_where (\<lambda>r. subscriptionType r = ''trial'') (users_table sweep_db)))
             = [(''erin@example.com'', 2)]"
    by (simp add: sweep_db_def select_where_def sweep_reminder_def daysRemaining_int demo_def
        erin_def frank_def dave_def)
  have u: "map (sweep_user 1000000000) (users_table sweep_db)
             = [demo, erin, frank\<lparr>subscriptionType := ''free'', identificationsRemaining := 3\<rparr>,
                dave]"
    by (simp add: sweep_db_def sweep_user_def daysRemaining_int demo_def erin_def frank_def
        dave_def)
  have n: "subscriptionType demo \<noteq> ''trial''"
    by (simp add: demo_def)
  have k: "daysRemaining 1129600000 1000000000 = 2"
    by (simp add: daysRemaining_int)
  from d o r u n k example_engine_returns_every_row
       trial_sweep_reminds_and_downgrades
         [OF d example_engine_returns_every_row, of 1000000000 sweep_db memStorage sweep_mem
            demo 999999999]
  show ?thesis by simp
qed

section \<open>Creating a plant\<close>

lemma update_fresh: "k \<notin> set (map fst al) \<Longrightarrow> AList.update k v al = al @ [(k, v)]"
  by (induction al) auto

lemma keys_below_fresh:
  "list_all (\<lambda>(k, x). P k x \<and> k < (n::int)) al \<Longrightarrow> n \<notin> set (map fst al)"
  by (induction al) auto

lemma map_set_fresh:
  "list_all (\<lambda>(k, x). P k x \<and> k < (n::int)) m \<Longrightarrow> map_set m n v = m @ [(n, v)]"
  unfolding map_set_def by (rule update_fresh) (rule keys_below_fresh)

lemma mem_invariant_new: "mem_invariant MemStorage_new"
  by (simp add: mem_invariant_def MemStorage_new_def)

lemma mem_invariant_example: "mem_invariant example_mem"
  by (simp add: mem_invariant_def example_mem_def demo_def bob_def carol_def root_user_def fern_def water_fern_def)

lemma mem_createCareAction_fresh:
  assumes "mem_invariant st"
  shows "mem_createCareAction ica st =
     (insertCareAction.extend ica (careAction.fields (careActionId st)),
      st\<lparr>careActions := careActions st @ [(careActionId st, insertCareAction.extend ica (careAction.fields (careActionId st)))],
         careActionId := careActionId st + 1\<rparr>)"
proof -
  from assms have "list_all (\<lambda>(k, a). action_id a = k \<and> k < careActionId st) (careActions st)"
    by (simp add: mem_invariant_def)
  then show ?thesis
    by (simp add: mem_createCareAction_def Let_def map_set_fresh)
qed

lemma list_all_weaken_counter:
  "list_all (\<lambda>(k, x). P k x \<and> k < (n::int)) al \<Longrightarrow> list_all (\<lambda>(k, x). P k x \<and> k \<le> n) al"
  by (induction al) auto

lemma mem_createCareAction_invariant:
  assumes "mem_invariant st"
  shows "mem_invariant (snd (mem_createCareAction ica st))"
  using assms keys_below_fresh[of "\<lambda>k a. action_id a = k" "careActionId st" "careActions st"]
  by (simp add: mem_createCareAction_fresh mem_invariant_def list_all_weaken_counter
      insertCareAction.extend_def careAction.fields_def insertCareAction.defs careAction.defs)

lemma map_of_keyed:
  "list_all (\<lambda>(k, x). key x = k \<and> Q k) m \<Longrightarrow> map_of m i = Some x \<Longrightarrow> key x = i"
  by (induction m) (auto split: if_splits)

lemma values_update_present:
  "distinct (map fst m) \<Longrightarrow> list_all (\<lambda>(k, x). key x = k \<and> Q k) m \<Longrightarrow>
   map_of m i = Some x \<Longrightarrow>
   map snd (AList.update i v m) = map (\<lambda>y. if key y = i then v else y) (map snd m)"
proof (induction m)
  case Nil
  then show ?case by simp
next
  case (Cons e m)
  obtain k y where e: "e = (k, y)" by (cases e)
  show ?case
  proof (cases "k = i")
    case True
    with Cons.prems e have "i \<notin> fst ` set m" "key y = i" by auto
    moreover from Cons.prems e have "list_all (\<lambda>(k, x). key x = k \<and> Q k) m" by simp
    ultimately have "map (\<lambda>y. if key y = i then v else y) (map snd m) = map snd m"
      by (induction m) auto
    with True e \<open>key y = i\<close> show ?thesis by simp
  next
    case False
    with Cons e show ?thesis by auto
  qed
qed

lemma mem_values_set:
  "distinct (map fst m) \<Longrightarrow> list_all (\<lambda>(k, x). key x = k \<and> Q k) m \<Longrightarrow>
   map_get m i = Some x \<Longrightarrow>
   map_values (map_set m i v) = map (\<lambda>y. if key y = i then v else y) (map_values m)"
  unfolding map_get_def map_set_def map_values_def by (rule values_update_present)

lemma list_all_update:
  "list_all P al \<Longrightarrow> P (k, v) \<Longrightarrow> list_all P (AList.update k v al)"
  by (induction al) auto

lemma list_all_delete: "list_all P al \<Longrightarrow> list_all P (AList.delete k al)"
  by (induction al) auto

lemma extend_scheduled:
  "insertCareAction.extend
     \<lparr>plantId = pid, action_userId = uid, actionType = kind, dueDate = due,
      completedAt = None, isCompleted = Val False\<rparr> (careAction.fields i)
   = scheduled_action kind pid uid due i"
  by (simp add: scheduled_action_def insertCareAction.extend_def careAction.fields_def
      insertCareAction.defs careAction.defs)

lemma mem_createPlant_fresh:
  assumes "mem_invariant st"
  shows "mem_createPlant ip st =
     (insertPlant.extend ip (plant.fields (plantId_counter st)),
      st\<lparr>plants := plants st @ [(plantId_counter st, insertPlant.extend ip (plant.fields (plantId_counter st)))],
         plantId_counter := plantId_counter st + 1\<rparr>)"
proof -
  from assms have "list_all (\<lambda>(k, p). plant_id p = k \<and> k < plantId_counter st) (plants st)"
    by (simp add: mem_invariant_def)
  then show ?thesis
    by (simp add: mem_createPlant_def Let_def map_set_fresh)
qed

lemma plant_id_extend: "plant_id (insertPlant.extend ip (plant.fields i)) = i"
  by (simp add: insertPlant.extend_def plant.fields_def insertPlant.defs plant.defs)

lemma mem_createPlant_invariant:
  assumes "mem_invariant st"
  shows "mem_invariant (snd (mem_createPlant ip st))"
  using assms keys_below_fresh[of "\<lambda>k p. plant_id p = k" "plantId_counter st" "plants st"]
  by (simp add: mem_createPlant_fresh mem_invariant_def list_all_weaken_counter plant_id_extend)

lemma mem_createCareAction_values:
  "mem_invariant st \<Longrightarrow>
   map_values (careActions (snd (mem_createCareAction ica st))) =
     map_values (careActions st) @
     [insertCareAction.extend ica (careAction.fields (careActionId st))]"
  by (simp add: mem_createCareAction_fresh map_values_def)

lemma mem_createCareAction_counter:
  "careActionId (snd (mem_createCareAction ica st)) = careActionId st + 1"
  by (simp add: mem_createCareAction_def Let_def)

lemma next_action_scheduled:
  "insertCareAction.extend (next_action tz now pid uid kind freq) (careAction.fields i)
   = scheduled_action kind pid uid (addDays tz now freq) i"
  by (simp add: next_action_def extend_scheduled)

lemma mem_create_plant:
  assumes inv: "mem_invariant st" and user: "mem_getUser sid st = Some u"
  shows "fst (create_plant memStorage tz now (Some sid) (Some b) st) =
           Response 201 (PlantJson (Some
             (insertPlant.extend (b\<lparr>plant_userId := user_id u\<rparr>)
                (plant.fields (plantId_counter st)))))"
    and "map_values (careActions (snd (create_plant memStorage tz now (Some sid) (Some b) st))) =
           map_values (careActions st) @
           (if waterFrequency b \<noteq> 0
            then [scheduled_action ''water'' (plantId_counter st) (user_id u)
                    (addDays tz now (waterFrequency b)) (careActionId st)]
            else []) @
           (case fertilizeFrequency b of
              None \<Rightarrow> []
            | Some f \<Rightarrow>
                if f \<noteq> 0
                then [scheduled_action ''fertilize'' (plantId_counter st) (user_id u)
                        (addDays tz now f)
                        (careActionId st + (if waterFrequency b \<noteq> 0 then 1 else 0))]
                else [])"
proof -
  let ?vd = "b\<lparr>plant_userId := user_id u\<rparr>"
  let ?st1 = "snd (mem_createPlant ?vd st)"
  let ?w = "next_action tz now (plantId_counter st) (user_id u) ''water'' (waterFrequency b)"
  have inv1: "mem_invariant ?st1"
    using inv by (rule mem_createPlant_invariant)
  have inv2: "mem_invariant (snd (mem_createCareAction ?w ?st1))"
    using inv1 by (rule mem_createCareAction_invariant)
  have ca1: "careActions ?st1 = careActions st" "careActionId ?st1 = careActionId st"
    by (simp_all add: mem_createPlant_fresh [OF inv])
  show "fst (create_plant memStorage tz now (Some sid) (Some b) st) =
           Response 201 (PlantJson (Some
             (insertPlant.extend (b\<lparr>plant_userId := user_id u\<rparr>)
                (plant.fields (plantId_counter st)))))"
    using user
    by (simp add: create_plant_def memStorage_def Let_def split_def mem_createPlant_fresh [OF inv]
        split: option.splits)
  have unfold: "snd (create_plant memStorage tz now (Some sid) (Some b) st) =
      (let st2 = (if waterFrequency b \<noteq> 0 then snd (mem_createCareAction ?w ?st1) else ?st1)
       in case fertilizeFrequency b of
            None \<Rightarrow> st2
          | Some f \<Rightarrow>
              if f \<noteq> 0
              then snd (mem_createCareAction
                     (next_action tz now (plantId_counter st) (user_id u) ''fertilize'' f) st2)
              else st2)"
    using user
    by (simp add: create_plant_def memStorage_def Let_def split_def
        mem_createPlant_fresh [OF inv] plant_id_extend split: option.splits)
  show "map_values (careActions (snd (create_plant memStorage tz now (Some sid) (Some b) st))) =
           map_values (careActions st) @
           (if waterFrequency b \<noteq> 0
            then [scheduled_action ''water'' (plantId_counter st) (user_id u)
                    (addDays tz now (waterFrequency b)) (careActionId st)]
            else []) @
           (case fertilizeFrequency b of
              None \<Rightarrow> []
            | Some f \<Rightarrow>
                if f \<noteq> 0
                then [scheduled_action ''fertilize'' (plantId_counter st) (user_id u)
                        (addDays tz now f)
                        (careActionId st + (if waterFrequency b \<noteq> 0 then 1 else 0))]
                else [])"
  proof (cases "waterFrequency b \<noteq> 0")
    case True
    then show ?thesis
      unfolding unfold
      by (simp add: Let_def mem_createCareAction_values inv1 inv2
          mem_createCareAction_counter ca1 next_action_scheduled split: option.splits)
  next
    case False
    then show ?thesis
      unfolding unfold
      by (simp add: Let_def mem_createCareAction_values inv1
          mem_createCareAction_counter ca1 next_action_scheduled split: option.splits)
  qed
qed

lemma db_createCareAction_next:
  "db_createCareAction E (next_action tz now pid uid kind freq) db =
     (if careAction_values_ok E (next_action tz now pid uid kind freq) \<and>
         int4 (care_actions_id_seq db)
      then Some (scheduled_action kind pid uid (addDays tz now freq) (care_actions_id_seq db),
                 db\<lparr>care_actions_table :=
                      care_actions_table db @
                      [scheduled_action kind pid uid (addDays tz now freq)
                         (care_actions_id_seq db)],
                    care_actions_id_seq := care_actions_id_seq db + 1\<rparr>)
      else None)"
  by (simp add: db_createCareAction_def Let_def scheduled_action_def next_action_def
      insertCareAction.extend_def careAction.fields_def insertCareAction.defs careAction.defs)

lemma db_createPlant_tables:
  "db_createPlant E now ip db = Some (q, db1) \<Longrightarrow>
   plant_id q = plants_id_seq db \<and> plants_table db1 = plants_table db @ [q] \<and>
   care_actions_table db1 = care_actions_table db \<and>
   care_actions_id_seq db1 = care_actions_id_seq db \<and> users_table db1 = users_table db"
  by (auto simp: db_createPlant_def Let_def plant_id_extend split: if_splits)

lemma db_create_plant:
  assumes user: "db_getUser sid db = Some u"
    and created: "status (fst (create_plant (databaseStorage E) tz now (Some sid) (Some b) db)) = 201"
  shows "fst (create_plant (databaseStorage E) tz now (Some sid) (Some b) db) =
           Response 201
             (PlantJson (map_option fst (db_createPlant E now (b\<lparr>plant_userId := user_id u\<rparr>) db)))"
    and "map_option (plant_id \<circ> fst) (db_createPlant E now (b\<lparr>plant_userId := user_id u\<rparr>) db)
           = Some (plants_id_seq db)"
    and "care_actions_table (snd (create_plant (databaseStorage E) tz now (Some sid) (Some b) db)) =
           care_actions_table db @
           (if waterFrequency b \<noteq> 0
            then [scheduled_action ''water'' (plants_id_seq db) (user_id u)
                    (addDays tz now (waterFrequency b)) (care_actions_id_seq db)]
            else []) @
           (case fertilizeFrequency b of
              None \<Rightarrow> []
            | Some f \<Rightarrow>
                if f \<noteq> 0
                then [scheduled_action ''fertilize'' (plants_id_seq db) (user_id u)
                        (addDays tz now f)
                        (care_actions_id_seq db + (if waterFrequency b \<noteq> 0 then 1 else 0))]
                else [])"
proof -
  let ?vd = "b\<lparr>plant_userId := user_id u\<rparr>"
  from user created obtain q db1 where c: "db_createPlant E now ?vd db = Some (q, db1)"
    by (cases "db_createPlant E now ?vd db")
      (auto simp: create_plant_def databaseStorage_def Let_def)
  note t = db_createPlant_tables [OF c]
  from user created c t
  show "fst (create_plant (databaseStorage E) tz now (Some sid) (Some b) db) =
           Response 201
             (PlantJson (map_option fst (db_createPlant E now (b\<lparr>plant_userId := user_id u\<rparr>) db)))"
    by (auto simp: create_plant_def databaseStorage_def Let_def db_createCareAction_next
        split: option.splits if_splits)
  from c t
  show "map_option (plant_id \<circ> fst) (db_createPlant E now (b\<lparr>plant_userId := user_id u\<rparr>) db)
           = Some (plants_id_seq db)"
    by simp
  from user created c t
  show "care_actions_table (snd (create_plant (databaseStorage E) tz now (Some sid) (Some b) db)) =
           care_actions_table db @
           (if waterFrequency b \<noteq> 0
            then [scheduled_action ''water'' (plants_id_seq db) (user_id u)
                    (addDays tz now (waterFrequency b)) (care_actions_id_seq db)]
            else []) @
           (case fertilizeFrequency b of
              None \<Rightarrow> []
            | Some f \<Rightarrow>
                if f \<noteq> 0
                then [scheduled_action ''fertilize'' (plants_id_seq db) (user_id u)
                        (addDays tz now f)
                        (care_actions_id_seq db + (if waterFrequency b \<noteq> 0 then 1 else 0))]
                else [])"
    by (auto simp: create_plant_def databaseStorage_def Let_def db_createCareAction_next
        split: option.splits if_splits)
qed

lemma next_action_ok:
  "careAction_values_ok E (next_action tz now pid uid kind freq) =
     (int4 pid \<and> int4 uid \<and> text_ok kind \<and> timestamp_ok E (addDays tz now freq))"
  by (simp add: careAction_values_ok_def next_action_def)

lemma db_create_plant_rejected:
  assumes "db_getUser sid db = Some u"
    and "db_createPlant E now (b\<lparr>plant_userId := user_id u\<rparr>) db = Some (q, db1)"
    and "waterFrequency b \<noteq> 0"
    and "\<not> timestamp_ok E (addDays tz now (waterFrequency b))"
  shows "create_plant (databaseStorage E) tz now (Some sid) (Some b) db =
           (Response 500 (Message ''Error creating plant''), db1)"
proof -
  have "\<not> careAction_values_ok E (next_action tz now pid uid kind (waterFrequency b))"
    for pid uid kind
    using assms(4) by (simp add: next_action_ok)
  with assms(1-3) show ?thesis
    by (simp add: create_plant_def databaseStorage_def Let_def db_createCareAction_next)
qed

lemma example_db_users:
  "db_getUser 1 example_db = Some demo" "db_getUser 2 example_db = Some bob"
  "db_getUser 3 example_db = Some carol" "db_getUser 4 example_db = Some root_user"
  by (simp_all add: db_getUser_def example_db_def select_where_def first_row_def
      bob_def demo_def carol_def root_user_def)

lemma example_mem_users:
  "mem_getUser 1 example_mem = Some demo" "mem_getUser 2 example_mem = Some bob"
  "mem_getUser 3 example_mem = Some carol" "mem_getUser 4 example_mem = Some root_user"
  by (simp_all add: mem_getUser_def example_mem_def map_get_def)

lemma addDays_examples:
  "addDays utc 1000 7 = Date 604801000" "addDays utc 1000 30 = Date 2592001000"
  "addDays utc 1700000000000 100000000 = InvalidDate"
  "addDays summer_zone 1000 7 = Date 601201000"
  by (simp_all add: addDays_utc TimeClip_def)
    (simp add: addDays_def summer_zone_def msPerDay_def Let_def TimeClip_def)

text \<open>
  C7, as stated, fails for a watering frequency of 0, which is a number and not null: the
  handler's \<open>if (validatedData.waterFrequency)\<close> takes 0 as absent. The first user creates
  a plant with \<open>waterFrequency = 0\<close>: the answer is 201 and no care action is created.
  It fails with \<open>DatabaseStorage\<close> for a watering frequency of 100000000 days, asked at
  the instant 1700000000000: the due date is an \<open>Invalid Date\<close>, the insert of the water
  action throws, the answer is 500, the plant is stored and no care action is. And a due
  date is days of the calendar away, not days of 24 hours: on a server whose clocks go
  forward in between, it is an hour short of 7 times 86400000 ms after the creation.
\<close>

theorem create_plant_zero_frequency_counterexample:
  "waterFrequency cactus = 0 \<and>
   status (fst (create_plant memStorage utc 1000 (Some 1) (Some cactus) example_mem)) = 201 \<and>
   map_values (careActions (snd (create_plant memStorage utc 1000 (Some 1) (Some cactus)
                                   example_mem)))
     = map_values (careActions example_mem) \<and>
   waterFrequency baobab = 100000000 \<and>
   fst (create_plant (databaseStorage example_engine) utc 1700000000000 (Some 1) (Some baobab)
          example_db) = Response 500 (Message ''Error creating plant'') \<and>
   map name
     (plants_table (snd (create_plant (databaseStorage example_engine) utc 1700000000000 (Some 1)
                           (Some baobab) example_db))) = [''Fern'', ''Baobab''] \<and>
   care_actions_table
     (snd (create_plant (databaseStorage example_engine) utc 1700000000000 (Some 1) (Some baobab)
             example_db)) = care_actions_table example_db \<and>
   map_values (careActions (snd (create_plant memStorage summer_zone 1000 (Some 1) (Some ivy)
                                   example_mem)))
     = [water_fern, scheduled_action ''water'' 2 1 (Date 601201000) 2,
        scheduled_action ''fertilize'' 2 1 (Date 2588401000) 3] \<and>
   (601201000::int) = 1000 + 7 * 86400000 - 3600000"
proof -
  have u: "mem_getUser 1 example_mem = Some demo"
    by (rule example_mem_users)
  have c: "waterFrequency cactus = 0" "fertilizeFrequency cactus = None"
    "waterFrequency baobab = 100000000" "waterFrequency ivy = 7"
    "fertilizeFrequency ivy = Some 30"
    by (simp_all add: cactus_def baobab_def ivy_def)
  have e: "user_id demo = 1" "plantId_counter example_mem = 2" "careActionId example_mem = 2"
    "map_values (careActions example_mem) = [water_fern]"
    by (simp_all add: demo_def example_mem_def map_values_def)
  have s: "addDays summer_zone 1000 30 = Date 2588401000"
    by (simp add: addDays_def summer_zone_def msPerDay_def Let_def TimeClip_def)
  have p: "db_createPlant example_engine 1700000000000 (baobab\<lparr>plant_userId := user_id demo\<rparr>)
             example_db
           = Some (fst (the (db_createPlant example_engine 1700000000000
                               (baobab\<lparr>plant_userId := user_id demo\<rparr>) example_db)),
                   snd (the (db_createPlant example_engine 1700000000000
                               (baobab\<lparr>plant_userId := user_id demo\<rparr>) example_db)))"
    by (simp add: db_createPlant_def plant_values_ok_def if_given_def int4_def text_ok_def
        baobab_def demo_def example_db_def Let_def)
  have t: "\<not> timestamp_ok example_engine (addDays utc 1700000000000 (waterFrequency baobab))"
    by (simp add: c addDays_examples timestamp_ok_def)
  have db: "create_plant (databaseStorage example_engine) utc 1700000000000 (Some 1) (Some baobab)
              example_db
            = (Response 500 (Message ''Error creating plant''),
               snd (the (db_createPlant example_engine 1700000000000
                           (baobab\<lparr>plant_userId := user_id demo\<rparr>) example_db)))"
    by (rule db_create_plant_rejected [OF example_db_users(1) p _ t]) (simp add: c)
  have tables: "map name (plants_table
                  (snd (the (db_createPlant example_engine 1700000000000
                               (baobab\<lparr>plant_userId := user_id demo\<rparr>) example_db))))
                = [''Fern'', ''Baobab'']"
    "care_actions_table
       (snd (the (db_createPlant example_engine 1700000000000
                    (baobab\<lparr>plant_userId := user_id demo\<rparr>) example_db)))
     = care_actions_table example_db"
    by (simp_all add: db_createPlant_def plant_values_ok_def if_given_def int4_def text_ok_def
        baobab_def demo_def example_db_def Let_def fern_def insertPlant.extend_def
        plant.fields_def insertPlant.defs plant.defs)
  from mem_create_plant [OF mem_invariant_example u, of utc 1000 cactus]
    mem_create_plant [OF mem_invariant_example u, of summer_zone 1000 ivy] c e s db tables
  show ?thesis by (simp add: addDays_examples)
qed

text \<open>
  C7, amended. A logged-in user creates a plant with a valid body. With \<open>MemStorage\<close> (in
  a state its methods can reach) the answer is 201 with the new plant; with
  \<open>DatabaseStorage\<close> it is 201 when the database takes the plant and every scheduled
  action. Whenever the answer is 201, the care actions stored afterwards are those stored
  before followed by the created ones: one pending water action for the new plant and the
  user if \<open>waterFrequency\<close> is not 0, then one pending fertilize action if
  \<open>fertilizeFrequency\<close> is neither null nor 0; a frequency that is null or 0 schedules
  nothing of its kind. The due date of a created action is the \<open>Date\<close> that
  \<open>setDate(getDate() + frequency)\<close> makes of the creation time: that time moved by
  \<open>frequency\<close> calendar days in the server's time zone, which on a server in UTC is the
  creation time plus \<open>frequency\<close> times 86400000 ms, and an \<open>Invalid Date\<close> beyond the
  range of a \<open>Date\<close>. When the database does not take the due date of the water action,
  the answer is 500, with the plant stored and no action.
\<close>

theorem create_plant_schedules_one_action_per_nonzero_frequency:
  "(mem_invariant st \<and> mem_getUser sid st = Some u \<longrightarrow>
      fst (create_plant memStorage tz now (Some sid) (Some b) st) =
        Response 201 (PlantJson (Some
          (insertPlant.extend (b\<lparr>plant_userId := user_id u\<rparr>)
             (plant.fields (plantId_counter st))))) \<and>
      map_values (careActions (snd (create_plant memStorage tz now (Some sid) (Some b) st))) =
        map_values (careActions st) @
        (if waterFrequency b \<noteq> 0
         then [scheduled_action ''water'' (plantId_counter st) (user_id u)
                 (addDays tz now (waterFrequency b)) (careActionId st)]
         else []) @
        (case fertilizeFrequency b of
           None \<Rightarrow> []
         | Some f \<Rightarrow>
             if f \<noteq> 0
             then [scheduled_action ''fertilize'' (plantId_counter st) (user_id u)
                     (addDays tz now f)
                     (careActionId st + (if waterFrequency b \<noteq> 0 then 1 else 0))]
             else [])) \<and>
   (db_getUser sid db = Some v \<and>
    status (fst (create_plant (databaseStorage E) tz now (Some sid) (Some b) db)) = 201 \<longrightarrow>
      fst (create_plant (databaseStorage E) tz now (Some sid) (Some b) db) =
        Response 201
          (PlantJson (map_option fst
             (db_createPlant E now (b\<lparr>plant_userId := user_id v\<rparr>) db))) \<and>
      map_option (plant_id \<circ> fst) (db_createPlant E now (b\<lparr>plant_userId := user_id v\<rparr>) db)
        = Some (plants_id_seq db) \<and>
      care_actions_table (snd (create_plant (databaseStorage E) tz now (Some sid) (Some b) db)) =
        care_actions_table db @
        (if waterFrequency b \<noteq> 0
         then [scheduled_action ''water'' (plants_id_seq db) (user_id v)
                 (addDays tz now (waterFrequency b)) (care_actions_id_seq db)]
         else []) @
        (case fertilizeFrequency b of
           None \<Rightarrow> []
         | Some f \<Rightarrow>
             if f \<noteq> 0
             then [scheduled_action ''fertilize'' (plants_id_seq db) (user_id v)
                     (addDays tz now f)
                     (care_actions_id_seq db + (if waterFrequency b \<noteq> 0 then 1 else 0))]
             else [])) \<and>
   (db_getUser sid db = Some v \<and>
    db_createPlant E now (b\<lparr>plant_userId := user_id v\<rparr>) db = Some (q, db1) \<and>
    waterFrequency b \<noteq> 0 \<and> \<not> timestamp_ok E (addDays tz now (waterFrequency b)) \<longrightarrow>
      create_plant (databaseStorage E) tz now (Some sid) (Some b) db =
        (Response 500 (Message ''Error creating plant''), db1) \<and>
      plants_table db1 = plants_table db @ [q] \<and>
      care_actions_table db1 = care_actions_table db) \<and>
   addDays utc now n = TimeClip (now + n * 86400000) \<and>
   TimeClip (now + n * 86400000) =
     (if \<bar>now + n * 86400000\<bar> \<le> 8640000000000000 then Date (now + n * 86400000)
      else InvalidDate)"
proof -
  have mem: "fst (create_plant memStorage tz now (Some sid) (Some b) st) =
        Response 201 (PlantJson (Some
          (insertPlant.extend (b\<lparr>plant_userId := user_id u\<rparr>)
             (plant.fields (plantId_counter st))))) \<and>
      map_values (careActions (snd (create_plant memStorage tz now (Some sid) (Some b) st))) =
        map_values (careActions st) @
        (if waterFrequency b \<noteq> 0
         then [scheduled_action ''water'' (plantId_counter st) (user_id u)
                 (addDays tz now (waterFrequency b)) (careActionId st)]
         else []) @
        (case fertilizeFrequency b of
           None \<Rightarrow> []
         | Some f \<Rightarrow>
             if f \<noteq> 0
             then [scheduled_action ''fertilize'' (plantId_counter st) (user_id u)
                     (addDays tz now f)
                     (careActionId st + (if waterFrequency b \<noteq> 0 then 1 else 0))]
             else [])"
    if "mem_invariant st" "mem_getUser sid st = Some u"
    using mem_create_plant [OF that, of tz now b] by simp
  have db: "fst (create_plant (databaseStorage E) tz now (Some sid) (Some b) db) =
        Response 201
          (PlantJson (map_option fst
             (db_createPlant E now (b\<lparr>plant_userId := user_id v\<rparr>) db))) \<and>
      map_option (plant_id \<circ> fst) (db_createPlant E now (b\<lparr>plant_userId := user_id v\<rparr>) db)
        = Some (plants_id_seq db) \<and>
      care_actions_table (snd (create_plant (databaseStorage E) tz now (Some sid) (Some b) db)) =
        care_actions_table db @
        (if waterFrequency b \<noteq> 0
         then [scheduled_action ''water'' (plants_id_seq db) (user_id v)
                 (addDays tz now (waterFrequency b)) (care_actions_id_seq db)]
         else []) @
        (case fertilizeFrequency b of
           None \<Rightarrow> []
         | Some f \<Rightarrow>
             if f \<noteq> 0
             then [scheduled_action ''fertilize'' (plants_id_seq db) (user_id v)
                     (addDays tz now f)
                     (care_actions_id_seq db + (if waterFrequency b \<noteq> 0 then 1 else 0))]
             else [])"
    if "db_getUser sid db = Some v"
      "status (fst (create_plant (databaseStorage E) tz now (Some sid) (Some b) db)) = 201"
    using db_create_plant [OF that] by simp
  have rejected: "create_plant (databaseStorage E) tz now (Some sid) (Some b) db =
        (Response 500 (Message ''Error creating plant''), db1) \<and>
      plants_table db1 = plants_table db @ [q] \<and>
      care_actions_table db1 = care_actions_table db"
    if "db_getUser sid db = Some v"
      "db_createPlant E now (b\<lparr>plant_userId := user_id v\<rparr>) db = Some (q, db1)"
      "waterFrequency b \<noteq> 0" "\<not> timestamp_ok E (addDays tz now (waterFrequency b))"
    using db_create_plant_rejected [OF that] db_createPlant_tables [OF that(2)] by simp
  have dates: "addDays utc now n = TimeClip (now + n * 86400000) \<and>
   TimeClip (now + n * 86400000) =
     (if \<bar>now + n * 86400000\<bar> \<le> 8640000000000000 then Date (now + n * 86400000)
      else InvalidDate)"
    by (simp add: addDays_utc TimeClip_def)
  from mem db rejected dates show ?thesis by blast
qed

theorem create_plant_schedules_one_action_per_nonzero_frequency_witness:
  "mem_invariant example_mem \<and> mem_getUser 1 example_mem = Some demo \<and>
   db_getUser 1 example_db = Some demo \<and>
   waterFrequency ivy = 7 \<and> fertilizeFrequency ivy = Some 30 \<and>
   map_values (careActions (snd (create_plant memStorage utc 1000 (Some 1) (Some ivy)
                                   example_mem)))
     = [water_fern, scheduled_action ''water'' 2 1 (Date 604801000) 2,
        scheduled_action ''fertilize'' 2 1 (Date 2592001000) 3] \<and>
   status (fst (create_plant (databaseStorage example_engine) utc 1000 (Some 1) (Some ivy)
                  example_db)) = 201 \<and>
   care_actions_table (snd (create_plant (databaseStorage example_engine) utc 1000 (Some 1)
                              (Some ivy) example_db))
     = [water_fern, scheduled_action ''water'' 2 1 (Date 604801000) 2,
        scheduled_action ''fertilize'' 2 1 (Date 2592001000) 3]"
proof -
  have i: "waterFrequency ivy = 7" "fertilizeFrequency ivy = Some 30"
    by (simp_all add: ivy_def)
  have e: "user_id demo = 1" "plantId_counter example_mem = 2" "careActionId example_mem = 2"
    "map_values (careActions example_mem) = [water_fern]"
    "plants_id_seq example_db = 2" "care_actions_id_seq example_db = 2"
    "care_actions_table example_db = [water_fern]"
    by (simp_all add: demo_def example_mem_def example_db_def map_values_def)
  have ok: "status (fst (create_plant (databaseStorage example_engine) utc 1000 (Some 1) (Some ivy)
                  example_db)) = 201"
    by (simp add: create_plant_def databaseStorage_def db_getUser_def select_where_def
        first_row_def Let_def db_createCareAction_next next_action_ok
        addDays_examples timestamp_ok_def db_createPlant_def
        plant_values_ok_def if_given_def int4_def text_ok_def ivy_def demo_def example_db_def
        example_engine_def plant_id_extend)
  from create_plant_schedules_one_action_per_nonzero_frequency
         [where st = example_mem and sid = 1 and u = demo and tz = utc and now = 1000
            and b = ivy and db = example_db and v = demo and E = example_engine]
       mem_invariant_example example_mem_users(1) example_db_users(1) i e ok
  show ?thesis by (simp add: addDays_examples)
qed

section \<open>Completing a water or fertilize action of a plant\<close>

lemma merge_careAction_id: "action_id (merge_careAction a fs) = action_id a"
proof (induction fs arbitrary: a)
  case Nil
  then show ?case by (simp add: merge_careAction_def)
next
  case (Cons f fs)
  have "action_id (set_careAction_field f a) = action_id a" by (cases f) simp_all
  with Cons show ?case by (simp add: merge_careAction_def)
qed

lemma merge_plant_id: "plant_id (merge_plant p fs) = plant_id p"
proof (induction fs arbitrary: p)
  case Nil
  then show ?case by (simp add: merge_plant_def)
next
  case (Cons f fs)
  have "plant_id (set_plant_field f p) = plant_id p" by (cases f) simp_all
  with Cons show ?case by (simp add: merge_plant_def)
qed

lemma invariant_set_present:
  assumes "distinct (map fst m)" "list_all (\<lambda>(k, x). key x = k \<and> k < (n::int)) m"
    "map_get m i = Some x" "key v = key x"
  shows "distinct (map fst (map_set m i v))"
    and "list_all (\<lambda>(k, x). key x = k \<and> k < n) (map_set m i v)"
proof -
  from assms(2,3) have k: "key x = i" unfolding map_get_def by (rule map_of_keyed)
  from assms(2,3) have "i < n" unfolding map_get_def
    by (induction m) (auto split: if_splits)
  with assms k show "list_all (\<lambda>(k, x). key x = k \<and> k < n) (map_set m i v)"
    by (simp add: map_set_def list_all_update)
  from assms(1) show "distinct (map fst (map_set m i v))"
    by (simp add: map_set_def distinct_update)
qed

lemma mem_updateCareAction_invariant:
  assumes "mem_invariant st"
  shows "mem_invariant (snd (mem_updateCareAction i fs st))"
proof (cases "map_get (careActions st) i")
  case None
  with assms show ?thesis by (simp add: mem_updateCareAction_def)
next
  case (Some a)
  from assms have d: "distinct (map fst (careActions st))"
    and l: "list_all (\<lambda>(k, a). action_id a = k \<and> k < careActionId st) (careActions st)"
    by (simp_all add: mem_invariant_def)
  from invariant_set_present [OF d l Some, of "merge_careAction a fs"] assms Some
  show ?thesis
    by (simp add: mem_updateCareAction_def Let_def mem_invariant_def merge_careAction_id)
qed

lemma mem_updatePlant_invariant:
  assumes "mem_invariant st"
  shows "mem_invariant (snd (mem_updatePlant i fs st))"
proof (cases "map_get (plants st) i")
  case None
  with assms show ?thesis by (simp add: mem_updatePlant_def)
next
  case (Some p)
  from assms have d: "distinct (map fst (plants st))"
    and l: "list_all (\<lambda>(k, p). plant_id p = k \<and> k < plantId_counter st) (plants st)"
    by (simp_all add: mem_invariant_def)
  from invariant_set_present [OF d l Some, of "merge_plant p fs"] assms Some
  show ?thesis
    by (simp add: mem_updatePlant_def Let_def mem_invariant_def merge_plant_id)
qed

lemma mem_updatePlantWatered_invariant:
  assumes "mem_invariant st"
  shows "mem_invariant (snd (mem_updatePlantWatered now i st))"
proof (cases "map_get (plants st) i")
  case None
  with assms show ?thesis by (simp add: mem_updatePlantWatered_def)
next
  case (Some p)
  from assms have d: "distinct (map fst (plants st))"
    and l: "list_all (\<lambda>(k, p). plant_id p = k \<and> k < plantId_counter st) (plants st)"
    by (simp_all add: mem_invariant_def)
  from invariant_set_present [OF d l Some, of "p\<lparr>lastWatered := Some now, careHealth := Val 100\<rparr>"]
    assms Some
  show ?thesis
    by (simp add: mem_updatePlantWatered_def Let_def mem_invariant_def)
qed

lemma mem_updatePlantFertilized_invariant:
  assumes "mem_invariant st"
  shows "mem_invariant (snd (mem_updatePlantFertilized now i st))"
proof (cases "map_get (plants st) i")
  case None
  with assms show ?thesis by (simp add: mem_updatePlantFertilized_def)
next
  case (Some p)
  from assms have d: "distinct (map fst (plants st))"
    and l: "list_all (\<lambda>(k, p). plant_id p = k \<and> k < plantId_counter st) (plants st)"
    by (simp_all add: mem_invariant_def)
  from invariant_set_present [OF d l Some, of "p\<lparr>lastFertilized := Some now\<rparr>"] assms Some
  show ?thesis
    by (simp add: mem_updatePlantFertilized_def Let_def mem_invariant_def)
qed

lemma mem_updateUser_invariant:
  assumes "mem_invariant st"
  shows "mem_invariant (snd (mem_updateUser i fs st))"
proof (cases "map_get (users st) i")
  case None
  with assms show ?thesis by (simp add: mem_updateUser_def)
next
  case (Some u)
  from assms have d: "distinct (map fst (users st))"
    and l: "list_all (\<lambda>(k, u). user_id u = k \<and> k < userId st) (users st)"
    by (simp_all add: mem_invariant_def)
  from invariant_set_present [OF d l Some, of "merge_user u fs"] assms Some
  show ?thesis
    by (simp add: mem_updateUser_def Let_def mem_invariant_def merge_user_id)
qed

lemma mem_delete_invariant:
  assumes "mem_invariant st"
  shows "mem_invariant (snd (mem_deletePlant i st))"
    and "mem_invariant (snd (mem_deleteCareAction i st))"
    and "mem_invariant (snd (mem_deleteCommunityShare i st))"
  using assms
  by (simp_all add: mem_deletePlant_def mem_deleteCareAction_def mem_deleteCommunityShare_def
      map_delete_def mem_invariant_def distinct_delete list_all_delete)

lemma mem_markCareActionComplete_invariant:
  assumes "mem_invariant st"
  shows "mem_invariant (snd (mem_markCareActionComplete now i st))"
proof (cases "map_get (careActions st) i")
  case None
  with assms show ?thesis by (simp add: mem_markCareActionComplete_def)
next
  case (Some a)
  have eq: "st\<lparr>careActions := map_set (careActions st) i (a\<lparr>isCompleted := Val True, completedAt := Some now\<rparr>)\<rparr>
        = snd (mem_updateCareAction i [IsCompleted True, CompletedAt now] st)"
    using Some by (simp add: mem_updateCareAction_def Let_def merge_careAction_complete)
  have "mem_invariant (st\<lparr>careActions := map_set (careActions st) i (a\<lparr>isCompleted := Val True, completedAt := Some now\<rparr>)\<rparr>)"
    unfolding eq using assms by (rule mem_updateCareAction_invariant)
  then show ?thesis
    using Some
    by (simp add: mem_markCareActionComplete_def Let_def mem_updatePlantWatered_invariant
        mem_updatePlantFertilized_invariant split: option.splits)
qed

lemma memStorage_getCareActionsForPlant:
  "getCareActionsForPlant memStorage = mem_getCareActionsForPlant"
  by (simp add: memStorage_def)

lemma databaseStorage_getCareActionsForPlant:
  "getCareActionsForPlant (databaseStorage E) = db_getCareActionsForPlant E"
  by (simp add: databaseStorage_def)

lemma filter_after_replace:
  assumes "\<And>y. key y = i \<Longrightarrow> \<not> P (g y)" "\<And>y. key y \<noteq> i \<Longrightarrow> P' y = P y"
    "\<And>y. P' y \<Longrightarrow> key y \<noteq> i"
  shows "filter P (map (\<lambda>y. if key y = i then g y else y) xs) = filter P' xs"
  using assms by (induction xs) auto

lemma scheduled_action_sel:
  "plantId (scheduled_action kind pid uid due i) = pid"
  "action_userId (scheduled_action kind pid uid due i) = uid"
  "actionType (scheduled_action kind pid uid due i) = kind"
  "dueDate (scheduled_action kind pid uid due i) = due"
  "completedAt (scheduled_action kind pid uid due i) = None"
  "isCompleted (scheduled_action kind pid uid due i) = Val False"
  "action_id (scheduled_action kind pid uid due i) = i"
  by (simp_all add: scheduled_action_def)

lemma mem_complete_water:
  assumes inv: "mem_invariant st"
    and user: "mem_getUser sid st = Some u"
    and action: "mem_findCareAction aid st = Some a"
    and kind: "actionType a = ''water''"
    and plant: "mem_getPlant (plantId a) st = Some p"
    and freq: "waterFrequency p \<noteq> 0"
  shows "fst (complete_care_action memStorage tz now (Some sid) aid st) =
           Response 200 (CareActionJson (a\<lparr>isCompleted := Val True, completedAt := Some now\<rparr>))"
    and "mem_getPlant (plantId a) (snd (complete_care_action memStorage tz now (Some sid) aid st)) =
           Some (p\<lparr>lastWatered := Some now, careHealth := Val 100\<rparr>)"
    and "pending_actions memStorage ''water'' (plantId a)
             (snd (complete_care_action memStorage tz now (Some sid) aid st)) =
           filter (\<lambda>x. action_id x \<noteq> aid) (pending_actions memStorage ''water'' (plantId a) st) @
           [scheduled_action ''water'' (plantId a) (user_id u)
              (addDays tz now (waterFrequency p)) (careActionId st)]"
proof -
  let ?a' = "a\<lparr>isCompleted := Val True, completedAt := Some now\<rparr>"
  let ?p' = "p\<lparr>lastWatered := Some now, careHealth := Val 100\<rparr>"
  let ?st1 = "snd (mem_updateCareAction aid [IsCompleted True, CompletedAt now] st)"
  let ?st2 = "snd (mem_updatePlantWatered now (plantId a) ?st1)"
  let ?new = "next_action tz now (plantId a) (user_id u) ''water'' (waterFrequency p)"
  from action have ga: "map_get (careActions st) aid = Some a"
    by (simp add: mem_findCareAction_def)
  from plant have gp: "map_get (plants st) (plantId a) = Some p"
    by (simp add: mem_getPlant_def)
  from inv have dp: "list_all (\<lambda>(k, p). plant_id p = k \<and> k < plantId_counter st) (plants st)"
    and da: "distinct (map fst (careActions st))"
    and la: "list_all (\<lambda>(k, a). action_id a = k \<and> k < careActionId st) (careActions st)"
    by (simp_all add: mem_invariant_def)
  from dp gp have pid: "plant_id p = plantId a"
    unfolding map_get_def by (rule map_of_keyed)
  have st1: "mem_updateCareAction aid [IsCompleted True, CompletedAt now] st
          = (Some ?a', st\<lparr>careActions := map_set (careActions st) aid ?a'\<rparr>)"
    using ga by (simp add: mem_updateCareAction_def Let_def merge_careAction_complete)
  have st2: "?st2 = st\<lparr>careActions := map_set (careActions st) aid ?a',
                        plants := map_set (plants st) (plantId a) ?p'\<rparr>"
    using gp by (simp add: st1 mem_updatePlantWatered_def Let_def)
  have inv2: "mem_invariant ?st2"
    by (intro mem_updatePlantWatered_invariant mem_updateCareAction_invariant inv)
  have gp2: "mem_getPlant (plantId a) ?st2 = Some ?p'"
    by (simp add: st2 mem_getPlant_def map_get_map_set)
  have run: "complete_care_action memStorage tz now (Some sid) aid st =
          (Response 200 (CareActionJson ?a'), snd (mem_createCareAction ?new ?st2))"
    using user kind freq gp2 pid
    by (simp add: complete_care_action_def memStorage_def Let_def st1 split_def)
  show "fst (complete_care_action memStorage tz now (Some sid) aid st) =
           Response 200 (CareActionJson ?a')"
    by (simp add: run)
  have keep: "plants (snd (mem_createCareAction ?new ?st2)) = plants ?st2"
    by (simp add: mem_createCareAction_def Let_def)
  show "mem_getPlant (plantId a) (snd (complete_care_action memStorage tz now (Some sid) aid st)) =
           Some ?p'"
    using gp2 by (simp add: run mem_getPlant_def keep)
  have vals: "map_values (careActions (snd (mem_createCareAction ?new ?st2))) =
        map (\<lambda>y. if action_id y = aid then ?a' else y) (map_values (careActions st)) @
        [scheduled_action ''water'' (plantId a) (user_id u)
           (addDays tz now (waterFrequency p)) (careActionId st)]"
    by (simp add: mem_createCareAction_values [OF inv2] next_action_scheduled)
       (simp add: st2 mem_values_set [OF da la ga])
  show "pending_actions memStorage ''water'' (plantId a)
             (snd (complete_care_action memStorage tz now (Some sid) aid st)) =
           filter (\<lambda>x. action_id x \<noteq> aid) (pending_actions memStorage ''water'' (plantId a) st) @
           [scheduled_action ''water'' (plantId a) (user_id u)
              (addDays tz now (waterFrequency p)) (careActionId st)]"
    by (simp add: run pending_actions_def memStorage_getCareActionsForPlant
        mem_getCareActionsForPlant_def vals scheduled_action_sel)
       (rule filter_after_replace [where g = "\<lambda>y. a\<lparr>isCompleted := Val True, completedAt := Some now\<rparr>"], auto)
qed

lemma mem_complete_fertilize:
  assumes inv: "mem_invariant st"
    and user: "mem_getUser sid st = Some u"
    and action: "mem_findCareAction aid st = Some a"
    and kind: "actionType a = ''fertilize''"
    and plant: "mem_getPlant (plantId a) st = Some p"
    and freq: "fertilizeFrequency p = Some f" "f \<noteq> 0"
  shows "fst (complete_care_action memStorage tz now (Some sid) aid st) =
           Response 200 (CareActionJson (a\<lparr>isCompleted := Val True, completedAt := Some now\<rparr>))"
    and "mem_getPlant (plantId a) (snd (complete_care_action memStorage tz now (Some sid) aid st)) =
           Some (p\<lparr>lastFertilized := Some now\<rparr>)"
    and "pending_actions memStorage ''fertilize'' (plantId a)
             (snd (complete_care_action memStorage tz now (Some sid) aid st)) =
           filter (\<lambda>x. action_id x \<noteq> aid) (pending_actions memStorage ''fertilize'' (plantId a) st) @
           [scheduled_action ''fertilize'' (plantId a) (user_id u)
              (addDays tz now f) (careActionId st)]"
proof -
  let ?a' = "a\<lparr>isCompleted := Val True, completedAt := Some now\<rparr>"
  let ?p' = "p\<lparr>lastFertilized := Some now\<rparr>"
  let ?st1 = "snd (mem_updateCareAction aid [IsCompleted True, CompletedAt now] st)"
  let ?st2 = "snd (mem_updatePlantFertilized now (plantId a) ?st1)"
  let ?new = "next_action tz now (plantId a) (user_id u) ''fertilize'' f"
  from action have ga: "map_get (careActions st) aid = Some a"
    by (simp add: mem_findCareAction_def)
  from plant have gp: "map_get (plants st) (plantId a) = Some p"
    by (simp add: mem_getPlant_def)
  from inv have dp: "list_all (\<lambda>(k, p). plant_id p = k \<and> k < plantId_counter st) (plants st)"
    and da: "distinct (map fst (careActions st))"
    and la: "list_all (\<lambda>(k, a). action_id a = k \<and> k < careActionId st) (careActions st)"
    by (simp_all add: mem_invariant_def)
  from dp gp have pid: "plant_id p = plantId a"
    unfolding map_get_def by (rule map_of_keyed)
  have st1: "mem_updateCareAction aid [IsCompleted True, CompletedAt now] st
          = (Some ?a', st\<lparr>careActions := map_set (careActions st) aid ?a'\<rparr>)"
    using ga by (simp add: mem_updateCareAction_def Let_def merge_careAction_complete)
  have st2: "?st2 = st\<lparr>careActions := map_set (careActions st) aid ?a',
                        plants := map_set (plants st) (plantId a) ?p'\<rparr>"
    using gp by (simp add: st1 mem_updatePlantFertilized_def Let_def)
  have inv2: "mem_invariant ?st2"
    by (intro mem_updatePlantFertilized_invariant mem_updateCareAction_invariant inv)
  have gp2: "mem_getPlant (plantId a) ?st2 = Some ?p'"
    by (simp add: st2 mem_getPlant_def map_get_map_set)
  have run: "complete_care_action memStorage tz now (Some sid) aid st =
          (Response 200 (CareActionJson ?a'), snd (mem_createCareAction ?new ?st2))"
    using user kind freq gp2 pid
    by (simp add: complete_care_action_def memStorage_def Let_def st1 split_def)
  show "fst (complete_care_action memStorage tz now (Some sid) aid st) =
           Response 200 (CareActionJson ?a')"
    by (simp add: run)
  have keep: "plants (snd (mem_createCareAction ?new ?st2)) = plants ?st2"
    by (simp add: mem_createCareAction_def Let_def)
  show "mem_getPlant (plantId a) (snd (complete_care_action memStorage tz now (Some sid) aid st)) =
           Some ?p'"
    using gp2 by (simp add: run mem_getPlant_def keep)
  have vals: "map_values (careActions (snd (mem_createCareAction ?new ?st2))) =
        map (\<lambda>y. if action_id y = aid then ?a' else y) (map_values (careActions st)) @
        [scheduled_action ''fertilize'' (plantId a) (user_id u)
           (addDays tz now f) (careActionId st)]"
    by (simp add: mem_createCareAction_values [OF inv2] next_action_scheduled)
       (simp add: st2 mem_values_set [OF da la ga])
  show "pending_actions memStorage ''fertilize'' (plantId a)
             (snd (complete_care_action memStorage tz now (Some sid) aid st)) =
           filter (\<lambda>x. action_id x \<noteq> aid) (pending_actions memStorage ''fertilize'' (plantId a) st) @
           [scheduled_action ''fertilize'' (plantId a) (user_id u)
              (addDays tz now f) (careActionId st)]"
    by (simp add: run pending_actions_def memStorage_getCareActionsForPlant
        mem_getCareActionsForPlant_def vals scheduled_action_sel)
       (rule filter_after_replace [where g = "\<lambda>y. a\<lparr>isCompleted := Val True, completedAt := Some now\<rparr>"], auto)
qed

lemma mem_found_below_counter:
  "mem_invariant st \<Longrightarrow> mem_findCareAction aid st = Some a \<Longrightarrow>
   action_id a = aid \<and> aid < careActionId st"
proof -
  assume inv: "mem_invariant st" and f: "mem_findCareAction aid st = Some a"
  from inv have l: "list_all (\<lambda>(k, a). action_id a = k \<and> k < careActionId st) (careActions st)"
    by (simp add: mem_invariant_def)
  from f have m: "map_of (careActions st) aid = Some a"
    by (simp add: mem_findCareAction_def map_get_def)
  from l m have "action_id a = aid" by (rule map_of_keyed)
  moreover from l m have "aid < careActionId st"
    by (induction "careActions st" arbitrary: st) (auto split: if_splits dest: map_of_SomeD simp: list_all_iff)
  ultimately show ?thesis by simp
qed

lemma mem_findCareAction_simps:
  "mem_findCareAction i (snd (mem_updatePlantWatered now j st)) = mem_findCareAction i st"
  "mem_findCareAction i (snd (mem_updatePlantFertilized now j st)) = mem_findCareAction i st"
  "mem_findCareAction i (snd (mem_createCareAction ica st)) =
     (if i = careActionId st
      then Some (insertCareAction.extend ica (careAction.fields (careActionId st)))
      else mem_findCareAction i st)"
  by (simp_all add: mem_findCareAction_def mem_updatePlantWatered_def
      mem_updatePlantFertilized_def mem_createCareAction_def Let_def map_get_map_set
      split: option.splits)

lemma mem_counter_simps:
  "careActionId (snd (mem_updatePlantWatered now j st)) = careActionId st"
  "careActionId (snd (mem_updatePlantFertilized now j st)) = careActionId st"
  "careActionId (snd (mem_updateCareAction i fs st)) = careActionId st"
  by (simp_all add: mem_updatePlantWatered_def mem_updatePlantFertilized_def
      mem_updateCareAction_def Let_def split: option.splits)

lemma mem_complete_marks_action:
  assumes inv: "mem_invariant st" and action: "mem_findCareAction aid st = Some a"
  shows "mem_findCareAction aid (snd (complete_care_action memStorage tz now (Some sid) aid st))
           = Some (a\<lparr>isCompleted := Val True, completedAt := Some now\<rparr>)"
proof -
  let ?a' = "a\<lparr>isCompleted := Val True, completedAt := Some now\<rparr>"
  from mem_found_below_counter [OF inv action] have lt: "aid \<noteq> careActionId st" by simp
  from action have st1: "mem_updateCareAction aid [IsCompleted True, CompletedAt now] st
          = (Some ?a', st\<lparr>careActions := map_set (careActions st) aid ?a'\<rparr>)"
    by (simp add: mem_updateCareAction_def mem_findCareAction_def Let_def
        merge_careAction_complete)
  have f1: "mem_findCareAction aid (st\<lparr>careActions := map_set (careActions st) aid ?a'\<rparr>)
              = Some ?a'"
    by (simp add: mem_findCareAction_def map_get_map_set)
  have c1: "careActionId (st\<lparr>careActions := map_set (careActions st) aid ?a'\<rparr>) = careActionId st"
    by simp
  show ?thesis
    using lt f1
    by (simp add: complete_care_action_def memStorage_def Let_def st1 split_def
        mem_findCareAction_simps mem_counter_simps split: option.splits)
qed

lemma first_row_select_append:
  "first_row (select_where cond xs) = Some x \<Longrightarrow>
   first_row (select_where cond (xs @ ys)) = Some x"
  by (cases "filter cond xs") (simp_all add: first_row_def select_where_def)

lemma db_findCareAction_id: "db_findCareAction i db = Some a \<Longrightarrow> action_id a = i"
  unfolding db_findCareAction_def by (rule first_row_select_key)

lemma db_getPlant_id: "db_getPlant i db = Some p \<Longrightarrow> plant_id p = i"
  unfolding db_getPlant_def by (rule first_row_select_key)

lemma db_updateCareAction_complete:
  "db_updateCareAction aid [IsCompleted True, CompletedAt now] db =
     Some (map_option (\<lambda>r. r\<lparr>isCompleted := Val True, completedAt := Some now\<rparr>)
        (db_findCareAction aid db),
      db\<lparr>care_actions_table :=
           map (\<lambda>r. if action_id r = aid
                    then r\<lparr>isCompleted := Val True, completedAt := Some now\<rparr> else r)
             (care_actions_table db)\<rparr>)"
  by (simp add: db_updateCareAction_def db_findCareAction_def split_def Let_def
      first_row_returned merge_careAction_complete)
     (simp add: update_where_returning_def merge_careAction_complete)

lemma db_findCareAction_completed:
  "db_findCareAction aid
     (db\<lparr>care_actions_table :=
           map (\<lambda>r. if action_id r = aid
                    then r\<lparr>isCompleted := Val True, completedAt := Some now\<rparr> else r)
             (care_actions_table db)\<rparr>)
   = map_option (\<lambda>r. r\<lparr>isCompleted := Val True, completedAt := Some now\<rparr>)
       (db_findCareAction aid db)"
  using first_row_update_same
    [of "\<lambda>r. action_id r = aid" "\<lambda>r. r\<lparr>isCompleted := Val True, completedAt := Some now\<rparr>"
       "care_actions_table db"]
  by (simp add: db_findCareAction_def update_where_returning_def)

lemma db_getPlant_other_table:
  "db_getPlant i (db\<lparr>care_actions_table := t\<rparr>) = db_getPlant i db"
  "db_getPlant i (db\<lparr>care_actions_id_seq := n\<rparr>) = db_getPlant i db"
  by (simp_all add: db_getPlant_def)

lemma db_findCareAction_other_table:
  "db_findCareAction i (snd (db_updatePlantWatered now j db)) = db_findCareAction i db"
  "db_findCareAction i (snd (db_updatePlantFertilized now j db)) = db_findCareAction i db"
  "db_findCareAction i (db\<lparr>care_actions_id_seq := n\<rparr>) = db_findCareAction i db"
  by (simp_all add: db_findCareAction_def db_updatePlantWatered_def
      db_updatePlantFertilized_def split_def Let_def)

lemma db_updatePlantWatered_tables:
  "care_actions_table (snd (db_updatePlantWatered now i db)) = care_actions_table db"
  "care_actions_id_seq (snd (db_updatePlantWatered now i db)) = care_actions_id_seq db"
  by (simp_all add: db_updatePlantWatered_def split_def Let_def)

lemma db_updatePlantFertilized_tables:
  "care_actions_table (snd (db_updatePlantFertilized now i db)) = care_actions_table db"
  "care_actions_id_seq (snd (db_updatePlantFertilized now i db)) = care_actions_id_seq db"
  by (simp_all add: db_updatePlantFertilized_def split_def Let_def)

text \<open>
  The pending actions of a plant in the database, whatever the order of the rows: those
  of the table.
\<close>

lemma db_pending_actions:
  assumes "returns_every_row E"
  shows "mset (pending_actions (databaseStorage E) kind pid db) =
           mset (filter (\<lambda>r. plantId r = pid \<and> actionType r = kind \<and> isCompleted r \<noteq> Val True)
                   (care_actions_table db))"
proof -
  from assms have o: "mset (care_actions_order E rows) = mset rows" for rows
    by (simp add: returns_every_row_def)
  have "mset (filter P (care_actions_order E rows)) = mset (filter P rows)" for P rows
    by (simp add: o)
  then have "mset (pending_actions (databaseStorage E) kind pid db) =
      mset (filter (\<lambda>a. actionType a = kind \<and> isCompleted a \<noteq> Val True)
              (filter (\<lambda>r. plantId r = pid) (care_actions_table db)))"
    unfolding pending_actions_def databaseStorage_getCareActionsForPlant
      db_getCareActionsForPlant_def select_where_def by blast
  also have "filter (\<lambda>a. actionType a = kind \<and> isCompleted a \<noteq> Val True)
              (filter (\<lambda>r. plantId r = pid) (care_actions_table db))
      = filter (\<lambda>r. plantId r = pid \<and> actionType r = kind \<and> isCompleted r \<noteq> Val True)
                   (care_actions_table db)"
    by (induction "care_actions_table db" arbitrary: db) auto
  finally show ?thesis .
qed

lemma pending_after_completion:
  "filter (\<lambda>r. plantId r = pid \<and> actionType r = kind \<and> isCompleted r \<noteq> Val True)
     (map (\<lambda>r. if action_id r = aid
               then r\<lparr>isCompleted := Val True, completedAt := Some now\<rparr> else r) rows)
   = filter (\<lambda>r. action_id r \<noteq> aid)
       (filter (\<lambda>r. plantId r = pid \<and> actionType r = kind \<and> isCompleted r \<noteq> Val True) rows)"
  by (induction rows) auto

lemma db_complete_water:
  assumes user: "db_getUser sid db = Some u"
    and action: "db_findCareAction aid db = Some a"
    and kind: "actionType a = ''water''"
    and plant: "db_getPlant (plantId a) db = Some p"
    and freq: "waterFrequency p \<noteq> 0"
  shows "complete_care_action (databaseStorage E) tz now (Some sid) aid db =
          (case db_createCareAction E
                  (next_action tz now (plantId a) (user_id u) ''water'' (waterFrequency p))
                  (snd (db_updatePlantWatered now (plantId a)
                     (db\<lparr>care_actions_table :=
                          map (\<lambda>r. if action_id r = aid
                                   then r\<lparr>isCompleted := Val True, completedAt := Some now\<rparr>
                                   else r)
                            (care_actions_table db)\<rparr>))) of
             None \<Rightarrow>
               (Response 500 (Message ''Error completing care action''),
                snd (db_updatePlantWatered now (plantId a)
                     (db\<lparr>care_actions_table :=
                          map (\<lambda>r. if action_id r = aid
                                   then r\<lparr>isCompleted := Val True, completedAt := Some now\<rparr>
                                   else r)
                            (care_actions_table db)\<rparr>)))
           | Some (newAction, db3) \<Rightarrow>
               (Response 200
                  (CareActionJson (a\<lparr>isCompleted := Val True, completedAt := Some now\<rparr>)),
                db3))"
    and "db_getPlant (plantId a)
           (snd (db_updatePlantWatered now (plantId a)
                     (db\<lparr>care_actions_table :=
                          map (\<lambda>r. if action_id r = aid
                                   then r\<lparr>isCompleted := Val True, completedAt := Some now\<rparr>
                                   else r)
                            (care_actions_table db)\<rparr>)))
         = Some (p\<lparr>lastWatered := Some now, careHealth := Val 100\<rparr>)"
proof -
  let ?p' = "p\<lparr>lastWatered := Some now, careHealth := Val 100\<rparr>"
  let ?db1 = "db\<lparr>care_actions_table :=
                   map (\<lambda>r. if action_id r = aid
                            then r\<lparr>isCompleted := Val True, completedAt := Some now\<rparr> else r)
                     (care_actions_table db)\<rparr>"
  let ?db2 = "snd (db_updatePlantWatered now (plantId a) ?db1)"
  from plant have pid: "plant_id p = plantId a" by (rule db_getPlant_id)
  show gp2: "db_getPlant (plantId a) ?db2 = Some ?p'"
    using plant by (simp add: db_updatePlantWatered_getPlant db_getPlant_other_table)
  show "complete_care_action (databaseStorage E) tz now (Some sid) aid db =
          (case db_createCareAction E
                  (next_action tz now (plantId a) (user_id u) ''water'' (waterFrequency p)) ?db2 of
             None \<Rightarrow> (Response 500 (Message ''Error completing care action''), ?db2)
           | Some (newAction, db3) \<Rightarrow>
               (Response 200
                  (CareActionJson (a\<lparr>isCompleted := Val True, completedAt := Some now\<rparr>)),
                db3))"
    using user kind freq gp2 pid action
    by (simp add: complete_care_action_def databaseStorage_def Let_def
        db_updateCareAction_complete)
qed

lemma db_complete_fertilize:
  assumes user: "db_getUser sid db = Some u"
    and action: "db_findCareAction aid db = Some a"
    and kind: "actionType a = ''fertilize''"
    and plant: "db_getPlant (plantId a) db = Some p"
    and freq: "fertilizeFrequency p = Some f" "f \<noteq> 0"
  shows "complete_care_action (databaseStorage E) tz now (Some sid) aid db =
          (case db_createCareAction E
                  (next_action tz now (plantId a) (user_id u) ''fertilize'' f)
                  (snd (db_updatePlantFertilized now (plantId a)
                     (db\<lparr>care_actions_table :=
                          map (\<lambda>r. if action_id r = aid
                                   then r\<lparr>isCompleted := Val True, completedAt := Some now\<rparr>
                                   else r)
                            (care_actions_table db)\<rparr>))) of
             None \<Rightarrow>
               (Response 500 (Message ''Error completing care action''),
                snd (db_updatePlantFertilized now (plantId a)
                     (db\<lparr>care_actions_table :=
                          map (\<lambda>r. if action_id r = aid
                                   then r\<lparr>isCompleted := Val True, completedAt := Some now\<rparr>
                                   else r)
                            (care_actions_table db)\<rparr>)))
           | Some (newAction, db3) \<Rightarrow>
               (Response 200
                  (CareActionJson (a\<lparr>isCompleted := Val True, completedAt := Some now\<rparr>)),
                db3))"
    and "db_getPlant (plantId a)
           (snd (db_updatePlantFertilized now (plantId a)
                     (db\<lparr>care_actions_table :=
                          map (\<lambda>r. if action_id r = aid
                                   then r\<lparr>isCompleted := Val True, completedAt := Some now\<rparr>
                                   else r)
                            (care_actions_table db)\<rparr>)))
         = Some (p\<lparr>lastFertilized := Some now\<rparr>)"
proof -
  let ?p' = "p\<lparr>lastFertilized := Some now\<rparr>"
  let ?db1 = "db\<lparr>care_actions_table :=
                   map (\<lambda>r. if action_id r = aid
                            then r\<lparr>isCompleted := Val True, completedAt := Some now\<rparr> else r)
                     (care_actions_table db)\<rparr>"
  let ?db2 = "snd (db_updatePlantFertilized now (plantId a) ?db1)"
  from plant have pid: "plant_id p = plantId a" by (rule db_getPlant_id)
  show gp2: "db_getPlant (plantId a) ?db2 = Some ?p'"
    using plant by (simp add: db_updatePlantFertilized_getPlant db_getPlant_other_table)
  show "complete_care_action (databaseStorage E) tz now (Some sid) aid db =
          (case db_createCareAction E
                  (next_action tz now (plantId a) (user_id u) ''fertilize'' f) ?db2 of
             None \<Rightarrow> (Response 500 (Message ''Error completing care action''), ?db2)
           | Some (newAction, db3) \<Rightarrow>
               (Response 200
                  (CareActionJson (a\<lparr>isCompleted := Val True, completedAt := Some now\<rparr>)),
                db3))"
    using user kind freq gp2 pid action
    by (simp add: complete_care_action_def databaseStorage_def Let_def
        db_updateCareAction_complete)
qed

lemma mem_complete_care_action_invariant:
  "mem_invariant st \<Longrightarrow>
   mem_invariant (snd (complete_care_action memStorage tz now session aid st))"
  by (auto simp: complete_care_action_def memStorage_def Let_def split_def
      mem_updateCareAction_invariant mem_updatePlantWatered_invariant
      mem_updatePlantFertilized_invariant mem_createCareAction_invariant
      split: option.splits)

lemma mem_create_plant_invariant:
  "mem_invariant st \<Longrightarrow>
   mem_invariant (snd (create_plant memStorage tz now session reqBody st))"
  by (auto simp: create_plant_def memStorage_def Let_def split_def
      mem_createPlant_invariant mem_createCareAction_invariant
      split: option.splits)

lemma mset_singleton_list: "mset xs = {#x#} \<Longrightarrow> xs = [x]"
  by (cases xs) auto

text \<open>
  What the completion of a water or fertilize action leaves in the database, in terms of
  the store \<open>db2\<close> in which the action is marked and the plant updated.
\<close>

lemma db_complete_facts:
  assumes every: "returns_every_row E"
    and action: "db_findCareAction aid db = Some a"
    and run: "complete_care_action (databaseStorage E) tz now (Some sid) aid db =
          (case db_createCareAction E (next_action tz now (plantId a) uid kind freq) db2 of
             None \<Rightarrow> (Response 500 (Message ''Error completing care action''), db2)
           | Some (newAction, db3) \<Rightarrow>
               (Response 200
                  (CareActionJson (a\<lparr>isCompleted := Val True, completedAt := Some now\<rparr>)),
                db3))"
    and table: "care_actions_table db2 =
                  map (\<lambda>r. if action_id r = aid
                           then r\<lparr>isCompleted := Val True, completedAt := Some now\<rparr> else r)
                    (care_actions_table db)"
    and seq: "care_actions_id_seq db2 = care_actions_id_seq db"
    and plant: "db_getPlant (plantId a) db2 = Some p'"
  shows "db_findCareAction aid (snd (complete_care_action (databaseStorage E) tz now (Some sid) aid db))
           = Some (a\<lparr>isCompleted := Val True, completedAt := Some now\<rparr>)"
    and "db_getPlant (plantId a)
           (snd (complete_care_action (databaseStorage E) tz now (Some sid) aid db)) = Some p'"
    and "(status (fst (complete_care_action (databaseStorage E) tz now (Some sid) aid db)) = 200)
           = (careAction_values_ok E (next_action tz now (plantId a) uid kind freq) \<and>
              int4 (care_actions_id_seq db))"
    and "status (fst (complete_care_action (databaseStorage E) tz now (Some sid) aid db)) = 200 \<Longrightarrow>
         fst (complete_care_action (databaseStorage E) tz now (Some sid) aid db) =
           Response 200
             (CareActionJson (a\<lparr>isCompleted := Val True, completedAt := Some now\<rparr>)) \<and>
         mset (pending_actions (databaseStorage E) kind (plantId a)
                 (snd (complete_care_action (databaseStorage E) tz now (Some sid) aid db))) =
           mset (filter (\<lambda>x. action_id x \<noteq> aid)
                   (pending_actions (databaseStorage E) kind (plantId a) db)) +
           {#scheduled_action kind (plantId a) uid (addDays tz now freq)
               (care_actions_id_seq db)#}"
    and "status (fst (complete_care_action (databaseStorage E) tz now (Some sid) aid db)) \<noteq> 200 \<Longrightarrow>
         fst (complete_care_action (databaseStorage E) tz now (Some sid) aid db) =
           Response 500 (Message ''Error completing care action'') \<and>
         mset (pending_actions (databaseStorage E) kind (plantId a)
                 (snd (complete_care_action (databaseStorage E) tz now (Some sid) aid db))) =
           mset (filter (\<lambda>x. action_id x \<noteq> aid)
                   (pending_actions (databaseStorage E) kind (plantId a) db))"
proof -
  let ?ok = "careAction_values_ok E (next_action tz now (plantId a) uid kind freq) \<and>
             int4 (care_actions_id_seq db)"
  let ?a' = "a\<lparr>isCompleted := Val True, completedAt := Some now\<rparr>"
  let ?new = "scheduled_action kind (plantId a) uid (addDays tz now freq) (care_actions_id_seq db)"
  let ?done = "map (\<lambda>r. if action_id r = aid
                        then r\<lparr>isCompleted := Val True, completedAt := Some now\<rparr> else r)
                 (care_actions_table db)"
  let ?pending = "\<lambda>r. plantId r = plantId a \<and> actionType r = kind \<and> isCompleted r \<noteq> Val True"
  have run': "complete_care_action (databaseStorage E) tz now (Some sid) aid db =
      (if ?ok
       then (Response 200 (CareActionJson ?a'),
             db2\<lparr>care_actions_table := ?done @ [?new],
                 care_actions_id_seq := care_actions_id_seq db + 1\<rparr>)
       else (Response 500 (Message ''Error completing care action''), db2))"
    by (simp add: run db_createCareAction_next table seq)
  have found: "db_findCareAction aid db2 = Some ?a'"
    using db_findCareAction_completed [where aid = aid and db = db and now = now] action
    by (simp add: db_findCareAction_def table)
  show "db_findCareAction aid
          (snd (complete_care_action (databaseStorage E) tz now (Some sid) aid db)) = Some ?a'"
    using found first_row_select_append [of "\<lambda>r. action_id r = aid" ?done ?a' "[?new]"]
    by (simp add: run' db_findCareAction_def table)
  show "db_getPlant (plantId a)
           (snd (complete_care_action (databaseStorage E) tz now (Some sid) aid db)) = Some p'"
    using plant by (simp add: run' db_getPlant_def)
  show "(status (fst (complete_care_action (databaseStorage E) tz now (Some sid) aid db)) = 200)
           = ?ok"
    by (simp add: run')
  have before: "mset (filter (\<lambda>x. action_id x \<noteq> aid)
                   (pending_actions (databaseStorage E) kind (plantId a) db))
                = mset (filter ?pending ?done)"
  proof -
    have "mset (filter (\<lambda>x. action_id x \<noteq> aid)
                   (pending_actions (databaseStorage E) kind (plantId a) db))
          = mset (filter (\<lambda>x. action_id x \<noteq> aid)
                   (filter ?pending (care_actions_table db)))"
      using db_pending_actions [OF every, where kind = kind and pid = "plantId a" and db = db]
      by (metis mset_filter)
    then show ?thesis by (simp only: pending_after_completion)
  qed
  {
    assume "status (fst (complete_care_action (databaseStorage E) tz now (Some sid) aid db)) = 200"
    then have ok: ?ok by (simp add: run' split: if_splits)
    have "mset (pending_actions (databaseStorage E) kind (plantId a)
                 (db2\<lparr>care_actions_table := ?done @ [?new],
                      care_actions_id_seq := care_actions_id_seq db + 1\<rparr>))
          = mset (filter ?pending ?done) + {#?new#}"
      by (simp add: db_pending_actions [OF every] scheduled_action_sel)
    with ok before
    show "fst (complete_care_action (databaseStorage E) tz now (Some sid) aid db) =
           Response 200 (CareActionJson ?a') \<and>
         mset (pending_actions (databaseStorage E) kind (plantId a)
                 (snd (complete_care_action (databaseStorage E) tz now (Some sid) aid db))) =
           mset (filter (\<lambda>x. action_id x \<noteq> aid)
                   (pending_actions (databaseStorage E) kind (plantId a) db)) + {#?new#}"
      by (simp add: run')
  }
  {
    assume "status (fst (complete_care_action (databaseStorage E) tz now (Some sid) aid db))
              \<noteq> 200"
    then have ok: "\<not> ?ok" by (simp add: run' split: if_splits)
    have "mset (pending_actions (databaseStorage E) kind (plantId a) db2)
          = mset (filter ?pending ?done)"
      by (simp add: db_pending_actions [OF every] table)
    with ok before
    show "fst (complete_care_action (databaseStorage E) tz now (Some sid) aid db) =
           Response 500 (Message ''Error completing care action'') \<and>
         mset (pending_actions (databaseStorage E) kind (plantId a)
                 (snd (complete_care_action (databaseStorage E) tz now (Some sid) aid db))) =
           mset (filter (\<lambda>x. action_id x \<noteq> aid)
                   (pending_actions (databaseStorage E) kind (plantId a) db))"
      by (simp add: run')
  }
qed

text \<open>
  C1, as stated, fails on repeated completions: the handler does not look at
  \<open>isCompleted\<close>, so completing the same action again schedules another action. The
  plant of the example has one pending water action; after its action 1 has been
  completed twice the plant has two. It fails for a plant whose \<open>waterFrequency\<close> is 0,
  not null: the completion is answered 200 and no action is created. It fails with
  \<open>DatabaseStorage\<close> for a plant watered every 100000000 days, at the instant
  1700000000000: the due date is an \<open>Invalid Date\<close>, the insert throws, the answer is 500
  with the action marked completed and no new action. And the due date is days of the
  calendar away: on a server whose clocks go forward in between, it comes an hour short
  of 7 times 86400000 ms after the completion.
\<close>

theorem repeated_completion_counterexample:
  "pending_actions memStorage ''water'' 1 example_mem = [water_fern] \<and>
   status (fst (complete_care_action memStorage utc 2000 (Some 1) 1
      (snd (complete_care_action memStorage utc 1000 (Some 1) 1 example_mem)))) = 200 \<and>
   pending_actions memStorage ''water'' 1
      (snd (complete_care_action memStorage utc 2000 (Some 1) 1
         (snd (complete_care_action memStorage utc 1000 (Some 1) 1 example_mem)))) =
     [scheduled_action ''water'' 1 1 (Date 604801000) 2,
      scheduled_action ''water'' 1 1 (Date 604802000) 3] \<and>
   map_option waterFrequency (mem_getPlant 1 dry_mem) = Some 0 \<and>
   pending_actions memStorage ''water'' 1 dry_mem = [water_fern] \<and>
   status (fst (complete_care_action memStorage utc 1000 (Some 1) 1 dry_mem)) = 200 \<and>
   pending_actions memStorage ''water'' 1
      (snd (complete_care_action memStorage utc 1000 (Some 1) 1 dry_mem)) = [] \<and>
   map_option waterFrequency (db_getPlant 1 far_db) = Some 100000000 \<and>
   pending_actions (databaseStorage example_engine) ''water'' 1 far_db = [water_fern] \<and>
   fst (complete_care_action (databaseStorage example_engine) utc 1700000000000 (Some 1) 1 far_db)
     = Response 500 (Message ''Error completing care action'') \<and>
   db_findCareAction 1
      (snd (complete_care_action (databaseStorage example_engine) utc 1700000000000 (Some 1) 1
              far_db))
     = Some (water_fern\<lparr>isCompleted := Val True, completedAt := Some 1700000000000\<rparr>) \<and>
   pending_actions (databaseStorage example_engine) ''water'' 1
      (snd (complete_care_action (databaseStorage example_engine) utc 1700000000000 (Some 1) 1
              far_db)) = [] \<and>
   pending_actions memStorage ''water'' 1
      (snd (complete_care_action memStorage summer_zone 1000 (Some 1) 1 example_mem)) =
     [scheduled_action ''water'' 1 1 (Date 601201000) 2] \<and>
   (601201000::int) = 1000 + 7 * 86400000 - 3600000"
proof -
  have twice: "pending_actions memStorage ''water'' 1 example_mem = [water_fern] \<and>
   status (fst (complete_care_action memStorage utc 2000 (Some 1) 1
      (snd (complete_care_action memStorage utc 1000 (Some 1) 1 example_mem)))) = 200 \<and>
   pending_actions memStorage ''water'' 1
      (snd (complete_care_action memStorage utc 2000 (Some 1) 1
         (snd (complete_care_action memStorage utc 1000 (Some 1) 1 example_mem)))) =
     [scheduled_action ''water'' 1 1 (Date 604801000) 2,
      scheduled_action ''water'' 1 1 (Date 604802000) 3]"
    by (simp add: complete_care_action_def memStorage_def mem_getUser_def mem_getPlant_def
        mem_updateCareAction_def pending_actions_def mem_getCareActionsForPlant_def
        mem_updatePlantWatered_def mem_createCareAction_def example_mem_def map_get_def
        map_set_def map_values_def Let_def merge_careAction_def water_fern_def fern_def
        demo_def addDays_utc TimeClip_def next_action_def scheduled_action_def
        insertCareAction.extend_def careAction.fields_def insertCareAction.defs
        careAction.defs)
  have dry: "map_option waterFrequency (mem_getPlant 1 dry_mem) = Some 0 \<and>
   pending_actions memStorage ''water'' 1 dry_mem = [water_fern] \<and>
   status (fst (complete_care_action memStorage utc 1000 (Some 1) 1 dry_mem)) = 200 \<and>
   pending_actions memStorage ''water'' 1
      (snd (complete_care_action memStorage utc 1000 (Some 1) 1 dry_mem)) = []"
    by (simp add: complete_care_action_def memStorage_def mem_getUser_def mem_getPlant_def
        mem_updateCareAction_def pending_actions_def mem_getCareActionsForPlant_def
        mem_updatePlantWatered_def mem_createCareAction_def dry_mem_def example_mem_def
        map_get_def map_set_def map_values_def Let_def merge_careAction_def water_fern_def
        fern_def demo_def)
  have far: "map_option waterFrequency (db_getPlant 1 far_db) = Some 100000000 \<and>
   pending_actions (databaseStorage example_engine) ''water'' 1 far_db = [water_fern] \<and>
   fst (complete_care_action (databaseStorage example_engine) utc 1700000000000 (Some 1) 1 far_db)
     = Response 500 (Message ''Error completing care action'') \<and>
   db_findCareAction 1
      (snd (complete_care_action (databaseStorage example_engine) utc 1700000000000 (Some 1) 1
              far_db))
     = Some (water_fern\<lparr>isCompleted := Val True, completedAt := Some 1700000000000\<rparr>) \<and>
   pending_actions (databaseStorage example_engine) ''water'' 1
      (snd (complete_care_action (databaseStorage example_engine) utc 1700000000000 (Some 1) 1
              far_db)) = []"
    by (simp add: complete_care_action_def databaseStorage_def db_getUser_def
        db_findCareAction_def db_getPlant_def db_updateCareAction_def pending_actions_def
        db_getCareActionsForPlant_def db_updatePlantWatered_def db_createCareAction_def
        careAction_values_ok_def timestamp_ok_def far_db_def example_db_def select_where_def
        first_row_def update_where_returning_def Let_def merge_careAction_def water_fern_def
        fern_def demo_def bob_def carol_def root_user_def addDays_utc TimeClip_def
        next_action_def example_engine_def)
  have summer: "pending_actions memStorage ''water'' 1
      (snd (complete_care_action memStorage summer_zone 1000 (Some 1) 1 example_mem)) =
     [scheduled_action ''water'' 1 1 (Date 601201000) 2]"
    by (simp add: complete_care_action_def memStorage_def mem_getUser_def mem_getPlant_def
        mem_updateCareAction_def pending_actions_def mem_getCareActionsForPlant_def
        mem_updatePlantWatered_def mem_createCareAction_def example_mem_def map_get_def
        map_set_def map_values_def Let_def merge_careAction_def water_fern_def fern_def
        demo_def addDays_examples next_action_def scheduled_action_def
        insertCareAction.extend_def careAction.fields_def insertCareAction.defs
        careAction.defs)
  from twice dry far summer show ?thesis by simp
qed

text \<open>
  C1, amended. A logged-in user completes a water action \<open>a\<close> whose plant \<open>p\<close> exists and
  has a \<open>waterFrequency\<close> other than 0. On either storage (\<open>MemStorage\<close> in a state its
  methods can reach) the action is stored as completed (\<open>isCompleted\<close> true, \<open>completedAt\<close>
  the current instant) and the plant with \<open>lastWatered\<close> the current instant. With
  \<open>MemStorage\<close> the answer is 200 with the completed action; with \<open>DatabaseStorage\<close> it
  is 200 when the database takes the new action (its values, the due date among them,
  and the next id), and 500 otherwise. When the answer is 200, the pending water actions
  of the plant are afterwards those it had, without the completed one, and exactly one
  new action (in the database the rows come in the order that the engine gives them); so
  if \<open>a\<close> was the plant's only pending water action, the new action is its only pending
  water action. When the answer is 500 no action is added. The new action is due on the
  \<open>Date\<close> that \<open>setDate(getDate() + waterFrequency)\<close> makes of the completion time: that
  time moved by \<open>waterFrequency\<close> calendar days in the server's time zone, which on a
  server in UTC is the completion time plus \<open>waterFrequency\<close> times 86400000 ms, and an
  \<open>Invalid Date\<close> beyond the range of a \<open>Date\<close>. The same holds for a fertilize action
  and a \<open>fertilizeFrequency\<close> that is neither null nor 0. Nothing is said of completing an
  action that is already completed.
\<close>

theorem completion_schedules_exactly_one_next_action:
  "(mem_invariant st \<and> mem_getUser sid st = Some u \<and> mem_findCareAction aid st = Some a \<and>
      actionType a = ''water'' \<and> mem_getPlant (plantId a) st = Some p \<and>
      waterFrequency p \<noteq> 0 \<longrightarrow>
      fst (complete_care_action memStorage tz now (Some sid) aid st) =
        Response 200 (CareActionJson (a\<lparr>isCompleted := Val True, completedAt := Some now\<rparr>)) \<and>
      mem_findCareAction aid (snd (complete_care_action memStorage tz now (Some sid) aid st)) =
        Some (a\<lparr>isCompleted := Val True, completedAt := Some now\<rparr>) \<and>
      mem_getPlant (plantId a) (snd (complete_care_action memStorage tz now (Some sid) aid st)) =
        Some (p\<lparr>lastWatered := Some now, careHealth := Val 100\<rparr>) \<and>
      pending_actions memStorage ''water'' (plantId a)
          (snd (complete_care_action memStorage tz now (Some sid) aid st)) =
        filter (\<lambda>x. action_id x \<noteq> aid) (pending_actions memStorage ''water'' (plantId a) st) @
        [scheduled_action ''water'' (plantId a) (user_id u)
           (addDays tz now (waterFrequency p)) (careActionId st)] \<and>
      (pending_actions memStorage ''water'' (plantId a) st = [a] \<longrightarrow>
         pending_actions memStorage ''water'' (plantId a)
             (snd (complete_care_action memStorage tz now (Some sid) aid st)) =
           [scheduled_action ''water'' (plantId a) (user_id u)
              (addDays tz now (waterFrequency p)) (careActionId st)])) \<and>
   (mem_invariant st \<and> mem_getUser sid st = Some u \<and> mem_findCareAction aid st = Some a \<and>
      actionType a = ''fertilize'' \<and> mem_getPlant (plantId a) st = Some p \<and>
      fertilizeFrequency p = Some f \<and> f \<noteq> 0 \<longrightarrow>
      fst (complete_care_action memStorage tz now (Some sid) aid st) =
        Response 200 (CareActionJson (a\<lparr>isCompleted := Val True, completedAt := Some now\<rparr>)) \<and>
      mem_findCareAction aid (snd (complete_care_action memStorage tz now (Some sid) aid st)) =
        Some (a\<lparr>isCompleted := Val True, completedAt := Some now\<rparr>) \<and>
      mem_getPlant (plantId a) (snd (complete_care_action memStorage tz now (Some sid) aid st)) =
        Some (p\<lparr>lastFertilized := Some now\<rparr>) \<and>
      pending_actions memStorage ''fertilize'' (plantId a)
          (snd (complete_care_action memStorage tz now (Some sid) aid st)) =
        filter (\<lambda>x. action_id x \<noteq> aid)
          (pending_actions memStorage ''fertilize'' (plantId a) st) @
        [scheduled_action ''fertilize'' (plantId a) (user_id u) (addDays tz now f)
           (careActionId st)] \<and>
      (pending_actions memStorage ''fertilize'' (plantId a) st = [a] \<longrightarrow>
         pending_actions memStorage ''fertilize'' (plantId a)
             (snd (complete_care_action memStorage tz now (Some sid) aid st)) =
           [scheduled_action ''fertilize'' (plantId a) (user_id u) (addDays tz now f)
              (careActionId st)])) \<and>
   (returns_every_row E \<and> db_getUser sid db = Some v \<and> db_findCareAction aid db = Some b \<and>
      actionType b = ''water'' \<and> db_getPlant (plantId b) db = Some q \<and>
      waterFrequency q \<noteq> 0 \<longrightarrow>
      db_findCareAction aid
          (snd (complete_care_action (databaseStorage E) tz now (Some sid) aid db)) =
        Some (b\<lparr>isCompleted := Val True, completedAt := Some now\<rparr>) \<and>
      db_getPlant (plantId b)
          (snd (complete_care_action (databaseStorage E) tz now (Some sid) aid db)) =
        Some (q\<lparr>lastWatered := Some now, careHealth := Val 100\<rparr>) \<and>
      (status (fst (complete_care_action (databaseStorage E) tz now (Some sid) aid db)) = 200)
        = (careAction_values_ok E
             (next_action tz now (plantId b) (user_id v) ''water'' (waterFrequency q)) \<and>
           int4 (care_actions_id_seq db)) \<and>
      (status (fst (complete_care_action (databaseStorage E) tz now (Some sid) aid db)) = 200 \<longrightarrow>
         fst (complete_care_action (databaseStorage E) tz now (Some sid) aid db) =
           Response 200
             (CareActionJson (b\<lparr>isCompleted := Val True, completedAt := Some now\<rparr>)) \<and>
         mset (pending_actions (databaseStorage E) ''water'' (plantId b)
                 (snd (complete_care_action (databaseStorage E) tz now (Some sid) aid db))) =
           mset (filter (\<lambda>x. action_id x \<noteq> aid)
                   (pending_actions (databaseStorage E) ''water'' (plantId b) db)) +
           {#scheduled_action ''water'' (plantId b) (user_id v)
               (addDays tz now (waterFrequency q)) (care_actions_id_seq db)#} \<and>
         (pending_actions (databaseStorage E) ''water'' (plantId b) db = [b] \<longrightarrow>
            pending_actions (databaseStorage E) ''water'' (plantId b)
                (snd (complete_care_action (databaseStorage E) tz now (Some sid) aid db)) =
              [scheduled_action ''water'' (plantId b) (user_id v)
                 (addDays tz now (waterFrequency q)) (care_actions_id_seq db)])) \<and>
      (status (fst (complete_care_action (databaseStorage E) tz now (Some sid) aid db)) \<noteq> 200 \<longrightarrow>
         fst (complete_care_action (databaseStorage E) tz now (Some sid) aid db) =
           Response 500 (Message ''Error completing care action'') \<and>
         mset (pending_actions (databaseStorage E) ''water'' (plantId b)
                 (snd (complete_care_action (databaseStorage E) tz now (Some sid) aid db))) =
           mset (filter (\<lambda>x. action_id x \<noteq> aid)
                   (pending_actions (databaseStorage E) ''water'' (plantId b) db)))) \<and>
   (returns_every_row E \<and> db_getUser sid db = Some v \<and> db_findCareAction aid db = Some b \<and>
      actionType b = ''fertilize'' \<and> db_getPlant (plantId b) db = Some q \<and>
      fertilizeFrequency q = Some f \<and> f \<noteq> 0 \<longrightarrow>
      db_findCareAction aid
          (snd (complete_care_action (databaseStorage E) tz now (Some sid) aid db)) =
        Some (b\<lparr>isCompleted := Val True, completedAt := Some now\<rparr>) \<and>
      db_getPlant (plantId b)
          (snd (complete_care_action (databaseStorage E) tz now (Some sid) aid db)) =
        Some (q\<lparr>lastFertilized := Some now\<rparr>) \<and>
      (status (fst (complete_care_action (databaseStorage E) tz now (Some sid) aid db)) = 200)
        = (careAction_values_ok E
             (next_action tz now (plantId b) (user_id v) ''fertilize'' f) \<and>
           int4 (care_actions_id_seq db)) \<and>
      (status (fst (complete_care_action (databaseStorage E) tz now (Some sid) aid db)) = 200 \<longrightarrow>
         fst (complete_care_action (databaseStorage E) tz now (Some sid) aid db) =
           Response 200
             (CareActionJson (b\<lparr>isCompleted := Val True, completedAt := Some now\<rparr>)) \<and>
         mset (pending_actions (databaseStorage E) ''fertilize'' (plantId b)
                 (snd (complete_care_action (databaseStorage E) tz now (Some sid) aid db))) =
           mset (filter (\<lambda>x. action_id x \<noteq> aid)
                   (pending_actions (databaseStorage E) ''fertilize'' (plantId b) db)) +
           {#scheduled_action ''fertilize'' (plantId b) (user_id v) (addDays tz now f)
               (care_actions_id_seq db)#} \<and>
         (pending_actions (databaseStorage E) ''fertilize'' (plantId b) db = [b] \<longrightarrow>
            pending_actions (databaseStorage E) ''fertilize'' (plantId b)
                (snd (complete_care_action (databaseStorage E) tz now (Some sid) aid db)) =
              [scheduled_action ''fertilize'' (plantId b) (user_id v) (addDays tz now f)
                 (care_actions_id_seq db)])) \<and>
      (status (fst (complete_care_action (databaseStorage E) tz now (Some sid) aid db)) \<noteq> 200 \<longrightarrow>
         fst (complete_care_action (databaseStorage E) tz now (Some sid) aid db) =
           Response 500 (Message ''Error completing care action'') \<and>
         mset (pending_actions (databaseStorage E) ''fertilize'' (plantId b)
                 (snd (complete_care_action (databaseStorage E) tz now (Some sid) aid db))) =
           mset (filter (\<lambda>x. action_id x \<noteq> aid)
                   (pending_actions (databaseStorage E) ''fertilize'' (plantId b) db)))) \<and>
   addDays utc now n = TimeClip (now + n * 86400000) \<and>
   TimeClip (now + n * 86400000) =
     (if \<bar>now + n * 86400000\<bar> \<le> 8640000000000000 then Date (now + n * 86400000)
      else InvalidDate)"
proof (intro conjI impI)
  show "addDays utc now n = TimeClip (now + n * 86400000)"
    by (rule addDays_utc)
  show "TimeClip (now + n * 86400000) =
     (if \<bar>now + n * 86400000\<bar> \<le> 8640000000000000 then Date (now + n * 86400000)
      else InvalidDate)"
    by (simp add: TimeClip_def)
next
  assume h: "mem_invariant st \<and> mem_getUser sid st = Some u \<and>
    mem_findCareAction aid st = Some a \<and> actionType a = ''water'' \<and>
    mem_getPlant (plantId a) st = Some p \<and> waterFrequency p \<noteq> 0"
  then have r: "mem_invariant st" "mem_getUser sid st = Some u"
    "mem_findCareAction aid st = Some a" "actionType a = ''water''"
    "mem_getPlant (plantId a) st = Some p" "waterFrequency p \<noteq> 0"
    by simp_all
  note w = mem_complete_water [OF r, where tz = tz and now = now]
  show "fst (complete_care_action memStorage tz now (Some sid) aid st) =
        Response 200 (CareActionJson (a\<lparr>isCompleted := Val True, completedAt := Some now\<rparr>))"
    by (rule w(1))
  show "mem_findCareAction aid (snd (complete_care_action memStorage tz now (Some sid) aid st)) =
        Some (a\<lparr>isCompleted := Val True, completedAt := Some now\<rparr>)"
    by (rule mem_complete_marks_action [OF r(1,3)])
  show "mem_getPlant (plantId a) (snd (complete_care_action memStorage tz now (Some sid) aid st)) =
        Some (p\<lparr>lastWatered := Some now, careHealth := Val 100\<rparr>)"
    by (rule w(2))
  show "pending_actions memStorage ''water'' (plantId a)
          (snd (complete_care_action memStorage tz now (Some sid) aid st)) =
        filter (\<lambda>x. action_id x \<noteq> aid) (pending_actions memStorage ''water'' (plantId a) st) @
        [scheduled_action ''water'' (plantId a) (user_id u)
           (addDays tz now (waterFrequency p)) (careActionId st)]"
    by (rule w(3))
  from mem_found_below_counter [OF r(1,3)] have i: "action_id a = aid" by simp
  assume "pending_actions memStorage ''water'' (plantId a) st = [a]"
  with i show "pending_actions memStorage ''water'' (plantId a)
             (snd (complete_care_action memStorage tz now (Some sid) aid st)) =
           [scheduled_action ''water'' (plantId a) (user_id u)
              (addDays tz now (waterFrequency p)) (careActionId st)]"
    by (simp add: w(3))
next
  assume h: "mem_invariant st \<and> mem_getUser sid st = Some u \<and>
    mem_findCareAction aid st = Some a \<and> actionType a = ''fertilize'' \<and>
    mem_getPlant (plantId a) st = Some p \<and> fertilizeFrequency p = Some f \<and> f \<noteq> 0"
  then have r: "mem_invariant st" "mem_getUser sid st = Some u"
    "mem_findCareAction aid st = Some a" "actionType a = ''fertilize''"
    "mem_getPlant (plantId a) st = Some p" "fertilizeFrequency p = Some f" "f \<noteq> 0"
    by simp_all
  note w = mem_complete_fertilize [OF r, where tz = tz and now = now]
  show "fst (complete_care_action memStorage tz now (Some sid) aid st) =
        Response 200 (CareActionJson (a\<lparr>isCompleted := Val True, completedAt := Some now\<rparr>))"
    by (rule w(1))
  show "mem_findCareAction aid (snd (complete_care_action memStorage tz now (Some sid) aid st)) =
        Some (a\<lparr>isCompleted := Val True, completedAt := Some now\<rparr>)"
    by (rule mem_complete_marks_action [OF r(1,3)])
  show "mem_getPlant (plantId a) (snd (complete_care_action memStorage tz now (Some sid) aid st)) =
        Some (p\<lparr>lastFertilized := Some now\<rparr>)"
    by (rule w(2))
  show "pending_actions memStorage ''fertilize'' (plantId a)
          (snd (complete_care_action memStorage tz now (Some sid) aid st)) =
        filter (\<lambda>x. action_id x \<noteq> aid)
          (pending_actions memStorage ''fertilize'' (plantId a) st) @
        [scheduled_action ''fertilize'' (plantId a) (user_id u) (addDays tz now f)
           (careActionId st)]"
    by (rule w(3))
  from mem_found_below_counter [OF r(1,3)] have i: "action_id a = aid" by simp
  assume "pending_actions memStorage ''fertilize'' (plantId a) st = [a]"
  with i show "pending_actions memStorage ''fertilize'' (plantId a)
             (snd (complete_care_action memStorage tz now (Some sid) aid st)) =
           [scheduled_action ''fertilize'' (plantId a) (user_id u) (addDays tz now f)
              (careActionId st)]"
    by (simp add: w(3))
next
  assume h: "returns_every_row E \<and> db_getUser sid db = Some v \<and>
    db_findCareAction aid db = Some b \<and> actionType b = ''water'' \<and>
    db_getPlant (plantId b) db = Some q \<and> waterFrequency q \<noteq> 0"
  then have e: "returns_every_row E" and r: "db_getUser sid db = Some v"
    "db_findCareAction aid db = Some b" "actionType b = ''water''"
    "db_getPlant (plantId b) db = Some q" "waterFrequency q \<noteq> 0"
    by simp_all
  note w = db_complete_water(1) [OF r, where E = E and tz = tz and now = now]
    db_complete_water(2) [OF r, where now = now]
  note facts = db_complete_facts [OF e r(2) w(1) _ _ w(2)]
  have t: "care_actions_table (snd (db_updatePlantWatered now (plantId b)
             (db\<lparr>care_actions_table :=
                  map (\<lambda>r. if action_id r = aid
                           then r\<lparr>isCompleted := Val True, completedAt := Some now\<rparr> else r)
                    (care_actions_table db)\<rparr>))) =
           map (\<lambda>r. if action_id r = aid
                    then r\<lparr>isCompleted := Val True, completedAt := Some now\<rparr> else r)
             (care_actions_table db)"
    "care_actions_id_seq (snd (db_updatePlantWatered now (plantId b)
             (db\<lparr>care_actions_table :=
                  map (\<lambda>r. if action_id r = aid
                           then r\<lparr>isCompleted := Val True, completedAt := Some now\<rparr> else r)
                    (care_actions_table db)\<rparr>))) = care_actions_id_seq db"
    by (simp_all add: db_updatePlantWatered_tables)
  show "db_findCareAction aid
          (snd (complete_care_action (databaseStorage E) tz now (Some sid) aid db)) =
        Some (b\<lparr>isCompleted := Val True, completedAt := Some now\<rparr>)"
    by (rule facts(1) [OF t])
  show "db_getPlant (plantId b)
          (snd (complete_care_action (databaseStorage E) tz now (Some sid) aid db)) =
        Some (q\<lparr>lastWatered := Some now, careHealth := Val 100\<rparr>)"
    by (rule facts(2) [OF t])
  show "(status (fst (complete_care_action (databaseStorage E) tz now (Some sid) aid db)) = 200)
        = (careAction_values_ok E
             (next_action tz now (plantId b) (user_id v) ''water'' (waterFrequency q)) \<and>
           int4 (care_actions_id_seq db))"
    by (rule facts(3) [OF t])
  {
    assume s: "status (fst (complete_care_action (databaseStorage E) tz now (Some sid) aid db))
                 = 200"
    note f4 = facts(4) [OF t s]
    from f4 show "fst (complete_care_action (databaseStorage E) tz now (Some sid) aid db) =
           Response 200
             (CareActionJson (b\<lparr>isCompleted := Val True, completedAt := Some now\<rparr>))"
      by simp
    from f4 show "mset (pending_actions (databaseStorage E) ''water'' (plantId b)
                 (snd (complete_care_action (databaseStorage E) tz now (Some sid) aid db))) =
           mset (filter (\<lambda>x. action_id x \<noteq> aid)
                   (pending_actions (databaseStorage E) ''water'' (plantId b) db)) +
           {#scheduled_action ''water'' (plantId b) (user_id v)
               (addDays tz now (waterFrequency q)) (care_actions_id_seq db)#}"
      by simp
    assume "pending_actions (databaseStorage E) ''water'' (plantId b) db = [b]"
    with f4 db_findCareAction_id [OF r(2)]
    show "pending_actions (databaseStorage E) ''water'' (plantId b)
                (snd (complete_care_action (databaseStorage E) tz now (Some sid) aid db)) =
              [scheduled_action ''water'' (plantId b) (user_id v)
                 (addDays tz now (waterFrequency q)) (care_actions_id_seq db)]"
      by (intro mset_singleton_list) simp
  }
  {
    assume s: "status (fst (complete_care_action (databaseStorage E) tz now (Some sid) aid db))
                 \<noteq> 200"
    note f5 = facts(5) [OF t s]
    from f5 show "fst (complete_care_action (databaseStorage E) tz now (Some sid) aid db) =
           Response 500 (Message ''Error completing care action'')"
      by simp
    from f5 show "mset (pending_actions (databaseStorage E) ''water'' (plantId b)
                 (snd (complete_care_action (databaseStorage E) tz now (Some sid) aid db))) =
           mset (filter (\<lambda>x. action_id x \<noteq> aid)
                   (pending_actions (databaseStorage E) ''water'' (plantId b) db))"
      by simp
  }
next
  assume h: "returns_every_row E \<and> db_getUser sid db = Some v \<and>
    db_findCareAction aid db = Some b \<and> actionType b = ''fertilize'' \<and>
    db_getPlant (plantId b) db = Some q \<and> fertilizeFrequency q = Some f \<and> f \<noteq> 0"
  then have e: "returns_every_row E" and r: "db_getUser sid db = Some v"
    "db_findCareAction aid db = Some b" "actionType b = ''fertilize''"
    "db_getPlant (plantId b) db = Some q" "fertilizeFrequency q = Some f" "f \<noteq> 0"
    by simp_all
  note w = db_complete_fertilize(1) [OF r, where E = E and tz = tz and now = now]
    db_complete_fertilize(2) [OF r, where now = now]
  note facts = db_complete_facts [OF e r(2) w(1) _ _ w(2)]
  have t: "care_actions_table (snd (db_updatePlantFertilized now (plantId b)
             (db\<lparr>care_actions_table :=
                  map (\<lambda>r. if action_id r = aid
                           then r\<lparr>isCompleted := Val True, completedAt := Some now\<rparr> else r)
                    (care_actions_table db)\<rparr>))) =
           map (\<lambda>r. if action_id r = aid
                    then r\<lparr>isCompleted := Val True, completedAt := Some now\<rparr> else r)
             (care_actions_table db)"
    "care_actions_id_seq (snd (db_updatePlantFertilized now (plantId b)
             (db\<lparr>care_actions_table :=
                  map (\<lambda>r. if action_id r = aid
                           then r\<lparr>isCompleted := Val True, completedAt := Some now\<rparr> else r)
                    (care_actions_table db)\<rparr>))) = care_actions_id_seq db"
    by (simp_all add: db_updatePlantFertilized_tables)
  show "db_findCareAction aid
          (snd (complete_care_action (databaseStorage E) tz now (Some sid) aid db)) =
        Some (b\<lparr>isCompleted := Val True, completedAt := Some now\<rparr>)"
    by (rule facts(1) [OF t])
  show "db_getPlant (plantId b)
          (snd (complete_care_action (databaseStorage E) tz now (Some sid) aid db)) =
        Some (q\<lparr>lastFertilized := Some now\<rparr>)"
    by (rule facts(2) [OF t])
  show "(status (fst (complete_care_action (databaseStorage E) tz now (Some sid) aid db)) = 200)
        = (careAction_values_ok E
             (next_action tz now (plantId b) (user_id v) ''fertilize'' f) \<and>
           int4 (care_actions_id_seq db))"
    by (rule facts(3) [OF t])
  {
    assume s: "status (fst (complete_care_action (databaseStorage E) tz now (Some sid) aid db))
                 = 200"
    note f4 = facts(4) [OF t s]
    from f4 show "fst (complete_care_action (databaseStorage E) tz now (Some sid) aid db) =
           Response 200
             (CareActionJson (b\<lparr>isCompleted := Val True, completedAt := Some now\<rparr>))"
      by simp
    from f4 show "mset (pending_actions (databaseStorage E) ''fertilize'' (plantId b)
                 (snd (complete_care_action (databaseStorage E) tz now (Some sid) aid db))) =
           mset (filter (\<lambda>x. action_id x \<noteq> aid)
                   (pending_actions (databaseStorage E) ''fertilize'' (plantId b) db)) +
           {#scheduled_action ''fertilize'' (plantId b) (user_id v) (addDays tz now f)
               (care_actions_id_seq db)#}"
      by simp
    assume "pending_actions (databaseStorage E) ''fertilize'' (plantId b) db = [b]"
    with f4 db_findCareAction_id [OF r(2)]
    show "pending_actions (databaseStorage E) ''fertilize'' (plantId b)
                (snd (complete_care_action (databaseStorage E) tz now (Some sid) aid db)) =
              [scheduled_action ''fertilize'' (plantId b) (user_id v) (addDays tz now f)
                 (care_actions_id_seq db)]"
      by (intro mset_singleton_list) simp
  }
  {
    assume s: "status (fst (complete_care_action (databaseStorage E) tz now (Some sid) aid db))
                 \<noteq> 200"
    note f5 = facts(5) [OF t s]
    from f5 show "fst (complete_care_action (databaseStorage E) tz now (Some sid) aid db) =
           Response 500 (Message ''Error completing care action'')"
      by simp
    from f5 show "mset (pending_actions (databaseStorage E) ''fertilize'' (plantId b)
                 (snd (complete_care_action (databaseStorage E) tz now (Some sid) aid db))) =
           mset (filter (\<lambda>x. action_id x \<noteq> aid)
                   (pending_actions (databaseStorage E) ''fertilize'' (plantId b) db))"
      by simp
  }
qed

theorem completion_schedules_exactly_one_next_action_witness:
  "mem_invariant garden_mem \<and> mem_getUser 1 garden_mem = Some demo \<and>
   mem_findCareAction 1 garden_mem = Some water_fern \<and> actionType water_fern = ''water'' \<and>
   mem_findCareAction 2 garden_mem = Some feed_fern \<and> actionType feed_fern = ''fertilize'' \<and>
   mem_getPlant 1 garden_mem = Some fern \<and>
   waterFrequency fern = 7 \<and> fertilizeFrequency fern = Some 30 \<and>
   pending_actions memStorage ''water'' 1 garden_mem = [water_fern] \<and>
   mem_findCareAction 1 (snd (complete_care_action memStorage utc 1000 (Some 1) 1 garden_mem)) =
     Some (water_fern\<lparr>isCompleted := Val True, completedAt := Some 1000\<rparr>) \<and>
   pending_actions memStorage ''water'' 1
       (snd (complete_care_action memStorage utc 1000 (Some 1) 1 garden_mem)) =
     [scheduled_action ''water'' 1 1 (Date 604801000) 3] \<and>
   pending_actions memStorage ''fertilize'' 1 garden_mem = [feed_fern] \<and>
   pending_actions memStorage ''fertilize'' 1
       (snd (complete_care_action memStorage utc 1000 (Some 1) 2 garden_mem)) =
     [scheduled_action ''fertilize'' 1 1 (Date 2592001000) 3] \<and>
   returns_every_row example_engine \<and>
   db_getUser 1 garden_db = Some demo \<and>
   db_findCareAction 1 garden_db = Some water_fern \<and>
   db_findCareAction 2 garden_db = Some feed_fern \<and>
   db_getPlant 1 garden_db = Some fern \<and>
   pending_actions (databaseStorage example_engine) ''water'' 1 garden_db = [water_fern] \<and>
   status (fst (complete_care_action (databaseStorage example_engine) utc 1000 (Some 1) 1
                  garden_db)) = 200 \<and>
   db_findCareAction 1
       (snd (complete_care_action (databaseStorage example_engine) utc 1000 (Some 1) 1
               garden_db)) =
     Some (water_fern\<lparr>isCompleted := Val True, completedAt := Some 1000\<rparr>) \<and>
   pending_actions (databaseStorage example_engine) ''water'' 1
       (snd (complete_care_action (databaseStorage example_engine) utc 1000 (Some 1) 1
               garden_db)) =
     [scheduled_action ''water'' 1 1 (Date 604801000) 3] \<and>
   pending_actions (databaseStorage example_engine) ''fertilize'' 1 garden_db = [feed_fern] \<and>
   status (fst (complete_care_action (databaseStorage example_engine) utc 1000 (Some 1) 2
                  garden_db)) = 200 \<and>
   pending_actions (databaseStorage example_engine) ''fertilize'' 1
       (snd (complete_care_action (databaseStorage example_engine) utc 1000 (Some 1) 2
               garden_db)) =
     [scheduled_action ''fertilize'' 1 1 (Date 2592001000) 3]"
proof -
  have inv: "mem_invariant garden_mem"
    by (simp add: mem_invariant_def garden_mem_def example_mem_def demo_def bob_def carol_def
        root_user_def fern_def water_fern_def feed_fern_def)
  have m: "mem_getUser 1 garden_mem = Some demo"
    "mem_findCareAction 1 garden_mem = Some water_fern"
    "mem_findCareAction 2 garden_mem = Some feed_fern"
    "mem_getPlant 1 garden_mem = Some fern"
    by (simp_all add: mem_getUser_def mem_findCareAction_def mem_getPlant_def garden_mem_def
        example_mem_def map_get_def)
  have d: "db_getUser 1 garden_db = Some demo"
    "db_findCareAction 1 garden_db = Some water_fern"
    "db_findCareAction 2 garden_db = Some feed_fern"
    "db_getPlant 1 garden_db = Some fern"
    by (simp_all add: db_getUser_def db_findCareAction_def db_getPlant_def garden_db_def
        example_db_def select_where_def first_row_def demo_def water_fern_def feed_fern_def
        fern_def)
  have f: "actionType water_fern = ''water''" "actionType feed_fern = ''fertilize''"
    "plantId water_fern = 1" "plantId feed_fern = 1"
    "waterFrequency fern = 7" "fertilizeFrequency fern = Some 30" "user_id demo = 1"
    "action_id water_fern = 1" "action_id feed_fern = 2"
    by (simp_all add: water_fern_def feed_fern_def fern_def demo_def)
  have p: "pending_actions memStorage ''water'' 1 garden_mem = [water_fern]"
    "pending_actions memStorage ''fertilize'' 1 garden_mem = [feed_fern]"
    "pending_actions (databaseStorage example_engine) ''water'' 1 garden_db = [water_fern]"
    "pending_actions (databaseStorage example_engine) ''fertilize'' 1 garden_db = [feed_fern]"
    by (simp_all add: pending_actions_def memStorage_def databaseStorage_def
        mem_getCareActionsForPlant_def db_getCareActionsForPlant_def select_where_def
        map_values_def garden_mem_def garden_db_def water_fern_def feed_fern_def
        example_engine_def)
  have c: "careActionId garden_mem = 3" "care_actions_id_seq garden_db = 3"
    by (simp_all add: garden_mem_def garden_db_def)
  have ok: "careAction_values_ok example_engine (next_action utc 1000 1 1 ''water'' 7)"
    "careAction_values_ok example_engine (next_action utc 1000 1 1 ''fertilize'' 30)"
    "int4 3"
    by (simp_all add: next_action_ok addDays_examples timestamp_ok_def example_engine_def
        int4_def text_ok_def)
  from inv m d f p c ok example_engine_returns_every_row
    completion_schedules_exactly_one_next_action
      [where st = garden_mem and sid = 1 and u = demo and aid = 1 and a = water_fern
         and p = fern and tz = utc and now = 1000 and f = 30 and db = garden_db
         and E = example_engine and v = demo and b = water_fern and q = fern]
    completion_schedules_exactly_one_next_action
      [where st = garden_mem and sid = 1 and u = demo and aid = 2 and a = feed_fern
         and p = fern and tz = utc and now = 1000 and f = 30 and db = garden_db
         and E = example_engine and v = demo and b = feed_fern and q = fern]
  show ?thesis by (simp add: addDays_examples TimeClip_def)
qed

section \<open>MemStorage and DatabaseStorage side by side\<close>

subsection \<open>A map and its table\<close>

lemma tables_agree_empty: "tables_agree R idf n [] []"
  by (simp add: tables_agree_def)

lemma tables_agree_Cons:
  "tables_agree R idf n ((k, x) # m) (row # rows) \<longleftrightarrow>
     k \<notin> fst ` set m \<and> idf x = k \<and> idf row = k \<and> k < n \<and> R x row \<and>
     tables_agree R idf n m rows"
  by (auto simp add: tables_agree_def)

lemma tables_agree_cases:
  assumes "tables_agree R idf n m rows"
  shows "(m = [] \<and> rows = []) \<or>
         (\<exists>k x m' row rows'. m = (k, x) # m' \<and> rows = row # rows' \<and>
            k \<notin> fst ` set m' \<and> idf x = k \<and> idf row = k \<and> k < n \<and> R x row \<and>
            tables_agree R idf n m' rows')"
proof (cases m)
  case Nil
  with assms show ?thesis by (simp add: tables_agree_def)
next
  case (Cons kx m')
  with assms obtain row rows' where "rows = row # rows'"
    by (auto simp add: tables_agree_def list_all2_Cons1)
  with assms Cons show ?thesis
    by (cases kx) (auto simp add: tables_agree_Cons)
qed

lemma tables_agree_induct [consumes 1, case_names Nil Cons]:
  assumes "tables_agree R idf n m rows"
    and "P [] []"
    and "\<And>k x m row rows. k \<notin> fst ` set m \<Longrightarrow> idf x = k \<Longrightarrow> idf row = k \<Longrightarrow> k < n \<Longrightarrow>
           R x row \<Longrightarrow> tables_agree R idf n m rows \<Longrightarrow> P m rows \<Longrightarrow>
           P ((k, x) # m) (row # rows)"
  shows "P m rows"
  using assms(1)
proof (induction m arbitrary: rows)
  case Nil
  then show ?case using assms(2) by (simp add: tables_agree_def)
next
  case (Cons kx m)
  from tables_agree_cases [OF Cons.prems] obtain k x row rows' where
    *: "kx = (k, x)" "rows = row # rows'" "k \<notin> fst ` set m" "idf x = k" "idf row = k" "k < n"
       "R x row" "tables_agree R idf n m rows'"
    by auto
  from assms(3) [OF *(3-8) Cons.IH [OF *(8)]] * show ?case by simp
qed

lemma tables_agree_keys:
  "tables_agree R idf n m rows \<Longrightarrow> map fst m = map idf rows"
  by (induction rule: tables_agree_induct) simp_all


lemma tables_agree_mono:
  "tables_agree R idf n m rows \<Longrightarrow> n \<le> n' \<Longrightarrow> (\<And>x row. R x row \<Longrightarrow> R' x row) \<Longrightarrow>
   tables_agree R' idf n' m rows"
  by (induction rule: tables_agree_induct) (auto simp add: tables_agree_empty tables_agree_Cons)








subsection \<open>Lists up to order\<close>




subsection \<open>Rows that agree\<close>














subsection \<open>Method by method\<close>


























subsection \<open>Call by call\<close>









end
